(* ===== verification/Prelude.thy ===== *)
theory Prelude
  imports Complex_Main
begin

text \<open>
  Shared vocabulary of the model of \<open>src/app.js\<close>: the types that stand for
  JavaScript values, the collection of definitions that the component proofs unfold,
  and generic facts on lists and iterated functions that more than one component
  uses (the last-match-wins scan of \<open>updateActiveNavLink\<close>, the repeated
  toggling of \<open>toggleMobileMenu\<close>).
\<close>

named_theorems page_defs "definitions of the page model unfolded by component proofs"
named_theorems core_eq_rules "page handlers that keep every field the page invariant reads"
named_theorems untouched_rules "page handlers that keep the listeners, the form and the buttons' disabled state"

text \<open>
  JavaScript numbers are modelled as exact rationals: the program only adds,
  multiplies and divides them, and none of its branches depends on rounding.
  Times are milliseconds (\<open>nat\<close>), viewport sizes are integers
  (\<open>window.innerWidth\<close> is an integer), elements of the document are named by
  numbers.
\<close>

type_synonym js_number = rat
type_synonym px = rat
type_synonym ms = nat
type_synonym elem = nat

subsection \<open>Scans that keep the last match\<close>

text \<open>
  A \<open>forEach\<close> loop that overwrites an accumulator whenever an element matches
  leaves the value of the last matching element, or the initial value if none
  matches.
\<close>

lemma fold_last_match:
  "fold (\<lambda>x c. if P x then f x else c) xs c0 =
     (if filter P xs = [] then c0 else f (last (filter P xs)))"
  by (induction xs arbitrary: c0) auto

lemma fold_last_match_none:
  "\<forall>x\<in>set xs. \<not> P x \<Longrightarrow> fold (\<lambda>x c. if P x then f x else c) xs c0 = c0"
  by (simp add: fold_last_match filter_empty_conv)

subsection \<open>Iterated toggling\<close>

lemma funpow_invariant: "P x \<Longrightarrow> (\<And>y. P y \<Longrightarrow> P (f y)) \<Longrightarrow> P ((f ^^ n) x)"
  by (induction n) auto

lemma funpow_Not [simp]: "(Not ^^ n) b = (if even n then b else \<not> b)"
  by (induction n) auto

end
