(* ===== verification/Dom.thy ===== *)
theory Dom
  imports Prelude
begin

text \<open>
  The parts of the browser document that \<open>src/app.js\<close> reads and writes.
  \<^item> The static document (\<open>document\<close>): the answers of \<open>getElementById\<close>,
    \<open>querySelectorAll\<close> (on the document and on an element), attributes and
    layout numbers. The code never adds elements that it later queries, so these
    are fixed for a page load.
  \<^item> The inline style of each element (\<open>style\<close>), the properties the code
    assigns. A transform is a list of CSS transform functions: assigning a string
    replaces the list, \<open>style.transform += ' f(...)'\<close> appends one function, and
    \<open>'none'\<close> and the empty string are both the empty list.
  \<^item> The class list of each element as a set of class names (\<open>classList\<close>).
\<close>

datatype css_transform =
    Translate3d px px   \<comment> \<open>\<open>translate3d(xpx, ypx, 0)\<close>\<close>
  | TranslateY px       \<comment> \<open>\<open>translateY(ypx)\<close>\<close>
  | Scale rat           \<comment> \<open>\<open>scale(s)\<close>\<close>
  | Rotate int          \<comment> \<open>\<open>rotate(ddeg)\<close>\<close>
  | Translate px px     \<comment> \<open>\<open>translate(xpx, ypx)\<close>\<close>

datatype background =
    BgUnset                 \<comment> \<open>\<open>''\<close>: no inline background\<close>
  | BgRgbaWhite rat         \<comment> \<open>\<open>rgba(255, 255, 255, a)\<close>\<close>
  | BgGradient string       \<comment> \<open>a \<open>linear-gradient(...)\<close> literal\<close>

record style =
  transform :: "css_transform list"
  opacity :: string
  transition :: string
  box_shadow :: string
  background :: background
  width :: string
  left :: string

definition empty_style :: style where
  "empty_style = \<lparr>transform = [], opacity = [], transition = [], box_shadow = [],
     background = BgUnset, width = [], left = []\<rparr>"

type_synonym styles = "elem \<Rightarrow> style"
type_synonym class_lists = "elem \<Rightarrow> string set"

record document =
  by_id :: "string \<Rightarrow> elem option"          \<comment> \<open>\<open>document.getElementById\<close>\<close>
  select_all :: "string \<Rightarrow> elem list"       \<comment> \<open>\<open>document.querySelectorAll\<close>, document order\<close>
  select_in :: "elem \<Rightarrow> string \<Rightarrow> elem list" \<comment> \<open>\<open>el.querySelectorAll\<close>\<close>
  attr :: "elem \<Rightarrow> string \<Rightarrow> string option" \<comment> \<open>\<open>getAttribute\<close>, \<open>dataset\<close>\<close>
  offset_top :: "elem \<Rightarrow> px"                \<comment> \<open>\<open>el.offsetTop\<close>\<close>
  client_height :: "elem \<Rightarrow> px"             \<comment> \<open>\<open>el.clientHeight\<close>\<close>
  default_value :: "string \<Rightarrow> string option"  \<comment> \<open>the contact form's controls by name\<close>
  rect :: "elem \<Rightarrow> px \<times> px \<times> px \<times> px"   \<comment> \<open>\<open>getBoundingClientRect()\<close>: left, top, width, height\<close>
  body_el :: elem                         \<comment> \<open>\<open>document.body\<close>\<close>
  service_worker :: bool                  \<comment> \<open>\<open>'serviceWorker' in navigator\<close>\<close>
  ancestors :: "elem \<Rightarrow> elem list"        \<comment> \<open>the \<open>parentElement\<close> chain, innermost first\<close>
  child_index :: "elem \<Rightarrow> nat"           \<comment> \<open>position among the parent's element children, from 1\<close>

definition first_of :: "elem list \<Rightarrow> elem option" where
  "first_of es = (case es of [] \<Rightarrow> None | e # _ \<Rightarrow> Some e)"

definition query_selector :: "document \<Rightarrow> string \<Rightarrow> elem option" where
  "query_selector d sel = first_of (select_all d sel)"

definition query_in :: "document \<Rightarrow> elem \<Rightarrow> string \<Rightarrow> elem option" where
  "query_in d e sel = first_of (select_in d e sel)"

subsection \<open>Writing styles and classes\<close>

definition set_style :: "elem \<Rightarrow> (style \<Rightarrow> style) \<Rightarrow> styles \<Rightarrow> styles" where
  "set_style e f st = st(e := f (st e))"

definition append_transform :: "elem \<Rightarrow> css_transform \<Rightarrow> styles \<Rightarrow> styles" where
  "append_transform e t st = set_style e (\<lambda>s. s\<lparr>transform := transform s @ [t]\<rparr>) st"

definition class_add :: "elem \<Rightarrow> string \<Rightarrow> class_lists \<Rightarrow> class_lists" where
  "class_add e c cl = cl(e := insert c (cl e))"

definition class_remove :: "elem \<Rightarrow> string \<Rightarrow> class_lists \<Rightarrow> class_lists" where
  "class_remove e c cl = cl(e := cl e - {c})"

definition class_toggle :: "elem \<Rightarrow> string \<Rightarrow> class_lists \<Rightarrow> class_lists" where
  "class_toggle e c cl = (if c \<in> cl e then class_remove e c cl else class_add e c cl)"

lemmas dom_write_defs [page_defs] =
  set_style_def append_transform_def class_add_def class_remove_def class_toggle_def

lemma set_style_other [simp]: "e' \<noteq> e \<Longrightarrow> set_style e f st e' = st e'"
  by (simp add: set_style_def)

lemma set_style_same [simp]: "set_style e f st e = f (st e)"
  by (simp add: set_style_def)

lemma transform_append_transform [simp]:
  "transform (append_transform e t st e') =
     (if e' = e then transform (st e) @ [t] else transform (st e'))"
  by (simp add: append_transform_def)

text \<open>A \<open>forEach\<close> that appends one transform per element it visits.\<close>

lemma transform_fold_append:
  "transform (fold (\<lambda>x st. append_transform (tgt x) (val x) st) xs st e) =
     transform (st e) @ map val (filter (\<lambda>x. tgt x = e) xs)"
  by (induction xs arbitrary: st) auto

lemma background_fold_append:
  "background (fold (\<lambda>x st. append_transform (tgt x) (val x) st) xs st e) = background (st e)"
  by (induction xs arbitrary: st) (simp_all add: append_transform_def set_style_def)

lemma class_toggle_member [simp]:
  "c \<in> class_toggle e c cl e' \<longleftrightarrow> (if e' = e then c \<notin> cl e else c \<in> cl e')"
  by (auto simp: class_toggle_def class_add_def class_remove_def)

lemma class_toggle_other_class [simp]:
  "c' \<noteq> c \<Longrightarrow> c' \<in> class_toggle e c cl e' \<longleftrightarrow> c' \<in> cl e'"
  by (auto simp: class_toggle_def class_add_def class_remove_def)

end
