(* ===== verification/Timers.thy ===== *)
theory Timers
  imports Prelude
begin

text \<open>
  The browser's timer queue, which every delayed effect of \<open>src/app.js\<close> goes
  through (\<open>setTimeout\<close> in \<open>animateSkills\<close>, \<open>animateElement\<close>,
  \<open>animateSkillBar\<close>, \<open>setupProjectCards\<close>, \<open>animateButton\<close>,
  \<open>createRipple\<close>, \<open>handleFormSubmit\<close> and the \<open>DOMContentLoaded\<close> handler).
  The queue is generic in the type of callbacks \<open>'a\<close>. A callback is run by a
  handler \<open>'a \<Rightarrow> 's \<Rightarrow> 's \<times> (ms \<times> 'a) list\<close>: it changes the page
  state and returns the \<open>setTimeout(cb, delay)\<close> calls it makes, in program
  order. Timers fire in order of due time, and among equal due times in order of
  creation; no timer is ever cancelled (the program has no \<open>clearTimeout\<close>).
  Running the queue up to a time is fuel-bounded, since a callback may schedule
  further callbacks; the fuel counts fired callbacks.
\<close>

record 'a timer_queue =
  now :: ms
  next_id :: nat
  pending :: "(ms \<times> nat \<times> 'a) list"   \<comment> \<open>due time, creation number, callback\<close>

definition empty_queue :: "'a timer_queue" where
  "empty_queue = \<lparr>now = 0, next_id = 0, pending = []\<rparr>"

definition set_timeout :: "ms \<Rightarrow> 'a \<Rightarrow> 'a timer_queue \<Rightarrow> 'a timer_queue" where
  "set_timeout d f q =
     q\<lparr>next_id := Suc (next_id q), pending := pending q @ [(now q + d, next_id q, f)]\<rparr>"

fun schedule :: "(ms \<times> 'a) list \<Rightarrow> 'a timer_queue \<Rightarrow> 'a timer_queue" where
  "schedule [] q = q"
| "schedule ((d, f) # ts) q = schedule ts (set_timeout d f q)"

text \<open>The first pending entry with the least due time.\<close>

fun earliest :: "(ms \<times> nat \<times> 'a) list \<Rightarrow> (ms \<times> nat \<times> 'a) option" where
  "earliest [] = None"
| "earliest (x # xs) =
     (case earliest xs of
        None \<Rightarrow> Some x
      | Some y \<Rightarrow> if fst y < fst x then Some y else Some x)"

definition next_timer :: "ms \<Rightarrow> 'a timer_queue \<Rightarrow> ('a \<times> 'a timer_queue) option" where
  "next_timer t q =
     (case earliest (pending q) of
        None \<Rightarrow> None
      | Some (d, i, f) \<Rightarrow>
          if d \<le> t
          then Some (f, q\<lparr>now := max (now q) d, pending := remove1 (d, i, f) (pending q)\<rparr>)
          else None)"

text \<open>
  \<open>run_until fuel h t (s, q)\<close> lets the clock run to time \<open>t\<close>: it fires every
  timer that is due by then, the ones the fired callbacks schedule included, and
  returns \<open>None\<close> only when the fuel runs out first.
\<close>

fun run_until ::
  "nat \<Rightarrow> ('a \<Rightarrow> 's \<Rightarrow> 's \<times> (ms \<times> 'a) list) \<Rightarrow> ms \<Rightarrow> 's \<times> 'a timer_queue
     \<Rightarrow> ('s \<times> 'a timer_queue) option" where
  "run_until 0 h t (s, q) =
     (case next_timer t q of
        None \<Rightarrow> Some (s, q\<lparr>now := max (now q) t\<rparr>)
      | Some _ \<Rightarrow> None)"
| "run_until (Suc n) h t (s, q) =
     (case next_timer t q of
        None \<Rightarrow> Some (s, q\<lparr>now := max (now q) t\<rparr>)
      | Some (f, q') \<Rightarrow> (let (s', ts) = h f s in run_until n h t (s', schedule ts q')))"

text \<open>
  The work left in a queue, for a bound \<open>d f\<close> on the number of callbacks that
  callback \<open>f\<close> goes on to schedule, directly or transitively: each pending
  timer counts itself and its descendants.
\<close>

definition calls_weight :: "('a \<Rightarrow> nat) \<Rightarrow> (ms \<times> 'a) list \<Rightarrow> nat" where
  "calls_weight d ts = sum_list (map (\<lambda>(_, f). Suc (d f)) ts)"

definition queue_weight :: "('a \<Rightarrow> nat) \<Rightarrow> 'a timer_queue \<Rightarrow> nat" where
  "queue_weight d q = sum_list (map (\<lambda>(_, _, f). Suc (d f)) (pending q))"

text \<open>
  A well-formed queue: creation numbers are distinct and below the counter, and
  no pending timer is due before the clock.
\<close>

definition queue_wf :: "'a timer_queue \<Rightarrow> bool" where
  "queue_wf q \<longleftrightarrow>
     distinct (map (\<lambda>(_, i, _). i) (pending q)) \<and>
     (\<forall>x\<in>set (pending q). fst (snd x) < next_id q \<and> now q \<le> fst x)"

lemmas timer_defs [page_defs] = set_timeout_def next_timer_def empty_queue_def

subsection \<open>Scheduling\<close>

lemma schedule_fields [simp]:
  "now (schedule ts q) = now q" "next_id (schedule ts q) = next_id q + length ts"
  by (induction ts arbitrary: q) (auto simp: set_timeout_def)

lemma schedule_pending:
  "pending (schedule ts q) =
     pending q @ map (\<lambda>(k, d, f). (now q + d, k, f)) (enumerate (next_id q) ts)"
  by (induction ts arbitrary: q) (auto simp: set_timeout_def)

lemma queue_wf_empty: "queue_wf empty_queue"
  by (simp add: queue_wf_def empty_queue_def)

lemma queue_wf_set_timeout: "queue_wf q \<Longrightarrow> queue_wf (set_timeout d f q)"
  by (auto simp: queue_wf_def set_timeout_def)

lemma queue_wf_schedule: "queue_wf q \<Longrightarrow> queue_wf (schedule ts q)"
  by (induction ts q rule: schedule.induct) (simp_all add: queue_wf_set_timeout)

subsection \<open>The earliest entry\<close>

lemma earliest_None [simp]: "earliest xs = None \<longleftrightarrow> xs = []"
  by (induction xs) (auto split: option.splits)

lemma earliest_in: "earliest xs = Some x \<Longrightarrow> x \<in> set xs"
  by (induction xs arbitrary: x) (auto split: option.splits if_splits)

lemma earliest_least: "earliest xs = Some x \<Longrightarrow> y \<in> set xs \<Longrightarrow> fst x \<le> fst y"
proof (induction xs arbitrary: x)
  case Nil
  then show ?case by simp
next
  case (Cons z zs)
  then show ?case
    by (cases "earliest zs") (force split: if_splits)+
qed

lemma next_timer_None:
  "next_timer t q = None \<longleftrightarrow> (\<forall>x\<in>set (pending q). t < fst x)"
proof (cases "earliest (pending q)")
  case None
  then show ?thesis by (simp add: next_timer_def)
next
  case (Some x)
  then have "x \<in> set (pending q)" and "\<forall>y\<in>set (pending q). fst x \<le> fst y"
    by (auto intro: earliest_in earliest_least)
  with Some show ?thesis
    by (cases x) (force simp: next_timer_def)
qed

lemma next_timer_Some:
  assumes "next_timer t q = Some (f, q')"
  shows "\<exists>d i. (d, i, f) \<in> set (pending q) \<and> d \<le> t \<and>
           (\<forall>y\<in>set (pending q). d \<le> fst y) \<and>
           pending q' = remove1 (d, i, f) (pending q) \<and> next_id q' = next_id q"
proof -
  obtain d i g where e: "earliest (pending q) = Some (d, i, g)"
    using assms by (cases "earliest (pending q)") (auto simp: next_timer_def)
  with assms have "g = f" and "d \<le> t"
    and "pending q' = remove1 (d, i, f) (pending q)" and "next_id q' = next_id q"
    by (auto simp: next_timer_def split: if_splits)
  with e show ?thesis
    by (metis earliest_in earliest_least fst_conv)
qed

lemma length_next_timer:
  "next_timer t q = Some (f, q') \<Longrightarrow> length (pending q') = length (pending q) - 1"
  by (auto dest!: next_timer_Some simp: length_remove1)

lemma queue_wf_next_timer:
  assumes "queue_wf q" and "next_timer t q = Some (f, q')"
  shows "queue_wf q' \<and> now q \<le> now q'"
proof -
  obtain d i g where e: "earliest (pending q) = Some (d, i, g)"
    using assms(2) by (cases "earliest (pending q)") (auto simp: next_timer_def)
  with assms(2) have q': "q' = q\<lparr>now := max (now q) d, pending := remove1 (d, i, f) (pending q)\<rparr>"
    by (auto simp: next_timer_def split: if_splits)
  from e have least: "\<forall>y\<in>set (pending q). d \<le> fst y" by (auto dest: earliest_least)
  have p: "pending q' = remove1 (d, i, f) (pending q)" and n: "next_id q' = next_id q"
    and c: "now q' = max (now q) d" by (simp_all add: q')
  have "distinct (map (\<lambda>(_, i, _). i) (remove1 (d, i, f) (pending q)))"
    using assms(1) unfolding queue_wf_def distinct_map
    by (meson distinct_remove1 inj_on_subset set_remove1_subset)
  moreover have "\<forall>y\<in>set (remove1 (d, i, f) (pending q)). fst (snd y) < next_id q \<and> max (now q) d \<le> fst y"
    using assms(1) least set_remove1_subset [of "(d, i, f)" "pending q"] by (auto simp: queue_wf_def)
  ultimately show ?thesis by (simp add: queue_wf_def p n c)
qed

lemma queue_wf_advance:
  "queue_wf q \<Longrightarrow> next_timer t q = None \<Longrightarrow> queue_wf (q\<lparr>now := max (now q) t\<rparr>)"
  by (auto simp: queue_wf_def next_timer_None)

subsection \<open>Running the queue\<close>

text \<open>When the run returns, no timer due by the target time is left: no callback is lost.\<close>

lemma run_until_all_fired:
  "run_until n h t (s, q) = Some (s', q') \<Longrightarrow> \<forall>x\<in>set (pending q'). t < fst x"
proof (induction n h t "(s, q)" arbitrary: s q rule: run_until.induct)
  case (1 h t s q)
  then show ?case by (auto simp: next_timer_None split: option.splits)
next
  case (2 n h t s q)
  then show ?case
    by (auto simp: next_timer_None split: option.splits prod.splits)
qed

lemma run_until_clock:
  "run_until n h t (s, q) = Some (s', q') \<Longrightarrow> t \<le> now q'"
  by (induction n h t "(s, q)" arbitrary: s q rule: run_until.induct)
     (auto split: option.splits prod.splits)

text \<open>More fuel never changes a result.\<close>

lemma run_until_Suc:
  "run_until n h t (s, q) = Some r \<Longrightarrow> run_until (Suc n) h t (s, q) = Some r"
proof (induction n arbitrary: s q)
  case 0
  then show ?case by (simp split: option.splits)
next
  case (Suc n)
  show ?case
  proof (cases "next_timer t q")
    case None
    with Suc.prems show ?thesis by simp
  next
    case (Some p)
    obtain f q' where p: "p = (f, q')" by (cases p)
    obtain s' ts where h: "h f s = (s', ts)" by (cases "h f s")
    from Suc.prems Some p h have "run_until n h t (s', schedule ts q') = Some r"
      by simp
    then have "run_until (Suc n) h t (s', schedule ts q') = Some r"
      by (rule Suc.IH)
    with Some p h show ?thesis by simp
  qed
qed

lemma run_until_mono:
  "run_until n h t (s, q) = Some r \<Longrightarrow> n \<le> m \<Longrightarrow> run_until m h t (s, q) = Some r"
proof (induction m)
  case 0
  then show ?case by simp
next
  case (Suc m)
  show ?case
  proof (cases "n = Suc m")
    case True
    with Suc.prems show ?thesis by simp
  next
    case False
    with Suc.prems have "run_until m h t (s, q) = Some r"
      by (intro Suc.IH) auto
    then show ?thesis by (rule run_until_Suc)
  qed
qed

lemma queue_weight_schedule:
  "queue_weight d (schedule ts q) = queue_weight d q + calls_weight d ts"
  by (induction ts arbitrary: q) (auto simp: queue_weight_def calls_weight_def set_timeout_def)

lemma queue_weight_empty [simp]: "queue_weight d q = 0 \<longleftrightarrow> pending q = []"
  by (cases "pending q") (auto simp: queue_weight_def split: prod.splits)

lemma queue_weight_next_timer:
  "next_timer t q = Some (f, q') \<Longrightarrow> queue_weight d q = Suc (d f) + queue_weight d q'"
  by (auto dest!: next_timer_Some simp: queue_weight_def sum_list_map_remove1)

text \<open>
  Enough fuel: when no callback schedules more work than its bound \<open>d\<close>
  promises, the queue's weight is enough fuel to fire everything due.
\<close>

lemma run_until_weight_terminates:
  assumes "\<forall>f s. calls_weight d (snd (h f s)) \<le> d f"
  shows "queue_weight d q \<le> n \<Longrightarrow> \<exists>r. run_until n h t (s, q) = Some r"
proof (induction n arbitrary: s q)
  case 0
  then show ?case by (simp add: next_timer_def)
next
  case (Suc n)
  show ?case
  proof (cases "next_timer t q")
    case None
    then show ?thesis by simp
  next
    case (Some p)
    obtain f q' where p: "p = (f, q')" by (cases p)
    obtain s' ts where h: "h f s = (s', ts)" by (cases "h f s")
    from assms h have "calls_weight d ts \<le> d f" by (metis snd_conv)
    moreover from Some p have "queue_weight d q = Suc (d f) + queue_weight d q'"
      by (simp add: queue_weight_next_timer)
    ultimately have "queue_weight d (schedule ts q') \<le> n"
      using Suc.prems by (simp add: queue_weight_schedule)
    then obtain r where "run_until n h t (s', schedule ts q') = Some r"
      using Suc.IH by blast
    with Some p h show ?thesis by auto
  qed
qed

text \<open>When no callback schedules another one, one unit of fuel per pending timer is enough.\<close>

lemma run_until_leaf_terminates:
  assumes "\<forall>f s. snd (h f s) = []"
  shows "length (pending q) \<le> n \<Longrightarrow> \<exists>r. run_until n h t (s, q) = Some r"
proof -
  have "(\<Sum>(_, _, f)\<leftarrow>xs. Suc 0) = length xs" for xs :: "(ms \<times> nat \<times> 'a) list"
    by (induction xs) auto
  then have w: "queue_weight (\<lambda>_. 0) q = length (pending q)" for q :: "'a timer_queue"
    by (simp add: queue_weight_def)
  assume "length (pending q) \<le> n"
  then show ?thesis
    using run_until_weight_terminates [of "\<lambda>_. 0" h q n t s] assms
    by (simp add: w calls_weight_def)
qed

end
