(* ===== verification/State.thy ===== *)
theory State
  imports Dom Timers
begin

text \<open>
  The state of a page running \<open>src/app.js\<close>: the fields of the single
  \<open>CloudPortfolio\<close> object (\<open>this.navbar\<close> \<dots> \<open>this.parallaxElements\<close>), the
  mutable parts of the page that its methods write, and the callbacks it hands to
  \<open>setTimeout\<close> and \<open>requestAnimationFrame\<close>. Every component theory works on
  this one record, as every method of the class works on \<open>this\<close>; the timer
  queue is kept beside it (\<open>world\<close>), and a handler returns the timers it sets.
\<close>

subsection \<open>Callbacks\<close>

text \<open>One constructor per closure passed to \<open>setTimeout\<close>, with the values it captures.\<close>

datatype task =
    SkillHide elem                 \<comment> \<open>\<open>animateSkills\<close>, outer timer (\<open>index * 200\<close> ms)\<close>
  | SkillShow elem                 \<comment> \<open>\<open>animateSkills\<close>, inner timer (100 ms)\<close>
  | EntranceShow elem              \<comment> \<open>\<open>animateElement\<close> (100 ms)\<close>
  | SkillBarFill elem "string option" \<comment> \<open>\<open>animateSkillBar\<close>: bar and \<open>level\<close> (500 ms)\<close>
  | TouchEndRemove elem            \<comment> \<open>\<open>setupProjectCards\<close>, \<open>touchend\<close> (150 ms)\<close>
  | GlowSweep elem                 \<comment> \<open>\<open>animateButton\<close> (50 ms)\<close>
  | RippleRemove nat               \<comment> \<open>\<open>createRipple\<close> (600 ms)\<close>
  | FormSent elem string           \<comment> \<open>\<open>handleFormSubmit\<close>: button, \<open>originalText\<close> (1500 ms)\<close>
  | FormReset elem string          \<comment> \<open>\<open>handleFormSubmit\<close>, nested (2000 ms)\<close>
  | BodyLoaded                     \<comment> \<open>\<open>DOMContentLoaded\<close> handler (500 ms)\<close>

text \<open>The only closure passed to \<open>requestAnimationFrame\<close> (in \<open>requestTick\<close>).\<close>

datatype frame_cb = ParallaxFrame

subsection \<open>Page objects created by the code\<close>

record particle =
  p_left :: rat       \<comment> \<open>\<open>left\<close>, percent\<close>
  p_top :: rat        \<comment> \<open>\<open>top\<close>, percent\<close>
  p_duration :: rat   \<comment> \<open>\<open>animation\<close> duration, seconds\<close>
  p_delay :: rat      \<comment> \<open>\<open>animation-delay\<close>, seconds\<close>

record ripple =
  r_button :: elem
  r_left :: px
  r_top :: px
  r_size :: px

text \<open>An exception thrown out of a listener: the listener stops there, the page goes on.\<close>

datatype js_error = TypeError string

datatype log_entry =
    LogInitializing
  | LogInitialized
  | LogFormSubmitted "string option" "string option" "string option"
  | LogServiceWorker
  | LogPageLoadTime js_number

subsection \<open>The state\<close>

record portfolio =
  navbar :: "elem option"
  hamburger :: "elem option"
  navMenu :: "elem option"
  contactForm :: "elem option"
  particles :: "elem option"
  mouseX :: js_number
  mouseY :: js_number
  ticking :: bool
  isMobile :: bool
  parallaxElements :: "(elem option \<times> js_number) list option" \<comment> \<open>\<open>None\<close>: never assigned\<close>
  doc :: document
  inner_width :: int
  inner_height :: int
  page_y :: px                          \<comment> \<open>\<open>window.pageYOffset\<close>\<close>
  styles :: styles
  classes :: class_lists
  mousemove_listener :: bool            \<comment> \<open>the \<open>mousemove\<close> listener was added\<close>
  card_touch_listeners :: bool          \<comment> \<open>the \<open>touchstart\<close>/\<open>touchend\<close> listeners were added\<close>
  nav_link_listeners :: nat             \<comment> \<open>click listeners added by \<open>toggleMobileMenu\<close>\<close>
  particle_nodes :: "particle list"     \<comment> \<open>children of the particle container\<close>
  ripples :: "(nat \<times> ripple) list"     \<comment> \<open>ripple spans in the document\<close>
  next_ripple :: nat
  button_text :: "elem \<Rightarrow> string"
  button_disabled :: "elem \<Rightarrow> bool"
  form_values :: "string \<Rightarrow> string option"
  frames :: "frame_cb list"             \<comment> \<open>pending animation-frame callbacks\<close>
  style_ids :: "string set"             \<comment> \<open>ids of injected \<open><style>\<close> elements\<close>
  rand :: "nat \<Rightarrow> rat"                  \<comment> \<open>the values \<open>Math.random()\<close> returns, in order\<close>
  rand_used :: nat
  console :: "log_entry list"
  scroll_calls :: "px list"              \<comment> \<open>\<open>window.scrollTo({top, behavior: 'smooth'})\<close> calls\<close>
  uncaught :: "js_error list"           \<comment> \<open>exceptions thrown by listeners\<close>

type_synonym world = "portfolio \<times> task timer_queue"

text \<open>A handler's result: the new state and the \<open>setTimeout\<close> calls it made.\<close>

type_synonym effect = "portfolio \<times> (ms \<times> task) list"

definition math_random :: "portfolio \<Rightarrow> rat \<times> portfolio" where
  "math_random s = (rand s (rand_used s), s\<lparr>rand_used := Suc (rand_used s)\<rparr>)"

text \<open>\<open>window.innerWidth <= 768\<close>, in \<open>init\<close> and \<open>handleResize\<close>.\<close>

definition mobile_width :: "int \<Rightarrow> bool" where
  "mobile_width w \<longleftrightarrow> w \<le> 768"

subsection \<open>\<open>init\<close>\<close>

definition init :: "portfolio \<Rightarrow> portfolio" where
  "init s = s\<lparr>navbar := by_id (doc s) ''navbar'',
              hamburger := by_id (doc s) ''hamburger'',
              navMenu := by_id (doc s) ''nav-menu'',
              contactForm := by_id (doc s) ''contact-form'',
              particles := by_id (doc s) ''particles'',
              mouseX := 0, mouseY := 0,
              ticking := False,
              isMobile := mobile_width (inner_width s),
              console := console s @ [LogInitialized]\<rparr>"

end
