(* ===== verification/Demo.thy ===== *)
theory Demo
  imports State
begin

text \<open>
  A concrete page on which the handlers are evaluated by the witnesses of the
  component theories: a desktop window (1280 by 800) over a document with every
  named element of \<open>index.html\<close> that \<open>src/app.js\<close> looks up. The three
  sections have the vertical extents of the spec's example: \<open>[0, 300)\<close>,
  \<open>[300, 700)\<close> and \<open>[700, 1200)\<close> once the 100px header offset of
  \<open>updateActiveNavLink\<close> is applied.
  Element numbers: 0 the body, 1 navbar, 2 hamburger, 3 menu panel, 4 contact form,
  5 particle container, 10--13 the four clouds, 14--15 servers, 16 hero visual,
  20--22 hamburger bars, 30--32 navigation links, 40--42 sections, 50 submit
  button, 60 project card, 70 skill item, 71 its progress bar, 80 call-to-action
  button, 81 its glow.
\<close>

definition demo_ids :: "(string \<times> elem) list" where
  "demo_ids = [(''navbar'', 1), (''hamburger'', 2), (''nav-menu'', 3),
     (''contact-form'', 4), (''particles'', 5),
     (''home'', 40), (''about'', 41), (''contact'', 42)]"

definition demo_selectors :: "(string \<times> elem list) list" where
  "demo_selectors = [(''.cloud-1'', [10]), (''.cloud-2'', [11]), (''.cloud-3'', [12]),
     (''.cloud-4'', [13]), (''.server-1'', [14]), (''.server-2'', [15]),
     (''.hero-visual'', [16]), (''.floating-cloud'', [10, 11, 12, 13]),
     (''section[id]'', [40, 41, 42]), (''.nav-link'', [30, 31, 32]),
     (''a[href^=\"#\"]'', [30, 31, 32]), (''.skill-item'', [70]),
     (''.project-card'', [60]), (''.cta-button'', [80]),
     (''.skill-item, .project-card, .contact-card, .about-card'', [70, 60])]"

definition demo_children :: "((elem \<times> string) \<times> elem list) list" where
  "demo_children = [((2, ''.bar''), [20, 21, 22]), ((3, ''.nav-link''), [30, 31, 32]),
     ((4, ''button[type=\"submit\"]''), [50]), ((70, ''.skill-progress''), [71]),
     ((80, ''.btn-glow''), [81])]"

definition demo_attrs :: "((elem \<times> string) \<times> string) list" where
  "demo_attrs = [((30, ''href''), ''#home''), ((31, ''href''), ''#about''),
     ((32, ''href''), ''#contact''), ((40, ''id''), ''home''), ((41, ''id''), ''about''),
     ((42, ''id''), ''contact''), ((70, ''data-level''), ''90'')]"

definition demo_doc :: document where
  "demo_doc = \<lparr>by_id = map_of demo_ids,
     select_all = (\<lambda>sel. case map_of demo_selectors sel of None \<Rightarrow> [] | Some es \<Rightarrow> es),
     select_in = (\<lambda>e sel. case map_of demo_children (e, sel) of None \<Rightarrow> [] | Some es \<Rightarrow> es),
     attr = (\<lambda>e a. map_of demo_attrs (e, a)),
     offset_top = (\<lambda>e. if e = 40 then 100 else if e = 41 then 400 else if e = 42 then 800 else 0),
     client_height = (\<lambda>e. if e = 40 then 300 else if e = 41 then 400 else if e = 42 then 500 else 0),
     default_value = map_of [(''name'', []), (''email'', []), (''message'', [])],
     rect = (\<lambda>e. if e = 80 then (100, 500, 200, 50) else (0, 0, 0, 0)),
     body_el = 0, service_worker = True,
     ancestors = (\<lambda>e. if e = 0 then [] else if e \<in> {20, 21, 22} then [2, 1, 0]
                      else if e \<in> {2, 3} then [1, 0] else [0]),
     child_index = (\<lambda>e. if e = 21 then 2 else if e = 22 then 3 else 1)\<rparr>"

text \<open>A particle as \<open>createParticles\<close> makes them.\<close>

definition demo_particle :: particle where
  "demo_particle = \<lparr>p_left = 50, p_top = 50, p_duration = 7, p_delay = 1\<rparr>"

text \<open>The page before the constructor runs: nothing assigned, nothing scheduled.\<close>

definition demo_page :: portfolio where
  "demo_page = \<lparr>navbar = None, hamburger = None, navMenu = None, contactForm = None,
     particles = None, mouseX = 0, mouseY = 0, ticking = False, isMobile = False,
     parallaxElements = None, doc = demo_doc, inner_width = 1280, inner_height = 800,
     page_y = 0, styles = (\<lambda>_. empty_style), classes = (\<lambda>_. {}),
     mousemove_listener = False, card_touch_listeners = False, nav_link_listeners = 0,
     particle_nodes = [], ripples = [], next_ripple = 0,
     button_text = (\<lambda>e. if e = 50 then ''Send Message'' else []),
     button_disabled = (\<lambda>_. False),
     form_values = map_of [(''name'', ''Ada''), (''email'', ''ada@example.org''),
                           (''message'', ''Hello'')],
     frames = [], style_ids = {}, rand = (\<lambda>i. of_nat (i mod 10) / 10), rand_used = 0,
     console = [], scroll_calls = [], uncaught = []\<rparr>"

end
