(* ===== verification/Pointer.thy ===== *)
theory Pointer
  imports Demo
begin

text \<open>
  The pointer-driven parallax updater of \<open>src/app.js\<close>: the \<open>mousemove\<close>
  listener of \<open>setupEventListeners\<close> (lines 60--64), \<open>requestTick\<close>
  (183--191), \<open>updateParallax\<close> (171--181) and the animation frame that runs the
  callback \<open>requestTick\<close> queued. Pointer moves only record the normalised
  position; the \<open>ticking\<close> flag lets at most one frame callback wait, so a burst
  of moves before a frame leads to one parallax update, with the last position.
\<close>

definition normalize :: "px \<Rightarrow> int \<Rightarrow> js_number" where
  "normalize c extent = (c / of_int extent) * 2 - 1"

definition requestTick :: "portfolio \<Rightarrow> portfolio" where
  "requestTick s =
     (if \<not> ticking s then s\<lparr>frames := frames s @ [ParallaxFrame], ticking := True\<rparr> else s)"

text \<open>The \<open>mousemove\<close> listener, at client coordinates \<open>(cx, cy)\<close>.\<close>

definition on_mousemove :: "px \<Rightarrow> px \<Rightarrow> portfolio \<Rightarrow> portfolio" where
  "on_mousemove cx cy s =
     requestTick (s\<lparr>mouseX := normalize cx (inner_width s),
                   mouseY := normalize cy (inner_height s)\<rparr>)"

text \<open>One iteration of the \<open>forEach\<close> in \<open>updateParallax\<close>.\<close>

definition parallax_step ::
  "js_number \<Rightarrow> js_number \<Rightarrow> elem option \<times> js_number \<Rightarrow> styles \<Rightarrow> styles" where
  "parallax_step mx my item st =
     (case item of
        (None, _) \<Rightarrow> st
      | (Some e, speed) \<Rightarrow> append_transform e (Translate3d (mx * speed * 20) (my * speed * 20)) st)"

definition updateParallax :: "portfolio \<Rightarrow> portfolio" where
  "updateParallax s =
     (if isMobile s then s
      else case parallaxElements s of
        None \<Rightarrow> s
      | Some items \<Rightarrow> s\<lparr>styles := fold (parallax_step (mouseX s) (mouseY s)) items (styles s)\<rparr>)"

fun run_frame :: "frame_cb \<Rightarrow> portfolio \<Rightarrow> portfolio" where
  "run_frame ParallaxFrame s = (updateParallax s)\<lparr>ticking := False\<rparr>"

text \<open>
  A display frame runs the callbacks queued before it, in order; callbacks that
  they queue wait for the next frame.
\<close>

definition animation_frame :: "portfolio \<Rightarrow> portfolio" where
  "animation_frame s = fold run_frame (frames s) (s\<lparr>frames := []\<rparr>)"

definition mouse_moves :: "(px \<times> px) list \<Rightarrow> portfolio \<Rightarrow> portfolio" where
  "mouse_moves ps s = fold (\<lambda>(cx, cy). on_mousemove cx cy) ps s"

text \<open>The throttle invariant: a frame callback is pending exactly when \<open>ticking\<close> is set, and never twice.\<close>

definition frame_inv :: "portfolio \<Rightarrow> bool" where
  "frame_inv s \<longleftrightarrow> frames s = (if ticking s then [ParallaxFrame] else [])"

lemmas pointer_defs [page_defs] =
  normalize_def requestTick_def on_mousemove_def parallax_step_def updateParallax_def
  animation_frame_def mouse_moves_def frame_inv_def

subsection \<open>Frame bookkeeping\<close>

lemma updateParallax_frames [simp]:
  "frames (updateParallax s) = frames s" "ticking (updateParallax s) = ticking s"
  "inner_width (updateParallax s) = inner_width s"
  by (simp_all add: updateParallax_def split: option.splits)

lemma updateParallax_upd_frames:
  "updateParallax (s\<lparr>ticking := b, frames := fs\<rparr>) = (updateParallax s)\<lparr>ticking := b, frames := fs\<rparr>"
  by (simp add: updateParallax_def split: option.splits)

lemma on_mousemove_pending:
  "frame_inv s \<Longrightarrow>
   on_mousemove cx cy s = s\<lparr>mouseX := normalize cx (inner_width s),
     mouseY := normalize cy (inner_height s), ticking := True, frames := [ParallaxFrame]\<rparr>"
  by (simp add: on_mousemove_def requestTick_def frame_inv_def)

lemma mouse_moves_pending:
  "ps \<noteq> [] \<Longrightarrow> frame_inv s \<Longrightarrow>
   mouse_moves ps s = s\<lparr>mouseX := normalize (fst (last ps)) (inner_width s),
     mouseY := normalize (snd (last ps)) (inner_height s), ticking := True,
     frames := [ParallaxFrame]\<rparr>"
proof (induction ps arbitrary: s)
  case Nil
  then show ?case by simp
next
  case (Cons p ps)
  obtain cx cy where p: "p = (cx, cy)" by (cases p)
  let ?s' = "on_mousemove cx cy s"
  have s': "?s' = s\<lparr>mouseX := normalize cx (inner_width s),
     mouseY := normalize cy (inner_height s), ticking := True, frames := [ParallaxFrame]\<rparr>"
    using Cons.prems(2) by (rule on_mousemove_pending)
  show ?case
  proof (cases "ps = []")
    case True
    with p s' show ?thesis by (simp add: mouse_moves_def)
  next
    case False
    have "frame_inv ?s'" by (simp add: s' frame_inv_def)
    with False have "mouse_moves ps ?s' =
      ?s'\<lparr>mouseX := normalize (fst (last ps)) (inner_width ?s'),
        mouseY := normalize (snd (last ps)) (inner_height ?s'), ticking := True,
        frames := [ParallaxFrame]\<rparr>"
      by (rule Cons.IH)
    with p s' False show ?thesis by (simp add: mouse_moves_def)
  qed
qed

lemma on_mousemove_frame_inv: "frame_inv s \<Longrightarrow> frame_inv (on_mousemove cx cy s)"
  by (simp add: on_mousemove_pending frame_inv_def)

lemma animation_frame_frame_inv: "frame_inv s \<Longrightarrow> frame_inv (animation_frame s)"
  by (cases "ticking s") (simp_all add: frame_inv_def animation_frame_def)

subsection \<open>The parallax update\<close>

lemma transform_fold_parallax:
  "transform (fold (parallax_step mx my) items st e) =
     transform (st e) @
       map (\<lambda>(_, sp). Translate3d (mx * sp * 20) (my * sp * 20))
         (filter (\<lambda>(el, _). el = Some e) items)"
  by (induction items arbitrary: st) (auto simp: parallax_step_def split: option.splits)

text \<open>C1. Frame throttling (spec section 8): any burst of pointer moves before the
  next display frame leaves exactly one frame callback pending, and that frame
  performs exactly one parallax update, computed from the position of the last
  move, and clears the throttle flag.\<close>

theorem pointer_burst_single_update:
  assumes "ps \<noteq> []" and "frame_inv s"
  shows "frames (mouse_moves ps s) = [ParallaxFrame] \<and>
         animation_frame (mouse_moves ps s) =
           (updateParallax (s\<lparr>mouseX := normalize (fst (last ps)) (inner_width s),
                              mouseY := normalize (snd (last ps)) (inner_height s)\<rparr>))
             \<lparr>ticking := False, frames := []\<rparr>"
  using mouse_moves_pending [OF assms]
  by (simp add: animation_frame_def updateParallax_upd_frames)

theorem pointer_burst_single_update_witness:
  "frame_inv demo_page \<and>
   frames (mouse_moves [(100, 200), (640, 400)] demo_page) = [ParallaxFrame] \<and>
   animation_frame (mouse_moves [(100, 200), (640, 400)] demo_page) =
     (updateParallax (demo_page\<lparr>mouseX := normalize 640 (inner_width demo_page),
                                 mouseY := normalize 400 (inner_height demo_page)\<rparr>))
       \<lparr>ticking := False, frames := []\<rparr>"
proof -
  have inv: "frame_inv demo_page" by (simp add: frame_inv_def demo_page_def)
  have "[(100::px, 200::px), (640, 400)] \<noteq> []" by simp
  from pointer_burst_single_update [OF this inv] inv show ?thesis by simp
qed

text \<open>C2. The throttle invariant is kept by a pointer move and by a display frame:
  at any time at most one parallax frame callback is pending, and one is pending
  exactly when \<open>ticking\<close> is set.\<close>

theorem frame_inv_preserved:
  assumes "frame_inv s"
  shows "frame_inv (on_mousemove cx cy s) \<and> frame_inv (animation_frame s)"
  using assms by (simp add: on_mousemove_frame_inv animation_frame_frame_inv)

theorem frame_inv_preserved_witness:
  "frame_inv demo_page \<and> frame_inv (on_mousemove 10 20 demo_page) \<and>
   frame_inv (animation_frame demo_page)"
proof -
  have inv: "frame_inv demo_page" by (simp add: frame_inv_def demo_page_def)
  from frame_inv_preserved [OF inv] inv show ?thesis by simp
qed

text \<open>C3. Pointer normalisation (spec section 8): a pointer inside a viewport of
  positive extent is mapped to \<open>2 * c / extent - 1\<close>, which lies in \<open>[-1, 1]\<close>.\<close>

theorem normalize_bounds:
  assumes "0 < w" and "0 \<le> c" and "c \<le> of_int w"
  shows "-1 \<le> normalize c w \<and> normalize c w \<le> 1"
proof -
  have w: "(0::rat) < of_int w" using assms(1) by simp
  define x where "x = c / of_int w"
  have "0 \<le> x" using assms(2) w by (simp add: x_def)
  moreover have "x \<le> 1" using assms(3) w by (simp add: x_def divide_le_eq_1)
  ultimately have "-1 \<le> x * 2 - 1 \<and> x * 2 - 1 \<le> 1" by linarith
  then show ?thesis by (simp add: normalize_def x_def)
qed

theorem normalize_bounds_witness:
  "-1 \<le> normalize 0 1280 \<and> normalize 0 1280 \<le> 1 \<and> normalize 0 1280 = -1 \<and>
   normalize 1280 1280 = 1"
proof -
  have "(0::int) < 1280" "(0::px) \<le> 0" "(0::px) \<le> of_int (1280::int)" by simp_all
  from normalize_bounds [OF this] show ?thesis by (simp add: normalize_def)
qed

text \<open>C4. \<open>updateParallax\<close> on desktop appends to the transform of each bound element
  one \<open>translate3d(mouseX * speed * 20, mouseY * speed * 20)\<close> per binding of that
  element, in binding order, and leaves it unchanged when the element has no
  binding; the update is cumulative, not idempotent (spec section 4.1).\<close>

theorem updateParallax_transform:
  assumes "\<not> isMobile s" and "parallaxElements s = Some items"
  shows "transform (styles (updateParallax s) e) =
           transform (styles s e) @
             map (\<lambda>(_, sp). Translate3d (mouseX s * sp * 20) (mouseY s * sp * 20))
               (filter (\<lambda>(el, _). el = Some e) items)"
  using assms by (simp add: updateParallax_def transform_fold_parallax)

theorem updateParallax_transform_witness:
  "transform (styles (updateParallax (demo_page\<lparr>mouseX := 1, mouseY := -1,
       parallaxElements := Some [(Some 10, 1/2), (None, 1), (Some 11, -3/10)]\<rparr>)) 10)
     = [Translate3d 10 (-10)]"
proof -
  let ?s = "demo_page\<lparr>mouseX := 1, mouseY := -1,
       parallaxElements := Some [(Some 10, 1/2), (None, 1), (Some 11, -3/10)]\<rparr>"
  have "\<not> isMobile ?s" by (simp add: demo_page_def)
  moreover have "parallaxElements ?s = Some [(Some 10, 1/2), (None, 1), (Some 11, -3/10)]"
    by simp
  ultimately have "transform (styles (updateParallax ?s) 10) =
     transform (styles ?s 10) @ [Translate3d (1 * (1/2) * 20) (-1 * (1/2) * 20)]"
    by (simp add: updateParallax_transform)
  then show ?thesis by (simp add: demo_page_def empty_style_def)
qed

end
