(* ===== verification/Scroll.thy ===== *)
theory Scroll
  imports Demo
begin

text \<open>
  The scroll-reactive updater of \<open>src/app.js\<close>: \<open>handleScroll\<close> (lines
  375--395) sets the navigation bar's background alpha from the scroll offset,
  appends a vertical translation to every floating cloud on desktop, and calls
  \<open>updateActiveNavLink\<close> (397--416), which scans the sections in document order
  for the one whose extent, shifted up by 100px, contains the offset (the last such
  section wins) and marks exactly the navigation links pointing at it.
\<close>

text \<open>\<open>0.05 + Math.min(scrollTop / 100, 1) * 0.1\<close>\<close>

definition navbar_alpha :: "px \<Rightarrow> rat" where
  "navbar_alpha y = 5 / 100 + min (y / 100) 1 * (1 / 10)"

text \<open>The \<open>forEach((cloud, index) => ...)\<close> loop over \<open>.floating-cloud\<close>.\<close>

definition cloud_scroll :: "px \<Rightarrow> elem list \<Rightarrow> styles \<Rightarrow> styles" where
  "cloud_scroll y clouds st =
     fold (\<lambda>x. append_transform (snd x) (TranslateY (y * (1 / 2 + of_nat (fst x) * (1 / 10)))))
       (enumerate 0 clouds) st"

text \<open>
  \<open>section.getAttribute('id')\<close>; a missing attribute is \<open>null\<close>, which the
  template \<open>`#${currentSection}`\<close> prints as \<open>null\<close>.
\<close>

definition section_id :: "document \<Rightarrow> elem \<Rightarrow> string" where
  "section_id d sec = (case attr d sec ''id'' of Some v \<Rightarrow> v | None \<Rightarrow> ''null'')"

definition section_matches :: "document \<Rightarrow> px \<Rightarrow> elem \<Rightarrow> bool" where
  "section_matches d y sec \<longleftrightarrow>
     (let sectionTop = offset_top d sec - 100
      in sectionTop \<le> y \<and> y < sectionTop + client_height d sec)"

definition current_section :: "document \<Rightarrow> px \<Rightarrow> string" where
  "current_section d y =
     fold (\<lambda>sec cur. if section_matches d y sec then section_id d sec else cur)
       (select_all d ''section[id]'') []"

text \<open>One iteration of the \<open>navLinks.forEach\<close>.\<close>

definition link_step :: "document \<Rightarrow> string \<Rightarrow> elem \<Rightarrow> class_lists \<Rightarrow> class_lists" where
  "link_step d cur link cl =
     (let cl' = class_remove link ''active'' cl
      in if attr d link ''href'' = Some (''#'' @ cur) then class_add link ''active'' cl' else cl')"

definition updateActiveNavLink :: "portfolio \<Rightarrow> portfolio" where
  "updateActiveNavLink s =
     (let cur = current_section (doc s) (page_y s)
      in s\<lparr>classes := fold (link_step (doc s) cur) (select_all (doc s) ''.nav-link'') (classes s)\<rparr>)"

definition handleScroll :: "portfolio \<Rightarrow> portfolio" where
  "handleScroll s =
     (let scrollTop = page_y s;
          s1 = (case navbar s of
                  None \<Rightarrow> s
                | Some nb \<Rightarrow> s\<lparr>styles := set_style nb
                     (\<lambda>st. st\<lparr>background := BgRgbaWhite (navbar_alpha scrollTop)\<rparr>) (styles s)\<rparr>);
          s2 = (if \<not> isMobile s1
                then s1\<lparr>styles := cloud_scroll scrollTop (select_all (doc s1) ''.floating-cloud'') (styles s1)\<rparr>
                else s1)
      in updateActiveNavLink s2)"

lemmas scroll_defs [page_defs] =
  navbar_alpha_def cloud_scroll_def section_id_def section_matches_def current_section_def
  link_step_def updateActiveNavLink_def handleScroll_def

subsection \<open>The link scan\<close>

lemma link_step_other [simp]: "l \<noteq> link \<Longrightarrow> link_step d cur link cl l = cl l"
  by (simp add: link_step_def Let_def class_add_def class_remove_def)

lemma link_step_same:
  "''active'' \<in> link_step d cur l cl l \<longleftrightarrow> attr d l ''href'' = Some (''#'' @ cur)"
  by (simp add: link_step_def Let_def class_add_def class_remove_def)

lemma fold_link_step_other:
  "l \<notin> set links \<Longrightarrow> fold (link_step d cur) links cl l = cl l"
  by (induction links arbitrary: cl) auto

lemma fold_link_step_active:
  "l \<in> set links \<Longrightarrow>
   ''active'' \<in> fold (link_step d cur) links cl l \<longleftrightarrow> attr d l ''href'' = Some (''#'' @ cur)"
proof (induction links arbitrary: cl)
  case Nil
  then show ?case by simp
next
  case (Cons x xs)
  show ?case
  proof (cases "l \<in> set xs")
    case True
    then show ?thesis by (simp add: Cons.IH)
  next
    case False
    with Cons.prems have "l = x" by simp
    with False show ?thesis by (simp add: fold_link_step_other link_step_same)
  qed
qed

lemma handleScroll_doc [simp]:
  "doc (handleScroll s) = doc s" "page_y (handleScroll s) = page_y s"
  by (simp_all add: handleScroll_def updateActiveNavLink_def Let_def split: option.splits)

lemma handleScroll_classes:
  "classes (handleScroll s) = classes (updateActiveNavLink s)"
  by (simp add: handleScroll_def updateActiveNavLink_def Let_def split: option.splits)

lemma handleScroll_styles:
  "styles (handleScroll s) =
     (let st1 = (case navbar s of
                   None \<Rightarrow> styles s
                 | Some nb \<Rightarrow> set_style nb
                     (\<lambda>st. st\<lparr>background := BgRgbaWhite (navbar_alpha (page_y s))\<rparr>) (styles s))
      in if isMobile s then st1
         else cloud_scroll (page_y s) (select_all (doc s) ''.floating-cloud'') st1)"
  by (simp add: handleScroll_def updateActiveNavLink_def Let_def split: option.splits)

lemma cloud_scroll_transform:
  "transform (cloud_scroll y clouds st c) =
     transform (st c) @
       map (\<lambda>x. TranslateY (y * (1 / 2 + of_nat (fst x) * (1 / 10))))
         (filter (\<lambda>x. snd x = c) (enumerate 0 clouds))"
  by (simp add: cloud_scroll_def transform_fold_append)

lemma cloud_scroll_background [simp]:
  "background (cloud_scroll y clouds st c) = background (st c)"
  by (simp add: cloud_scroll_def background_fold_append)

lemma demo_scroll_facts:
  "select_all (doc demo_page) ''.nav-link'' = [30, 31, 32]"
  "current_section (doc demo_page) 650 = ''about''"
  "attr (doc demo_page) 30 ''href'' = Some ''#home''"
  "attr (doc demo_page) 31 ''href'' = Some ''#about''"
  "attr (doc demo_page) 32 ''href'' = Some ''#contact''"
  by (simp_all add: demo_page_def demo_doc_def demo_selectors_def demo_attrs_def
        current_section_def section_matches_def section_id_def)

subsection \<open>Properties\<close>

text \<open>C5. Active-link selection (spec section 4.2): after a scroll event, a
  navigation link carries the class \<open>active\<close> exactly when its \<open>href\<close> is
  \<open>#\<close> followed by the id of the current section.\<close>

theorem handleScroll_active_link:
  assumes "l \<in> set (select_all (doc s) ''.nav-link'')"
  shows "''active'' \<in> classes (handleScroll s) l \<longleftrightarrow>
           attr (doc s) l ''href'' = Some (''#'' @ current_section (doc s) (page_y s))"
  using assms
  by (simp add: handleScroll_classes updateActiveNavLink_def fold_link_step_active)

theorem handleScroll_active_link_witness:
  "''active'' \<notin> classes (handleScroll (demo_page\<lparr>page_y := 650\<rparr>)) 30 \<and>
   ''active'' \<in> classes (handleScroll (demo_page\<lparr>page_y := 650\<rparr>)) 31 \<and>
   ''active'' \<notin> classes (handleScroll (demo_page\<lparr>page_y := 650\<rparr>)) 32"
  using handleScroll_active_link [of 30 "demo_page\<lparr>page_y := 650\<rparr>"]
    handleScroll_active_link [of 31 "demo_page\<lparr>page_y := 650\<rparr>"]
    handleScroll_active_link [of 32 "demo_page\<lparr>page_y := 650\<rparr>"]
  by (simp add: demo_scroll_facts)

text \<open>C6. The current section is the last section, in document order, whose
  extent \<open>[offsetTop - 100, offsetTop - 100 + clientHeight)\<close> contains the
  scroll offset, and the empty string when there is none.\<close>

theorem current_section_last_match:
  "current_section d y =
     (let hits = filter (\<lambda>sec. offset_top d sec - 100 \<le> y \<and> y < offset_top d sec - 100 + client_height d sec)
                   (select_all d ''section[id]'')
      in if hits = [] then [] else section_id d (last hits))"
proof -
  have "section_matches d y = (\<lambda>sec. offset_top d sec - 100 \<le> y \<and> y < offset_top d sec - 100 + client_height d sec)"
    by (simp add: section_matches_def fun_eq_iff Let_def)
  then show ?thesis by (simp add: current_section_def fold_last_match Let_def)
qed

text \<open>The alpha for a negative offset.\<close>

lemma navbar_alpha_negative_offset:
  assumes "y < 0"
  shows "navbar_alpha y = 1 / 20 + y / 1000 \<and> navbar_alpha y < 1 / 20"
proof -
  have "min (y / 100) 1 = y / 100" using assms by simp
  then show ?thesis using assms by (simp add: navbar_alpha_def)
qed

text \<open>C7. Navigation bar translucency (spec section 4.2): a scroll event sets the
  navigation bar's inline background to white with alpha \<open>navbar_alpha\<close>. For a
  non-negative offset the alpha lies between 0.05 and 0.15, reaching 0.15 from an
  offset of 100px on. The alpha is clamped from above only (\<open>Math.min\<close>, no
  \<open>Math.max\<close>): a negative offset, as elastic overscroll reports it, gives an
  alpha below 0.05, where the spec's \<open>clamp(scrollTop/100, 0, 1)\<close> keeps it at
  0.05.\<close>

theorem handleScroll_navbar_alpha:
  assumes "navbar s = Some nb"
  shows "background (styles (handleScroll s) nb) = BgRgbaWhite (navbar_alpha (page_y s)) \<and>
         (0 \<le> page_y s \<longrightarrow> 1 / 20 \<le> navbar_alpha (page_y s) \<and> navbar_alpha (page_y s) \<le> 3 / 20 \<and>
            (100 \<le> page_y s \<longrightarrow> navbar_alpha (page_y s) = 3 / 20)) \<and>
         (page_y s < 0 \<longrightarrow>
            navbar_alpha (page_y s) = 1 / 20 + page_y s / 1000 \<and> navbar_alpha (page_y s) < 1 / 20)"
proof -
  have bg: "background (styles (handleScroll s) nb) = BgRgbaWhite (navbar_alpha (page_y s))"
    using assms(1) by (simp add: handleScroll_styles Let_def)
  define m where "m = min (page_y s / 100) 1"
  have "0 \<le> page_y s \<longrightarrow> 0 \<le> m \<and> m \<le> 1" by (simp add: m_def)
  moreover have "100 \<le> page_y s \<longrightarrow> m = 1" by (simp add: m_def)
  moreover have "page_y s < 0 \<longrightarrow>
      navbar_alpha (page_y s) = 1 / 20 + page_y s / 1000 \<and> navbar_alpha (page_y s) < 1 / 20"
    using navbar_alpha_negative_offset by blast
  ultimately show ?thesis using bg by (simp add: navbar_alpha_def m_def [symmetric])
qed

theorem handleScroll_navbar_alpha_witness:
  "background (styles (handleScroll (demo_page\<lparr>navbar := Some 1, page_y := 50\<rparr>)) 1) =
     BgRgbaWhite (1 / 10) \<and>
   background (styles (handleScroll (demo_page\<lparr>navbar := Some 1, page_y := -20\<rparr>)) 1) =
     BgRgbaWhite (3 / 100)"
proof -
  have "navbar (demo_page\<lparr>navbar := Some 1, page_y := 50\<rparr>) = Some 1"
    "navbar (demo_page\<lparr>navbar := Some 1, page_y := -20\<rparr>) = Some 1" by simp_all
  from handleScroll_navbar_alpha [OF this(1)] handleScroll_navbar_alpha [OF this(2)]
  show ?thesis by (simp add: navbar_alpha_def)
qed

text \<open>C9. Scroll parallax (spec section 4.2): on desktop a scroll event appends
  \<open>translateY(scrollTop * (0.5 + 0.1 * index))\<close> to the transform of the floating
  cloud at position \<open>index\<close> of \<open>.floating-cloud\<close>, cumulatively; on mobile no
  transform changes.\<close>

theorem handleScroll_cloud_transform:
  "transform (styles (handleScroll s) c) =
     transform (styles s c) @
       (if isMobile s then []
        else map (\<lambda>x. TranslateY (page_y s * (1 / 2 + of_nat (fst x) * (1 / 10))))
               (filter (\<lambda>x. snd x = c) (enumerate 0 (select_all (doc s) ''.floating-cloud''))))"
  by (cases "navbar s") (auto simp: handleScroll_styles cloud_scroll_transform Let_def set_style_def)

end
