(* ===== verification/Menu.thy ===== *)
theory Menu
  imports Demo
begin

text \<open>
  The mobile navigation toggle of \<open>src/app.js\<close>: \<open>toggleMobileMenu\<close> (lines
  352--373), run by the hamburger's click listener (45--49) and by the click
  listeners it adds itself to the menu's links. Each call toggles \<open>active\<close> on
  the menu panel and on the hamburger, sets the three bars' transforms, and, when
  the menu is now open, adds one more click listener (a fresh closure, so never
  deduplicated) to every link of the menu. \<open>nav_link_listeners\<close> counts them.
  A click on a link runs the listeners registered when the click is dispatched,
  in order; listeners added during the dispatch wait for the next click.
\<close>

definition menu_active :: "portfolio \<Rightarrow> bool" where
  "menu_active s = (case navMenu s of Some m \<Rightarrow> ''active'' \<in> classes s m | None \<Rightarrow> False)"

text \<open>The template of line 360, \<open>'none'\<close> being the empty transform.\<close>

definition bar_transform :: "bool \<Rightarrow> nat \<Rightarrow> css_transform list" where
  "bar_transform act index =
     (if act
      then [Rotate (if index = 1 then 0 else if index = 0 then 45 else -45),
            Translate (if index = 1 then 0 else if index = 0 then 6 else -6)
                      (if index = 1 then 0 else if index = 0 then 6 else -6)]
      else [])"

definition set_bars :: "bool \<Rightarrow> elem list \<Rightarrow> styles \<Rightarrow> styles" where
  "set_bars act bars st =
     fold (\<lambda>x. set_style (snd x) (\<lambda>b. b\<lparr>transform := bar_transform act (fst x)\<rparr>))
       (enumerate 0 bars) st"

text \<open>
  Only the hamburger listener and the link listeners call the method, and the
  hamburger listener is added only when both elements exist (line 45), so the
  \<open>None\<close> branch is never taken.
\<close>

definition toggleMobileMenu :: "portfolio \<Rightarrow> portfolio" where
  "toggleMobileMenu s =
     (case (navMenu s, hamburger s) of
        (Some m, Some h) \<Rightarrow>
          (let cl = class_toggle h ''active'' (class_toggle m ''active'' (classes s));
               act = ''active'' \<in> cl m;
               st = set_bars act (select_in (doc s) h ''.bar'') (styles s);
               s' = s\<lparr>classes := cl, styles := st\<rparr>
           in if act then s'\<lparr>nav_link_listeners := Suc (nav_link_listeners s)\<rparr> else s')
      | _ \<Rightarrow> s)"

text \<open>A click on a link of the open menu: the listeners \<open>toggleMobileMenu\<close> added.\<close>

definition nav_link_click :: "portfolio \<Rightarrow> portfolio" where
  "nav_link_click s = (toggleMobileMenu ^^ nav_link_listeners s) s"

definition hamburger_click :: "portfolio \<Rightarrow> portfolio" where
  "hamburger_click s = toggleMobileMenu s"

text \<open>The menu panel and the hamburger are distinct and agree on \<open>active\<close>.\<close>

definition menu_inv :: "portfolio \<Rightarrow> bool" where
  "menu_inv s \<longleftrightarrow>
     (case (navMenu s, hamburger s) of
        (Some m, Some h) \<Rightarrow> m \<noteq> h \<and> (''active'' \<in> classes s m \<longleftrightarrow> ''active'' \<in> classes s h)
      | _ \<Rightarrow> True)"

lemmas menu_defs [page_defs] =
  menu_active_def bar_transform_def set_bars_def toggleMobileMenu_def nav_link_click_def
  hamburger_click_def menu_inv_def

subsection \<open>One toggle\<close>

lemma toggle_fields [simp]:
  "navMenu (toggleMobileMenu s) = navMenu s" "hamburger (toggleMobileMenu s) = hamburger s"
  "doc (toggleMobileMenu s) = doc s"
  by (simp_all add: toggleMobileMenu_def Let_def split: option.splits)

lemma toggle_active:
  "navMenu s = Some m \<Longrightarrow> hamburger s = Some h \<Longrightarrow> m \<noteq> h \<Longrightarrow>
   menu_active (toggleMobileMenu s) \<longleftrightarrow> \<not> menu_active s"
  by (simp add: toggleMobileMenu_def menu_active_def Let_def)

lemma toggle_listeners:
  "navMenu s = Some m \<Longrightarrow> hamburger s = Some h \<Longrightarrow> m \<noteq> h \<Longrightarrow>
   nav_link_listeners (toggleMobileMenu s) =
     (if menu_active s then nav_link_listeners s else Suc (nav_link_listeners s))"
  by (simp add: toggleMobileMenu_def menu_active_def Let_def)

lemma toggle_menu_inv: "menu_inv s \<Longrightarrow> menu_inv (toggleMobileMenu s)"
  by (auto simp: menu_inv_def toggleMobileMenu_def Let_def split: option.splits)

lemma transform_set_bars:
  "distinct bars \<Longrightarrow> i < length bars \<Longrightarrow>
   transform (set_bars act bars st (bars ! i)) = bar_transform act i"
proof -
  have "\<And>st k. distinct bars \<Longrightarrow> i < length bars \<Longrightarrow>
    transform (fold (\<lambda>x. set_style (snd x) (\<lambda>b. b\<lparr>transform := bar_transform act (fst x)\<rparr>))
      (enumerate k bars) st (bars ! i)) = bar_transform act (k + i)"
  proof (induction bars arbitrary: i)
    case Nil
    then show ?case by simp
  next
    case (Cons b bs)
    show ?case
    proof (cases i)
      case 0
      have "b \<notin> set bs" using Cons.prems(1) by simp
      then have "fold (\<lambda>x. set_style (snd x) (\<lambda>b. b\<lparr>transform := bar_transform act (fst x)\<rparr>))
          (enumerate (Suc k) bs) st' b = st' b" for st'
        by (induction bs arbitrary: st' k) auto
      with 0 show ?thesis by simp
    next
      case (Suc j)
      with Cons show ?thesis by simp
    qed
  qed
  then show "distinct bars \<Longrightarrow> i < length bars \<Longrightarrow>
     transform (set_bars act bars st (bars ! i)) = bar_transform act i"
    by (simp add: set_bars_def)
qed

subsection \<open>Repeated toggles\<close>

lemma toggles_state:
  assumes "navMenu s = Some m" and "hamburger s = Some h" and "m \<noteq> h"
  shows "(menu_active ((toggleMobileMenu ^^ k) s) \<longleftrightarrow>
            (if even k then menu_active s else \<not> menu_active s)) \<and>
         nav_link_listeners ((toggleMobileMenu ^^ k) s) =
           nav_link_listeners s + (if menu_active s then k div 2 else (k + 1) div 2)"
  using assms
proof (induction k arbitrary: s)
  case 0
  then show ?case by simp
next
  case (Suc k)
  let ?t = "toggleMobileMenu s"
  have t: "navMenu ?t = Some m" "hamburger ?t = Some h" using Suc.prems by simp_all
  have IH: "(menu_active ((toggleMobileMenu ^^ k) ?t) \<longleftrightarrow>
            (if even k then menu_active ?t else \<not> menu_active ?t)) \<and>
         nav_link_listeners ((toggleMobileMenu ^^ k) ?t) =
           nav_link_listeners ?t + (if menu_active ?t then k div 2 else (k + 1) div 2)"
    using t Suc.prems(3) by (rule Suc.IH)
  have "(toggleMobileMenu ^^ Suc k) s = (toggleMobileMenu ^^ k) ?t"
    by (simp add: funpow_swap1)
  with IH Suc.prems show ?case
    by (auto simp: toggle_active toggle_listeners)
qed

lemma demo_menu_facts:
  "select_in (doc demo_page) 2 ''.bar'' = [20, 21, 22]"
  by (simp add: demo_page_def demo_doc_def demo_children_def)

subsection \<open>Properties\<close>

text \<open>C10. A click on a link of the open menu runs every listener
  \<open>toggleMobileMenu\<close> has added, each toggling the menu once: the menu ends open
  exactly when the number of listeners is even, and every reopening during the
  click adds a listener, \<open>n div 2\<close> of them. The spec (section 4.4) says the
  click closes the menu; the code does so only for an odd count.\<close>

theorem nav_link_click_effect:
  assumes "navMenu s = Some m" and "hamburger s = Some h" and "m \<noteq> h"
    and "menu_active s"
  shows "(menu_active (nav_link_click s) \<longleftrightarrow> even (nav_link_listeners s)) \<and>
         nav_link_listeners (nav_link_click s) =
           nav_link_listeners s + nav_link_listeners s div 2"
  using toggles_state [OF assms(1-3), of "nav_link_listeners s"] assms(4)
  by (simp add: nav_link_click_def)

theorem nav_link_click_effect_witness:
  "menu_active (nav_link_click (demo_page\<lparr>navMenu := Some 3, hamburger := Some 2,
      classes := (\<lambda>e. if e = 2 \<or> e = 3 then {''active''} else {}), nav_link_listeners := 2\<rparr>)) \<and>
   nav_link_listeners (nav_link_click (demo_page\<lparr>navMenu := Some 3, hamburger := Some 2,
      classes := (\<lambda>e. if e = 2 \<or> e = 3 then {''active''} else {}), nav_link_listeners := 2\<rparr>)) = 3"
proof -
  let ?s = "demo_page\<lparr>navMenu := Some 3, hamburger := Some 2,
      classes := (\<lambda>e. if e = 2 \<or> e = 3 then {''active''} else {}), nav_link_listeners := 2\<rparr>"
  have "navMenu ?s = Some 3" "hamburger ?s = Some 2" "(3::elem) \<noteq> 2" "menu_active ?s"
    by (simp_all add: menu_active_def)
  from nav_link_click_effect [OF this] show ?thesis by simp
qed

text \<open>C11. From a closed menu with no link listeners yet (the state after the
  constructor), opening the menu, clicking a link, opening it again and clicking a
  link again leaves the menu open: the second link click does not close it.\<close>

theorem second_link_click_leaves_menu_open:
  assumes "navMenu s = Some m" and "hamburger s = Some h" and "m \<noteq> h"
    and "\<not> menu_active s" and "nav_link_listeners s = 0"
  shows "menu_active (nav_link_click (hamburger_click (nav_link_click (hamburger_click s))))"
proof -
  let ?s1 = "hamburger_click s"
  have m1: "navMenu ?s1 = Some m" "hamburger ?s1 = Some h"
    using assms by (simp_all add: hamburger_click_def)
  have s1: "menu_active ?s1" "nav_link_listeners ?s1 = 1"
    using assms by (simp_all add: hamburger_click_def toggle_active toggle_listeners)
  let ?s2 = "nav_link_click ?s1"
  have "?s2 = toggleMobileMenu ?s1" using s1 by (simp add: nav_link_click_def)
  then have s2: "\<not> menu_active ?s2" "nav_link_listeners ?s2 = 1"
    and m2: "navMenu ?s2 = Some m" "hamburger ?s2 = Some h"
    using s1 m1 toggle_active [OF m1 assms(3)] toggle_listeners [OF m1 assms(3)] by simp_all
  let ?s3 = "hamburger_click ?s2"
  have s3: "menu_active ?s3" "nav_link_listeners ?s3 = 2"
    using s2 toggle_active [OF m2 assms(3)] toggle_listeners [OF m2 assms(3)]
    by (simp_all add: hamburger_click_def)
  have m3: "navMenu ?s3 = Some m" "hamburger ?s3 = Some h"
    using m2 by (simp_all add: hamburger_click_def)
  from toggles_state [OF m3 assms(3), of 2] s3 show ?thesis
    by (simp add: nav_link_click_def)
qed

theorem second_link_click_leaves_menu_open_witness:
  "menu_active (nav_link_click (hamburger_click (nav_link_click (hamburger_click
     (demo_page\<lparr>navMenu := Some 3, hamburger := Some 2\<rparr>)))))"
proof -
  let ?s = "demo_page\<lparr>navMenu := Some 3, hamburger := Some 2\<rparr>"
  have "navMenu ?s = Some 3" "hamburger ?s = Some 2" "(3::elem) \<noteq> 2"
    "\<not> menu_active ?s" "nav_link_listeners ?s = 0"
    by (simp_all add: menu_active_def demo_page_def)
  from second_link_click_leaves_menu_open [OF this] show ?thesis .
qed

text \<open>C12. Every toggle keeps the menu panel and the hamburger in agreement on
  \<open>active\<close>, and sets the transform of the bar at position \<open>i\<close> to the
  "X" shape of line 360 (\<open>rotate(45deg) translate(6px, 6px)\<close>, \<open>rotate(0deg)\<close>,
  \<open>rotate(-45deg) translate(-6px, -6px)\<close>) when the menu is now open and to
  \<open>none\<close> when it is closed.\<close>

theorem toggle_menu_consistent:
  assumes "menu_inv s" and "navMenu s = Some m" and "hamburger s = Some h"
    and "bars = select_in (doc s) h ''.bar''" and "distinct bars" and "i < length bars"
  shows "menu_inv (toggleMobileMenu s) \<and>
         transform (styles (toggleMobileMenu s) (bars ! i)) =
           bar_transform (menu_active (toggleMobileMenu s)) i"
proof
  show "menu_inv (toggleMobileMenu s)" using assms(1) by (rule toggle_menu_inv)
next
  have "m \<noteq> h" using assms(1-3) by (simp add: menu_inv_def)
  then show "transform (styles (toggleMobileMenu s) (bars ! i)) =
           bar_transform (menu_active (toggleMobileMenu s)) i"
    using assms(2-6)
    by (simp add: toggleMobileMenu_def menu_active_def Let_def transform_set_bars)
qed

theorem toggle_menu_consistent_witness:
  "transform (styles (toggleMobileMenu (demo_page\<lparr>navMenu := Some 3, hamburger := Some 2\<rparr>)) 22)
     = [Rotate (-45), Translate (-6) (-6)]"
proof -
  let ?s = "demo_page\<lparr>navMenu := Some 3, hamburger := Some 2\<rparr>"
  have bars: "select_in (doc ?s) 2 ''.bar'' = [20, 21, 22]"
    by (simp add: demo_menu_facts)
  have "menu_inv ?s" "navMenu ?s = Some 3" "hamburger ?s = Some 2"
    by (simp_all add: menu_inv_def demo_page_def)
  moreover have "[20, 21, 22] = select_in (doc ?s) 2 ''.bar''" using bars by simp
  moreover have "distinct [20::elem, 21, 22]" "2 < length [20::elem, 21, 22]" by simp_all
  ultimately have hyps: "menu_inv ?s" "navMenu ?s = Some 3" "hamburger ?s = Some 2"
    "[20, 21, 22] = select_in (doc ?s) 2 ''.bar''" "distinct [20::elem, 21, 22]"
    "2 < length [20::elem, 21, 22]" by simp_all
  from toggle_menu_consistent [OF hyps] have
    "transform (styles (toggleMobileMenu ?s) 22) = bar_transform (menu_active (toggleMobileMenu ?s)) 2"
    by simp
  moreover have "menu_active (toggleMobileMenu ?s) \<longleftrightarrow> \<not> menu_active ?s"
    by (rule toggle_active [of ?s 3 2]) simp_all
  then have "menu_active (toggleMobileMenu ?s)"
    by (simp add: menu_active_def demo_page_def)
  ultimately show ?thesis by (simp add: bar_transform_def)
qed

end
