(* ===== verification/Form.thy ===== *)
theory Form
  imports Demo
begin

text \<open>
  The simulated contact-form submission of \<open>src/app.js\<close>: \<open>handleFormSubmit\<close>
  (lines 418--446) and the two timer callbacks it creates. Submitting disables the
  submit button and shows \<open>Sending...\<close>; 1500 ms later the first callback shows
  \<open>Message Sent!\<close> on a green gradient and sets the second timer; 2000 ms after
  that the second callback restores the captured label, enables the button, clears
  the background and resets the form. A JavaScript exception is a value
  \<open>Inl (TypeError msg)\<close>: the handler throws when the form has no submit button
  (the code does not check \<open>querySelector\<close>'s result).
\<close>

definition sent_background :: background where
  "sent_background = BgGradient ''linear-gradient(45deg, #00cc66, #00ff88)''"

definition handleFormSubmit :: "portfolio \<Rightarrow> js_error + effect" where
  "handleFormSubmit s =
     (case contactForm s of
        None \<Rightarrow> Inl (TypeError ''FormData: parameter 1 is not of type HTMLFormElement'')
      | Some form \<Rightarrow>
          (let name = form_values s ''name'';
               email = form_values s ''email'';
               message = form_values s ''message''
           in case query_in (doc s) form ''button[type=\"submit\"]'' of
                None \<Rightarrow> Inl (TypeError ''Cannot read properties of null (reading textContent)'')
              | Some submitBtn \<Rightarrow>
                  (let originalText = button_text s submitBtn
                   in Inr (s\<lparr>button_text := (button_text s)(submitBtn := ''Sending...''),
                             button_disabled := (button_disabled s)(submitBtn := True),
                             console := console s @ [LogFormSubmitted name email message]\<rparr>,
                           [(1500, FormSent submitBtn originalText)]))))"

text \<open>The outer \<open>setTimeout\<close> callback (lines 433--443).\<close>

definition formSent :: "elem \<Rightarrow> string \<Rightarrow> portfolio \<Rightarrow> effect" where
  "formSent submitBtn originalText s =
     (s\<lparr>button_text := (button_text s)(submitBtn := ''Message Sent!''),
        styles := set_style submitBtn (\<lambda>st. st\<lparr>background := sent_background\<rparr>) (styles s)\<rparr>,
      [(2000, FormReset submitBtn originalText)])"

text \<open>The inner callback (lines 437--442); \<open>form.reset()\<close> restores the default values.\<close>

definition formReset :: "elem \<Rightarrow> string \<Rightarrow> portfolio \<Rightarrow> effect" where
  "formReset submitBtn originalText s =
     (s\<lparr>button_text := (button_text s)(submitBtn := originalText),
        button_disabled := (button_disabled s)(submitBtn := False),
        styles := set_style submitBtn (\<lambda>st. st\<lparr>background := BgUnset\<rparr>) (styles s),
        form_values := default_value (doc s)\<rparr>, [])"

text \<open>
  The interface between this component and the page's timer dispatcher: a handler
  runs the two form callbacks as defined here. \<open>form_task\<close> is the form's own
  dispatcher; the page's dispatcher in the root theory satisfies the same interface.
\<close>

definition form_handler_ok :: "(task \<Rightarrow> portfolio \<Rightarrow> effect) \<Rightarrow> bool" where
  "form_handler_ok h \<longleftrightarrow>
     (\<forall>b t s. h (FormSent b t) s = formSent b t s \<and> h (FormReset b t) s = formReset b t s)"

fun form_task :: "task \<Rightarrow> portfolio \<Rightarrow> effect" where
  "form_task (FormSent b t) s = formSent b t s"
| "form_task (FormReset b t) s = formReset b t s"
| "form_task _ s = (s, [])"

definition submit_world :: "world \<Rightarrow> js_error + world" where
  "submit_world w =
     (case handleFormSubmit (fst w) of
        Inl e \<Rightarrow> Inl e
      | Inr (s', ts) \<Rightarrow> Inr (s', schedule ts (snd w)))"

text \<open>
  The browser's side of a submission (HTML, form submission): a form whose
  default button, its first submit button, is disabled is not submitted, neither
  by a click on the button nor by implicit submission from a field. While
  \<open>handleFormSubmit\<close> keeps the button disabled, the form cannot be submitted
  again.
\<close>

definition submission_blocked :: "portfolio \<Rightarrow> elem \<Rightarrow> bool" where
  "submission_blocked s form =
     (case query_in (doc s) form ''button[type=\"submit\"]'' of
        None \<Rightarrow> False
      | Some b \<Rightarrow> button_disabled s b)"

lemmas form_defs [page_defs] =
  sent_background_def handleFormSubmit_def formSent_def formReset_def submit_world_def
  submission_blocked_def

lemma form_task_ok: "form_handler_ok form_task"
  by (simp add: form_handler_ok_def)

lemma submit_world_Inr:
  assumes "contactForm s = Some f" and "query_in (doc s) f ''button[type=\"submit\"]'' = Some b"
  shows "submit_world (s, q) =
    Inr (s\<lparr>button_text := (button_text s)(b := ''Sending...''),
           button_disabled := (button_disabled s)(b := True),
           console := console s @ [LogFormSubmitted (form_values s ''name'')
                                     (form_values s ''email'') (form_values s ''message'')]\<rparr>,
         q\<lparr>next_id := Suc (next_id q),
           pending := pending q @ [(now q + 1500, next_id q, FormSent b (button_text s b))]\<rparr>)"
  using assms by (simp add: submit_world_def handleFormSubmit_def set_timeout_def)

lemma demo_form_facts:
  "query_in (doc demo_page) 4 ''button[type=\"submit\"]'' = Some 50"
  "query_in (doc demo_page) 5 ''button[type=\"submit\"]'' = None"
  by (simp_all add: query_in_def first_of_def demo_page_def demo_doc_def demo_children_def)

subsection \<open>Properties\<close>

text \<open>C13. The submission cycle (spec sections 4.5 and 8): submitting a form that
  has a submit button shows \<open>Sending...\<close> on the disabled button at once and
  nothing changes before 1500 ms; running the timers to 1500 ms shows
  \<open>Message Sent!\<close> on the green background, still disabled; running them to
  3500 ms restores the original label, enables the button, clears the background,
  resets the fields to their defaults and leaves no timer pending. One and two
  fired callbacks are enough fuel: the cycle always completes.\<close>

theorem form_submission_cycle:
  assumes "contactForm s = Some f" and "query_in (doc s) f ''button[type=\"submit\"]'' = Some b"
    and "pending q = []" and "form_handler_ok h"
  shows "\<exists>s1 q1. submit_world (s, q) = Inr (s1, q1) \<and>
           button_text s1 b = ''Sending...'' \<and> button_disabled s1 b \<and>
           (\<forall>t. t < now q + 1500 \<longrightarrow> (\<exists>q'. run_until 0 h t (s1, q1) = Some (s1, q'))) \<and>
           (\<exists>s2 q2. run_until 1 h (now q + 1500) (s1, q1) = Some (s2, q2) \<and>
              button_text s2 b = ''Message Sent!'' \<and> button_disabled s2 b \<and>
              background (styles s2 b) = sent_background) \<and>
           (\<exists>s3 q3. run_until 2 h (now q + 3500) (s1, q1) = Some (s3, q3) \<and>
              button_text s3 b = button_text s b \<and> \<not> button_disabled s3 b \<and>
              background (styles s3 b) = BgUnset \<and>
              form_values s3 = default_value (doc s) \<and> pending q3 = [])"
  using assms
  by (simp add: submit_world_Inr next_timer_def set_timeout_def form_handler_ok_def
      formSent_def formReset_def numeral_2_eq_2)

theorem form_submission_cycle_witness:
  "\<exists>s3 q3. run_until 2 form_task 3500
      (fst (projr (submit_world (demo_page\<lparr>contactForm := Some 4\<rparr>, empty_queue))),
       snd (projr (submit_world (demo_page\<lparr>contactForm := Some 4\<rparr>, empty_queue)))) = Some (s3, q3) \<and>
     button_text s3 50 = ''Send Message'' \<and> \<not> button_disabled s3 50"
proof -
  have "contactForm (demo_page\<lparr>contactForm := Some 4\<rparr>) = Some 4"
    and "query_in (doc (demo_page\<lparr>contactForm := Some 4\<rparr>)) 4 ''button[type=\"submit\"]'' = Some 50"
    and "pending (empty_queue :: task timer_queue) = []"
    and "form_handler_ok form_task"
    by (simp_all add: demo_form_facts empty_queue_def form_task_ok)
  from form_submission_cycle [OF this] show ?thesis
    by (auto simp: empty_queue_def demo_page_def)
qed

text \<open>C14. A form without a submit button makes the handler throw a
  \<open>TypeError\<close> (it reads \<open>textContent\<close> of \<open>null\<close>): no label changes and
  no timer is set. The spec (section 7) says absent elements are skipped
  without throwing.\<close>

theorem form_submit_missing_button:
  assumes "contactForm s = Some f" and "query_in (doc s) f ''button[type=\"submit\"]'' = None"
  shows "submit_world (s, q) = Inl (TypeError ''Cannot read properties of null (reading textContent)'')"
  using assms by (simp add: submit_world_def handleFormSubmit_def)

theorem form_submit_missing_button_witness:
  "submit_world (demo_page\<lparr>contactForm := Some 5\<rparr>, empty_queue) =
     Inl (TypeError ''Cannot read properties of null (reading textContent)'')"
  by (rule form_submit_missing_button [where f = 5]) (simp_all add: demo_form_facts)

end
