(* ===== verification/Resize.thy ===== *)
theory Resize
  imports Demo
begin

text \<open>
  The decorative particles, the parallax bindings and the viewport adaptation of
  \<open>src/app.js\<close>: \<open>createParticles\<close> (lines 105--155) appends 20 particles with
  random position, duration and delay to the particle container and injects the
  \<open>particleFloat\<close> keyframes once; \<open>setupParallax\<close> (157--169) assigns the seven
  pointer bindings; \<open>handleResize\<close> (448--462) reclassifies the viewport,
  rebuilds particles and bindings on a mobile-to-desktop switch and empties the
  container on a desktop-to-mobile switch. \<open>Math.random()\<close> reads the next value
  of the state's sequence \<open>rand\<close>; the four calls of one particle are made in the
  order of the template literal (left, top, duration, delay).
\<close>

definition make_particle :: "portfolio \<Rightarrow> particle \<times> portfolio" where
  "make_particle s =
     (let (l, s1) = math_random s; (t, s2) = math_random s1;
          (d, s3) = math_random s2; (dl, s4) = math_random s3
      in (\<lparr>p_left = l * 100, p_top = t * 100, p_duration = 5 + d * 5, p_delay = dl * 2\<rparr>, s4))"

text \<open>The \<open>for (let i = 0; i < 20; i++)\<close> loop, counting the iterations left.\<close>

fun add_particles :: "nat \<Rightarrow> portfolio \<Rightarrow> portfolio" where
  "add_particles 0 s = s"
| "add_particles (Suc n) s =
     (let (p, s') = make_particle s
      in add_particles n (s'\<lparr>particle_nodes := particle_nodes s' @ [p]\<rparr>))"

definition createParticles :: "portfolio \<Rightarrow> portfolio" where
  "createParticles s =
     (if particles s = None \<or> isMobile s then s
      else let s' = add_particles 20 s
           in if ''particle-styles'' \<in> style_ids s' then s'
              else s'\<lparr>style_ids := insert ''particle-styles'' (style_ids s')\<rparr>)"

definition parallax_bindings :: "document \<Rightarrow> (elem option \<times> js_number) list" where
  "parallax_bindings d =
     [(query_selector d ''.cloud-1'', 1 / 2), (query_selector d ''.cloud-2'', -3 / 10),
      (query_selector d ''.cloud-3'', 7 / 10), (query_selector d ''.cloud-4'', -2 / 5),
      (query_selector d ''.server-1'', 1 / 5), (query_selector d ''.server-2'', -1 / 5),
      (query_selector d ''.hero-visual'', 1 / 10)]"

definition setupParallax :: "portfolio \<Rightarrow> portfolio" where
  "setupParallax s =
     (if isMobile s then s else s\<lparr>parallaxElements := Some (parallax_bindings (doc s))\<rparr>)"

definition handleResize :: "portfolio \<Rightarrow> portfolio" where
  "handleResize s =
     (let wasMobile = isMobile s;
          s1 = s\<lparr>isMobile := mobile_width (inner_width s)\<rparr>;
          s2 = (if wasMobile \<and> \<not> isMobile s1 then setupParallax (createParticles s1) else s1)
      in if \<not> wasMobile \<and> isMobile s2 \<and> particles s2 \<noteq> None
         then s2\<lparr>particle_nodes := []\<rparr> else s2)"

text \<open>A \<open>resize\<close> event: the window takes its new size, then the listener runs.\<close>

definition resize :: "int \<Rightarrow> int \<Rightarrow> portfolio \<Rightarrow> portfolio" where
  "resize w h s = handleResize (s\<lparr>inner_width := w, inner_height := h\<rparr>)"

definition particle_ok :: "particle \<Rightarrow> bool" where
  "particle_ok p \<longleftrightarrow>
     0 \<le> p_left p \<and> p_left p < 100 \<and> 0 \<le> p_top p \<and> p_top p < 100 \<and>
     5 \<le> p_duration p \<and> p_duration p < 10 \<and> 0 \<le> p_delay p \<and> p_delay p < 2"

text \<open>Exactly 20 particles on desktop and none on mobile, when there is a container.\<close>

definition particles_inv :: "portfolio \<Rightarrow> bool" where
  "particles_inv s \<longleftrightarrow>
     particles s = None \<or> length (particle_nodes s) = (if isMobile s then 0 else 20)"

lemmas resize_defs [page_defs] =
  make_particle_def createParticles_def parallax_bindings_def setupParallax_def
  handleResize_def resize_def particle_ok_def particles_inv_def

subsection \<open>Particles\<close>

lemma make_particle_fields [simp]:
  "particles (snd (make_particle s)) = particles s"
  "isMobile (snd (make_particle s)) = isMobile s"
  "particle_nodes (snd (make_particle s)) = particle_nodes s"
  "rand (snd (make_particle s)) = rand s"
  "rand_used (snd (make_particle s)) = rand_used s + 4"
  "doc (snd (make_particle s)) = doc s"
  "style_ids (snd (make_particle s)) = style_ids s"
  "parallaxElements (snd (make_particle s)) = parallaxElements s"
  "classes (snd (make_particle s)) = classes s"
  by (simp_all add: make_particle_def math_random_def)

lemma make_particle_ok:
  assumes "\<forall>i. 0 \<le> rand s i \<and> rand s i < 1"
  shows "particle_ok (fst (make_particle s))"
proof -
  have r: "0 \<le> rand s i" "rand s i < 1" for i using assms by auto
  show ?thesis
    using r [of "rand_used s"] r [of "Suc (rand_used s)"] r [of "Suc (Suc (rand_used s))"]
      r [of "Suc (Suc (Suc (rand_used s)))"]
    by (simp add: make_particle_def math_random_def particle_ok_def)
qed

lemma add_particles_fields [simp]:
  "particles (add_particles n s) = particles s" "isMobile (add_particles n s) = isMobile s"
  "rand (add_particles n s) = rand s" "doc (add_particles n s) = doc s"
  "style_ids (add_particles n s) = style_ids s"
  "parallaxElements (add_particles n s) = parallaxElements s" "classes (add_particles n s) = classes s"
  by (induction n arbitrary: s) (simp_all add: split_def Let_def)

lemma add_particles_nodes:
  "\<exists>ps. particle_nodes (add_particles n s) = particle_nodes s @ ps \<and> length ps = n \<and>
        ((\<forall>i. 0 \<le> rand s i \<and> rand s i < 1) \<longrightarrow> (\<forall>p\<in>set ps. particle_ok p))"
proof (induction n arbitrary: s)
  case 0
  then show ?case by simp
next
  case (Suc n)
  obtain p s' where m: "make_particle s = (p, s')" by (cases "make_particle s")
  let ?s'' = "s'\<lparr>particle_nodes := particle_nodes s' @ [p]\<rparr>"
  obtain ps where ps: "particle_nodes (add_particles n ?s'') = particle_nodes ?s'' @ ps"
    "length ps = n" "(\<forall>i. 0 \<le> rand ?s'' i \<and> rand ?s'' i < 1) \<longrightarrow> (\<forall>p\<in>set ps. particle_ok p)"
    using Suc.IH by blast
  have "particle_nodes s' = particle_nodes s" "rand s' = rand s"
    using make_particle_fields(3,4) [of s] m by simp_all
  moreover have "(\<forall>i. 0 \<le> rand s i \<and> rand s i < 1) \<longrightarrow> particle_ok p"
    using make_particle_ok [of s] m by simp
  ultimately show ?case using ps m
    by (intro exI [of _ "p # ps"]) auto
qed

lemma createParticles_fields [simp]:
  "particles (createParticles s) = particles s" "isMobile (createParticles s) = isMobile s"
  "doc (createParticles s) = doc s" "rand (createParticles s) = rand s"
  "parallaxElements (createParticles s) = parallaxElements s" "classes (createParticles s) = classes s"
  by (simp_all add: createParticles_def Let_def)

lemma createParticles_nodes:
  "particles s \<noteq> None \<Longrightarrow> \<not> isMobile s \<Longrightarrow>
   \<exists>ps. particle_nodes (createParticles s) = particle_nodes s @ ps \<and> length ps = 20 \<and>
        ((\<forall>i. 0 \<le> rand s i \<and> rand s i < 1) \<longrightarrow> (\<forall>p\<in>set ps. particle_ok p))"
  using add_particles_nodes [of 20 s] by (simp add: createParticles_def Let_def)

lemma setupParallax_fields [simp]:
  "particles (setupParallax s) = particles s" "isMobile (setupParallax s) = isMobile s"
  "particle_nodes (setupParallax s) = particle_nodes s" "doc (setupParallax s) = doc s"
  by (simp_all add: setupParallax_def)

lemma resize_cases:
  "resize w h s =
     (let s1 = s\<lparr>inner_width := w, inner_height := h, isMobile := mobile_width w\<rparr>
      in if isMobile s \<and> \<not> mobile_width w then setupParallax (createParticles s1)
         else if \<not> isMobile s \<and> mobile_width w \<and> particles s \<noteq> None
         then s1\<lparr>particle_nodes := []\<rparr> else s1)"
proof (cases "isMobile s")
  case True
  then show ?thesis by (simp add: resize_def handleResize_def Let_def)
next
  case False
  then show ?thesis
    by (cases "particles s") (simp_all add: resize_def handleResize_def Let_def)
qed

lemma resize_keeps_particles_inv:
  assumes "particles_inv s"
  shows "particles_inv (resize w h s)"
proof (cases "particles s")
  case None
  then show ?thesis by (simp add: resize_cases Let_def particles_inv_def)
next
  case (Some c)
  then have n: "length (particle_nodes s) = (if isMobile s then 0 else 20)"
    using assms by (simp add: particles_inv_def)
  show ?thesis
  proof (cases "isMobile s \<and> \<not> mobile_width w")
    case True
    let ?s1 = "s\<lparr>inner_width := w, inner_height := h, isMobile := mobile_width w\<rparr>"
    obtain ps where "particle_nodes (createParticles ?s1) = particle_nodes ?s1 @ ps"
      "length ps = 20"
      using createParticles_nodes [of ?s1] Some True by auto
    with True n show ?thesis by (simp add: resize_cases particles_inv_def)
  next
    case False
    with Some n show ?thesis by (auto simp: resize_cases Let_def particles_inv_def)
  qed
qed

subsection \<open>Properties\<close>

text \<open>C15. Particle count (spec sections 3 and 8): with a particle container, a
  resize keeps the invariant that the container holds exactly 20 particles on
  desktop and none on mobile.\<close>

theorem resize_particles_inv:
  assumes "particles_inv s"
  shows "particles_inv (resize w h s)"
  using assms by (rule resize_keeps_particles_inv)

theorem resize_particles_inv_witness:
  "particles_inv (resize 768 800
     (demo_page\<lparr>particles := Some 5, particle_nodes := replicate 20 demo_particle\<rparr>))"
proof -
  have "particles_inv (demo_page\<lparr>particles := Some 5, particle_nodes := replicate 20 demo_particle\<rparr>)"
    by (simp add: particles_inv_def demo_page_def)
  then show ?thesis by (rule resize_particles_inv)
qed

text \<open>C16. Particle values (spec section 4.6): on desktop with a container,
  \<open>createParticles\<close> appends exactly 20 particles and, when \<open>Math.random\<close>
  returns values in \<open>[0, 1)\<close>, each has left and top in \<open>[0, 100)\<close>,
  a duration in \<open>[5, 10)\<close> seconds and a delay in \<open>[0, 2)\<close> seconds.\<close>

theorem createParticles_bounds:
  assumes "particles s \<noteq> None" and "\<not> isMobile s" and "\<forall>i. 0 \<le> rand s i \<and> rand s i < 1"
  shows "\<exists>ps. particle_nodes (createParticles s) = particle_nodes s @ ps \<and> length ps = 20 \<and>
              (\<forall>p\<in>set ps. particle_ok p)"
  using createParticles_nodes [OF assms(1,2)] assms(3) by blast

theorem createParticles_bounds_witness:
  "\<exists>ps. particle_nodes (createParticles (demo_page\<lparr>particles := Some 5\<rparr>)) = ps \<and>
        length ps = 20 \<and> (\<forall>p\<in>set ps. particle_ok p)"
proof -
  have "particles (demo_page\<lparr>particles := Some 5\<rparr>) \<noteq> None"
    "\<not> isMobile (demo_page\<lparr>particles := Some 5\<rparr>)"
    "\<forall>i. 0 \<le> rand (demo_page\<lparr>particles := Some 5\<rparr>) i \<and> rand (demo_page\<lparr>particles := Some 5\<rparr>) i < 1"
    by (simp_all add: demo_page_def)
  from createParticles_bounds [OF this] show ?thesis by (simp add: demo_page_def)
qed

text \<open>C17. Viewport round trip (spec section 8): from desktop with a container
  and the invariant, resizing to a width of at most 768 and back to a wider one
  leaves desktop mode, exactly 20 particles and the seven bindings of
  \<open>setupParallax\<close>, assigned afresh rather than duplicated.\<close>

theorem resize_round_trip:
  assumes "\<not> isMobile s" and "particles s \<noteq> None" and "particles_inv s"
    and "w1 \<le> 768" and "768 < w2"
  shows "\<not> isMobile (resize w2 h2 (resize w1 h1 s)) \<and>
         length (particle_nodes (resize w2 h2 (resize w1 h1 s))) = 20 \<and>
         parallaxElements (resize w2 h2 (resize w1 h1 s)) = Some (parallax_bindings (doc s))"
proof -
  let ?m = "resize w1 h1 s"
  have m: "isMobile ?m" "particle_nodes ?m = []" "particles ?m = particles s" "doc ?m = doc s"
    using assms by (simp_all add: resize_cases mobile_width_def Let_def)
  let ?s1 = "?m\<lparr>inner_width := w2, inner_height := h2, isMobile := mobile_width w2\<rparr>"
  have d: "\<not> mobile_width w2" using assms(5) by (simp add: mobile_width_def)
  obtain ps where "particle_nodes (createParticles ?s1) = particle_nodes ?s1 @ ps" "length ps = 20"
    using createParticles_nodes [of ?s1] m(3) assms(2) d by auto
  with m d show ?thesis
    by (simp add: resize_cases setupParallax_def)
qed

theorem resize_round_trip_witness:
  "\<not> isMobile (resize 769 800 (resize 768 800
       (demo_page\<lparr>particles := Some 5, particle_nodes := replicate 20 demo_particle\<rparr>))) \<and>
   length (particle_nodes (resize 769 800 (resize 768 800
       (demo_page\<lparr>particles := Some 5, particle_nodes := replicate 20 demo_particle\<rparr>)))) = 20"
proof -
  let ?s = "demo_page\<lparr>particles := Some 5, particle_nodes := replicate 20 demo_particle\<rparr>"
  have "\<not> isMobile ?s" "particles ?s \<noteq> None" "particles_inv ?s" "(768::int) \<le> 768" "(768::int) < 769"
    by (simp_all add: demo_page_def particles_inv_def)
  from resize_round_trip [OF this] show ?thesis by simp
qed

text \<open>C18. Switching to mobile empties the particle container but keeps the
  parallax bindings: \<open>handleResize\<close> never clears \<open>parallaxElements\<close>, while the
  spec's data-model invariant (section 3) says the switch must clear both. A width
  of exactly 768 counts as mobile.\<close>

theorem resize_to_mobile_keeps_bindings:
  assumes "\<not> isMobile s" and "particles s \<noteq> None" and "w \<le> 768"
  shows "isMobile (resize w h s) \<and> particle_nodes (resize w h s) = [] \<and>
         parallaxElements (resize w h s) = parallaxElements s"
  using assms by (simp add: resize_cases mobile_width_def Let_def)

theorem resize_to_mobile_keeps_bindings_witness:
  "isMobile (resize 768 1024 (demo_page\<lparr>particles := Some 5,
      parallaxElements := Some (parallax_bindings demo_doc)\<rparr>)) \<and>
   parallaxElements (resize 768 1024 (demo_page\<lparr>particles := Some 5,
      parallaxElements := Some (parallax_bindings demo_doc)\<rparr>)) = Some (parallax_bindings demo_doc)"
proof -
  let ?s = "demo_page\<lparr>particles := Some 5, parallaxElements := Some (parallax_bindings demo_doc)\<rparr>"
  have "\<not> isMobile ?s" "particles ?s \<noteq> None" "(768::int) \<le> 768" by (simp_all add: demo_page_def)
  from resize_to_mobile_keeps_bindings [OF this, of 1024] show ?thesis by simp
qed

end
