(* ===== verification/Observer.thy ===== *)
theory Observer
  imports Demo
begin

text \<open>
  The entrance animations of \<open>src/app.js\<close>: the \<open>IntersectionObserver\<close> callback
  of \<open>setupIntersectionObserver\<close> (lines 86--92), \<open>animateElement\<close> (209--223),
  \<open>animateSkillBar\<close> (225--235), \<open>animateSkills\<close> (193--207) and the timer
  callbacks they create. The observer's geometry (threshold 0.1, a 50px bottom
  margin) is the browser's: the callback is modelled on the entries it receives,
  each a target and its \<open>isIntersecting\<close> flag. The code never unobserves a
  target, so an element that leaves and re-enters the viewport is animated again.
\<close>

text \<open>
  \<open>level + '%'\<close>: \<open>dataset.level\<close> is \<open>undefined\<close> when the attribute is absent.
  An assignment of a string that is not a CSS percentage to \<open>style.width\<close> is
  ignored by the browser, without an exception.
\<close>

definition level_text :: "string option \<Rightarrow> string" where
  "level_text lv = (case lv of Some v \<Rightarrow> v | None \<Rightarrow> ''undefined'')"

definition css_percentage :: "string \<Rightarrow> bool" where
  "css_percentage v \<longleftrightarrow>
     v \<noteq> [] \<and> last v = CHR ''%'' \<and> butlast v \<noteq> [] \<and>
     list_all (\<lambda>c. c \<in> set ''0123456789.'') (butlast v)"

definition assign_width :: "string \<Rightarrow> style \<Rightarrow> style" where
  "assign_width v st = (if css_percentage v then st\<lparr>width := v\<rparr> else st)"

text \<open>The \<open>setTimeout\<close> callback of \<open>animateSkillBar\<close> (lines 230--233).\<close>

definition skill_bar_fill :: "elem \<Rightarrow> string option \<Rightarrow> portfolio \<Rightarrow> effect" where
  "skill_bar_fill bar level s =
     (s\<lparr>styles := set_style bar
          (\<lambda>st. assign_width (level_text level @ ''%'') (st\<lparr>transition := ''width 2s ease''\<rparr>))
          (styles s)\<rparr>, [])"

definition animateSkillBar :: "elem \<Rightarrow> portfolio \<Rightarrow> effect" where
  "animateSkillBar skillItem s =
     (case query_in (doc s) skillItem ''.skill-progress'' of
        None \<Rightarrow> (s, [])
      | Some progressBar \<Rightarrow>
          (let level = attr (doc s) skillItem ''data-level''
           in (s\<lparr>styles := set_style progressBar (\<lambda>st. st\<lparr>width := ''0%''\<rparr>) (styles s)\<rparr>,
               [(500, SkillBarFill progressBar level)])))"

text \<open>
  Line 210 tests for the class token \<open>.skill-item\<close>, dot included, as the code
  is written.
\<close>

definition animateElement :: "elem \<Rightarrow> portfolio \<Rightarrow> effect" where
  "animateElement element s =
     (let (s1, ts1) = (if ''.skill-item'' \<in> classes s element then animateSkillBar element s
                       else (s, []));
          s2 = s1\<lparr>styles := set_style element
                  (\<lambda>st. st\<lparr>opacity := ''0'', transform := [TranslateY 30]\<rparr>) (styles s1)\<rparr>
      in (s2, ts1 @ [(100, EntranceShow element)]))"

text \<open>The \<open>setTimeout\<close> callback of \<open>animateElement\<close> (lines 218--222).\<close>

definition entrance_show :: "elem \<Rightarrow> portfolio \<Rightarrow> effect" where
  "entrance_show element s =
     (s\<lparr>styles := set_style element
          (\<lambda>st. st\<lparr>transition := ''all 0.8s ease'', opacity := ''1'', transform := [TranslateY 0]\<rparr>)
          (styles s)\<rparr>, [])"

fun intersection_callback :: "(elem \<times> bool) list \<Rightarrow> portfolio \<Rightarrow> effect" where
  "intersection_callback [] s = (s, [])"
| "intersection_callback ((target, isIntersecting) # es) s =
     (if isIntersecting
      then (let s1 = s\<lparr>classes := class_add target ''animated'' (classes s)\<rparr>;
                (s2, ts) = animateElement target s1;
                (s3, ts') = intersection_callback es s2
            in (s3, ts @ ts'))
      else intersection_callback es s)"

definition animateSkills :: "portfolio \<Rightarrow> effect" where
  "animateSkills s =
     (s, map (\<lambda>x. (fst x * 200, SkillHide (snd x))) (enumerate 0 (select_all (doc s) ''.skill-item'')))"

text \<open>The outer and inner callbacks of \<open>animateSkills\<close> (lines 196--205).\<close>

definition skill_hide :: "elem \<Rightarrow> portfolio \<Rightarrow> effect" where
  "skill_hide item s =
     (s\<lparr>styles := set_style item
          (\<lambda>st. st\<lparr>opacity := ''0'', transform := [TranslateY 30], transition := ''all 0.6s ease''\<rparr>)
          (styles s)\<rparr>, [(100, SkillShow item)])"

definition skill_show :: "elem \<Rightarrow> portfolio \<Rightarrow> effect" where
  "skill_show item s =
     (s\<lparr>styles := set_style item (\<lambda>st. st\<lparr>opacity := ''1'', transform := [TranslateY 0]\<rparr>) (styles s)\<rparr>,
      [])"

lemmas observer_defs [page_defs] =
  level_text_def css_percentage_def assign_width_def skill_bar_fill_def animateSkillBar_def
  animateElement_def entrance_show_def animateSkills_def skill_hide_def skill_show_def

subsection \<open>The entrance animation\<close>

lemma animateSkillBar_classes [simp]: "classes (fst (animateSkillBar e s)) = classes s"
  by (simp add: animateSkillBar_def Let_def split: option.splits)

lemma animateElement_classes [simp]: "classes (fst (animateElement e s)) = classes s"
  by (simp add: animateElement_def split_def Let_def)

lemma intersection_callback_Cons:
  "intersection_callback ((t, b) # es) s =
     (if b then (let (s2, ts) = animateElement t (s\<lparr>classes := class_add t ''animated'' (classes s)\<rparr>);
                     (s3, ts') = intersection_callback es s2
                 in (s3, ts @ ts'))
      else intersection_callback es s)"
  by (simp add: Let_def)

lemma intersection_callback_keeps_class:
  "c \<in> classes s e \<Longrightarrow> c \<in> classes (fst (intersection_callback es s)) e"
proof (induction es arbitrary: s)
  case Nil
  then show ?case by simp
next
  case (Cons x es)
  obtain t b where x: "x = (t, b)" by (cases x)
  let ?s1 = "s\<lparr>classes := class_add t ''animated'' (classes s)\<rparr>"
  have "c \<in> classes (fst (animateElement t ?s1)) e"
    using Cons.prems by (auto simp: class_add_def)
  then have "c \<in> classes (fst (intersection_callback es (fst (animateElement t ?s1)))) e"
    by (rule Cons.IH)
  with Cons.prems x show ?case
    by (simp add: intersection_callback_Cons split_def Let_def Cons.IH)
qed

lemma animateElement_plain:
  assumes "''.skill-item'' \<notin> classes s element"
  shows "animateElement element s =
           (s\<lparr>styles := set_style element
                (\<lambda>st. st\<lparr>opacity := ''0'', transform := [TranslateY 30]\<rparr>) (styles s)\<rparr>,
            [(100, EntranceShow element)])"
  using assms by (simp add: animateElement_def)

lemma demo_observer_facts:
  "query_in (doc demo_page) 70 ''.skill-progress'' = Some 71"
  "attr (doc demo_page) 70 ''data-level'' = Some ''90''"
  by (simp_all add: query_in_def first_of_def demo_page_def demo_doc_def demo_children_def
        demo_attrs_def)

subsection \<open>Properties\<close>

text \<open>C20. The observer callback (spec section 4.3): when no target carries the
  literal class token \<open>.skill-item\<close>, the callback gives every intersecting
  target the class \<open>animated\<close> and sets one 100 ms entrance timer per
  intersecting entry, in entry order; an entry that intersects again later is
  animated again.\<close>

theorem intersection_callback_entrance:
  assumes "\<forall>x\<in>set es. ''.skill-item'' \<notin> classes s (fst x)"
  shows "snd (intersection_callback es s) = map (\<lambda>x. (100, EntranceShow (fst x))) (filter snd es) \<and>
         (\<forall>x\<in>set es. snd x \<longrightarrow> ''animated'' \<in> classes (fst (intersection_callback es s)) (fst x))"
  using assms
proof (induction es arbitrary: s)
  case Nil
  then show ?case by simp
next
  case (Cons x es)
  obtain t b where x: "x = (t, b)" by (cases x)
  show ?case
  proof (cases b)
    case True
    let ?s1 = "s\<lparr>classes := class_add t ''animated'' (classes s)\<rparr>"
    have nd: "''.skill-item'' \<notin> classes ?s1 t"
      using Cons.prems x by (simp add: class_add_def)
    let ?s2 = "fst (animateElement t ?s1)"
    have a: "animateElement t ?s1 = (?s2, [(100, EntranceShow t)])"
      using animateElement_plain [OF nd] by simp
    have a2: "snd (animateElement t ?s1) = [(100, EntranceShow t)]"
      using animateElement_plain [OF nd] by simp
    have c2: "classes ?s2 = class_add t ''animated'' (classes s)" by simp
    have "\<forall>x\<in>set es. ''.skill-item'' \<notin> classes ?s2 (fst x)"
      using Cons.prems by (auto simp: c2 class_add_def)
    then have IH: "snd (intersection_callback es ?s2) = map (\<lambda>x. (100, EntranceShow (fst x))) (filter snd es) \<and>
         (\<forall>x\<in>set es. snd x \<longrightarrow> ''animated'' \<in> classes (fst (intersection_callback es ?s2)) (fst x))"
      by (rule Cons.IH)
    have "''animated'' \<in> classes (fst (intersection_callback es ?s2)) t"
      by (rule intersection_callback_keeps_class) (simp add: class_add_def)
    with True IH a2 x show ?thesis
      by (simp add: intersection_callback_Cons split_def Let_def)
  next
    case False
    with Cons x show ?thesis by (simp add: intersection_callback_Cons)
  qed
qed

theorem intersection_callback_entrance_witness:
  "snd (intersection_callback [(70, True), (60, False), (70, True)] demo_page) =
     [(100, EntranceShow 70), (100, EntranceShow 70)] \<and>
   ''animated'' \<in> classes (fst (intersection_callback [(70, True), (60, False), (70, True)] demo_page)) 70"
proof -
  have "\<forall>x\<in>set [(70::elem, True), (60, False), (70, True)]. ''.skill-item'' \<notin> classes demo_page (fst x)"
    by (simp add: demo_page_def)
  from intersection_callback_entrance [OF this] show ?thesis by simp
qed

text \<open>C19. \<open>animateElement\<close> never animates a skill bar: line 210 asks for the
  class token \<open>.skill-item\<close> (with the selector's dot), which a skill item with
  class \<open>skill-item\<close> does not have, so its progress bar keeps its style and only
  the entrance timer is set. The spec (section 4.3) says the bar of a skill item
  is reset and filled to its level.\<close>

theorem animateElement_skips_skill_bar:
  assumes "''skill-item'' \<in> classes s item" and "''.skill-item'' \<notin> classes s item"
    and "query_in (doc s) item ''.skill-progress'' = Some bar" and "bar \<noteq> item"
  shows "snd (animateElement item s) = [(100, EntranceShow item)] \<and>
         styles (fst (animateElement item s)) bar = styles s bar"
  using assms by (simp add: animateElement_plain)

theorem animateElement_skips_skill_bar_witness:
  "snd (animateElement 70 (demo_page\<lparr>classes := (\<lambda>e. if e = 70 then {''skill-item''} else {})\<rparr>))
     = [(100, EntranceShow 70)] \<and>
   styles (fst (animateElement 70 (demo_page\<lparr>classes := (\<lambda>e. if e = 70 then {''skill-item''} else {})\<rparr>))) 71
     = empty_style"
proof -
  let ?s = "demo_page\<lparr>classes := (\<lambda>e. if e = 70 then {''skill-item''} else {})\<rparr>"
  have "''skill-item'' \<in> classes ?s 70" "''.skill-item'' \<notin> classes ?s 70"
    "query_in (doc ?s) 70 ''.skill-progress'' = Some 71" "(71::elem) \<noteq> 70"
    by (simp_all add: demo_observer_facts)
  from animateElement_skips_skill_bar [OF this] show ?thesis by (simp add: demo_page_def)
qed

text \<open>C21. The skill bar (spec section 7): \<open>animateSkillBar\<close> sets the bar's
  width to \<open>0%\<close> and a 500 ms timer; the timer sets \<open>level + '%'\<close> when that is
  a CSS percentage and otherwise leaves \<open>0%\<close> (a missing level gives
  \<open>undefined%\<close>, which the browser ignores): no exception either way.\<close>

theorem animateSkillBar_level:
  assumes "query_in (doc s) item ''.skill-progress'' = Some bar"
  shows "\<exists>s1. animateSkillBar item s = (s1, [(500, SkillBarFill bar (attr (doc s) item ''data-level''))]) \<and>
           width (styles s1 bar) = ''0%'' \<and>
           (\<forall>lv. width (styles (fst (skill_bar_fill bar lv s1)) bar) =
                   (if css_percentage (level_text lv @ ''%'') then level_text lv @ ''%'' else ''0%''))"
  using assms by (simp add: animateSkillBar_def skill_bar_fill_def assign_width_def)

theorem animateSkillBar_level_witness:
  "\<exists>s1. animateSkillBar 70 demo_page = (s1, [(500, SkillBarFill 71 (Some ''90''))]) \<and>
      width (styles (fst (skill_bar_fill 71 (Some ''90'') s1)) 71) = ''90%'' \<and>
      width (styles (fst (skill_bar_fill 71 None s1)) 71) = ''0%''"
proof -
  have "query_in (doc demo_page) 70 ''.skill-progress'' = Some 71" by (rule demo_observer_facts)
  from animateSkillBar_level [OF this] show ?thesis
    by (auto simp: demo_observer_facts css_percentage_def level_text_def)
qed

end
