(* ===== verification/Interactions.thy ===== *)
theory Interactions
  imports Demo
begin

text \<open>
  The discrete interaction handlers of \<open>src/app.js\<close>: the project-card listeners
  of \<open>setupProjectCards\<close> (lines 237--272), the call-to-action listeners of
  \<open>setupCTAButtons\<close> (274--286) with \<open>animateButton\<close> (288--297) and
  \<open>createRipple\<close> (299--339), and the smooth anchor navigation of
  \<open>setupEventListeners\<close> (36--42) with \<open>scrollToSection\<close> (341--350) and its
  global copy \<open>window.scrollToSection\<close> (497--506). The hover listeners test
  \<open>isMobile\<close> when they run; the touch listeners exist only when the page started
  on mobile (\<open>card_touch_listeners\<close>). A ripple is a span identified by a number;
  \<open>window.scrollTo\<close> is recorded in \<open>scroll_calls\<close>.
\<close>

subsection \<open>Project cards\<close>

definition card_mouseenter :: "elem \<Rightarrow> portfolio \<Rightarrow> portfolio" where
  "card_mouseenter crd s =
     (if \<not> isMobile s
      then s\<lparr>styles := set_style crd
             (\<lambda>st. st\<lparr>transform := [TranslateY (-10), Scale (102 / 100)],
                      transition := ''all 0.3s ease'',
                      box_shadow := ''0 20px 40px rgba(0, 204, 255, 0.3)''\<rparr>) (styles s)\<rparr>
      else s)"

definition card_mouseleave :: "elem \<Rightarrow> portfolio \<Rightarrow> portfolio" where
  "card_mouseleave crd s =
     (if \<not> isMobile s
      then s\<lparr>styles := set_style crd
             (\<lambda>st. st\<lparr>transform := [TranslateY 0, Scale 1], box_shadow := ''none''\<rparr>) (styles s)\<rparr>
      else s)"

definition card_touchstart :: "elem \<Rightarrow> portfolio \<Rightarrow> portfolio" where
  "card_touchstart crd s =
     (if card_touch_listeners s then s\<lparr>classes := class_add crd ''touch-active'' (classes s)\<rparr> else s)"

definition card_touchend :: "elem \<Rightarrow> portfolio \<Rightarrow> effect" where
  "card_touchend crd s = (if card_touch_listeners s then (s, [(150, TouchEndRemove crd)]) else (s, []))"

definition touch_end_remove :: "elem \<Rightarrow> portfolio \<Rightarrow> effect" where
  "touch_end_remove crd s = (s\<lparr>classes := class_remove crd ''touch-active'' (classes s)\<rparr>, [])"

subsection \<open>Call-to-action buttons\<close>

definition animateButton :: "elem \<Rightarrow> portfolio \<Rightarrow> effect" where
  "animateButton button s =
     (case query_in (doc s) button ''.btn-glow'' of
        None \<Rightarrow> (s, [])
      | Some glow \<Rightarrow>
          (s\<lparr>styles := set_style glow (\<lambda>st. st\<lparr>left := ''-100%''\<rparr>) (styles s)\<rparr>,
           [(50, GlowSweep glow)]))"

definition glow_sweep :: "elem \<Rightarrow> portfolio \<Rightarrow> effect" where
  "glow_sweep glow s =
     (s\<lparr>styles := set_style glow (\<lambda>st. st\<lparr>transition := ''left 0.6s ease'', left := ''100%''\<rparr>)
         (styles s)\<rparr>, [])"

text \<open>\<open>createRipple(event, button)\<close> for a click at client coordinates \<open>(cx, cy)\<close>.\<close>

definition createRipple :: "px \<Rightarrow> px \<Rightarrow> elem \<Rightarrow> portfolio \<Rightarrow> effect" where
  "createRipple cx cy button s =
     (let (rl, rt, rw, rh) = rect (doc s) button;
          size = max rw rh;
          x = cx - rl - size / 2;
          y = cy - rt - size / 2;
          rid = next_ripple s;
          s1 = s\<lparr>ripples := ripples s @ [(rid, \<lparr>r_button = button, r_left = x, r_top = y, r_size = size\<rparr>)],
                 next_ripple := Suc rid\<rparr>;
          s2 = (if ''ripple-styles'' \<in> style_ids s1 then s1
                else s1\<lparr>style_ids := insert ''ripple-styles'' (style_ids s1)\<rparr>)
      in (s2, [(600, RippleRemove rid)]))"

text \<open>\<open>ripple.remove()\<close>, 600 ms after the click.\<close>

definition ripple_remove :: "nat \<Rightarrow> portfolio \<Rightarrow> effect" where
  "ripple_remove rid s = (s\<lparr>ripples := filter (\<lambda>r. fst r \<noteq> rid) (ripples s)\<rparr>, [])"

definition cta_click :: "px \<Rightarrow> px \<Rightarrow> elem \<Rightarrow> portfolio \<Rightarrow> effect" where
  "cta_click cx cy button s = createRipple cx cy button s"

definition cta_mouseenter :: "elem \<Rightarrow> portfolio \<Rightarrow> effect" where
  "cta_mouseenter button s = animateButton button s"

subsection \<open>Anchor navigation\<close>

definition scrollToSection :: "string \<Rightarrow> portfolio \<Rightarrow> portfolio" where
  "scrollToSection sectionId s =
     (case by_id (doc s) sectionId of
        None \<Rightarrow> s
      | Some section \<Rightarrow> s\<lparr>scroll_calls := scroll_calls s @ [offset_top (doc s) section - 80]\<rparr>)"

definition window_scrollToSection :: "string \<Rightarrow> portfolio \<Rightarrow> portfolio" where
  "window_scrollToSection sectionId s =
     (case by_id (doc s) sectionId of
        None \<Rightarrow> s
      | Some section \<Rightarrow>
          (let offsetTop = offset_top (doc s) section - 80
           in s\<lparr>scroll_calls := scroll_calls s @ [offsetTop]\<rparr>))"

text \<open>
  The click listener of an \<open>a[href^="#"]\<close> anchor; the selector guarantees an
  \<open>href\<close>, so the \<open>None\<close> branch is never taken.
\<close>

definition anchor_click :: "elem \<Rightarrow> portfolio \<Rightarrow> portfolio" where
  "anchor_click anchor s =
     (case attr (doc s) anchor ''href'' of
        None \<Rightarrow> s
      | Some href \<Rightarrow> scrollToSection (drop 1 href) s)"

text \<open>The interface to the page's timer dispatcher for the callbacks set here.\<close>

definition interaction_handler_ok :: "(task \<Rightarrow> portfolio \<Rightarrow> effect) \<Rightarrow> bool" where
  "interaction_handler_ok h \<longleftrightarrow>
     (\<forall>r s. h (RippleRemove r) s = ripple_remove r s) \<and>
     (\<forall>g s. h (GlowSweep g) s = glow_sweep g s) \<and>
     (\<forall>c s. h (TouchEndRemove c) s = touch_end_remove c s)"

fun interaction_task :: "task \<Rightarrow> portfolio \<Rightarrow> effect" where
  "interaction_task (RippleRemove r) s = ripple_remove r s"
| "interaction_task (GlowSweep g) s = glow_sweep g s"
| "interaction_task (TouchEndRemove c) s = touch_end_remove c s"
| "interaction_task _ s = (s, [])"

lemmas interaction_defs [page_defs] =
  card_mouseenter_def card_mouseleave_def card_touchstart_def card_touchend_def
  touch_end_remove_def animateButton_def glow_sweep_def createRipple_def ripple_remove_def
  cta_click_def cta_mouseenter_def scrollToSection_def window_scrollToSection_def
  anchor_click_def

lemma interaction_task_ok: "interaction_handler_ok interaction_task"
  by (simp add: interaction_handler_ok_def)

lemma createRipple_parts:
  "\<exists>r. snd (createRipple cx cy button s) = [(600, RippleRemove (next_ripple s))] \<and>
       ripples (fst (createRipple cx cy button s)) = ripples s @ [(next_ripple s, r)] \<and>
       next_ripple (fst (createRipple cx cy button s)) = Suc (next_ripple s)"
  by (simp add: createRipple_def Let_def split: prod.splits)

lemma demo_interaction_facts:
  "rect (doc demo_page) 80 = (100, 500, 200, 50)"
  "query_in (doc demo_page) 80 ''.btn-glow'' = Some 81"
  "attr (doc demo_page) 31 ''href'' = Some ''#about''"
  "by_id (doc demo_page) ''about'' = Some 41"
  "offset_top (doc demo_page) 41 = 400"
  by (simp_all add: demo_page_def demo_doc_def query_in_def first_of_def demo_children_def
        demo_attrs_def demo_ids_def)

subsection \<open>Properties\<close>

text \<open>C22. Ripple geometry (spec section 4.4): a click on a button adds one ripple
  span, a square whose side is the larger of the button's width and height,
  centred on the click point, sets its 600 ms removal timer and ensures the
  \<open>ripple\<close> keyframes are injected.\<close>

theorem createRipple_centred:
  assumes "rect (doc s) button = (rl, rt, rw, rh)"
  shows "\<exists>s' r. createRipple cx cy button s = (s', [(600, RippleRemove (next_ripple s))]) \<and>
           ripples s' = ripples s @ [(next_ripple s, r)] \<and> r_button r = button \<and>
           r_size r = max rw rh \<and> r_left r + r_size r / 2 = cx - rl \<and>
           r_top r + r_size r / 2 = cy - rt \<and> ''ripple-styles'' \<in> style_ids s'"
  using assms by (simp add: createRipple_def Let_def)

theorem createRipple_centred_witness:
  "\<exists>s' r. createRipple 150 510 80 demo_page = (s', [(600, RippleRemove 0)]) \<and>
     ripples s' = [(0, r)] \<and> r_size r = 200 \<and> r_left r = -50 \<and> r_top r = -90"
proof -
  from createRipple_centred [OF demo_interaction_facts(1), of 150 510]
  show ?thesis by (auto simp: demo_page_def)
qed

text \<open>C23. No ripple outlives its timer: when every ripple's number is below the
  next number (which every click keeps), a click followed by 600 ms of timers
  leaves exactly the ripples that were there before, and no timer pending.\<close>

theorem createRipple_removed:
  assumes "\<forall>r\<in>set (ripples s). fst r < next_ripple s" and "pending q = []"
    and "interaction_handler_ok h"
    and "createRipple cx cy button s = (s1, ts)"
  shows "\<exists>s2 q2. run_until 1 h (now q + 600) (s1, schedule ts q) = Some (s2, q2) \<and>
           ripples s2 = ripples s \<and> pending q2 = [] \<and>
           (\<forall>r\<in>set (ripples s2). fst r < next_ripple s2)"
proof -
  obtain r where p: "ts = [(600, RippleRemove (next_ripple s))]"
    "ripples s1 = ripples s @ [(next_ripple s, r)]" "next_ripple s1 = Suc (next_ripple s)"
    using createRipple_parts [of cx cy button s] assms(4) by auto
  have keep: "filter (\<lambda>r. fst r \<noteq> next_ripple s) (ripples s) = ripples s"
    using assms(1) by (force simp: filter_id_conv)
  show ?thesis
    using assms(1-3) p keep
    by (auto simp: next_timer_def set_timeout_def interaction_handler_ok_def ripple_remove_def)
qed

theorem createRipple_removed_witness:
  "\<exists>s2 q2. run_until 1 interaction_task (now (empty_queue :: task timer_queue) + 600)
      (fst (createRipple 150 510 80 demo_page),
       schedule (snd (createRipple 150 510 80 demo_page)) empty_queue) = Some (s2, q2) \<and>
     ripples s2 = ripples demo_page \<and> pending q2 = []"
proof -
  have h: "\<forall>r\<in>set (ripples demo_page). fst r < next_ripple demo_page"
    "pending (empty_queue :: task timer_queue) = []" "interaction_handler_ok interaction_task"
    "createRipple 150 510 80 demo_page =
       (fst (createRipple 150 510 80 demo_page), snd (createRipple 150 510 80 demo_page))"
    by (simp_all add: demo_page_def empty_queue_def interaction_task_ok)
  from createRipple_removed [OF h] show ?thesis by blast
qed

text \<open>C24. Card hover (spec section 4.4): on desktop, entering and then leaving a
  project card leaves it at \<open>translateY(0) scale(1)\<close> with no shadow and the
  0.3 s transition set on entry; on mobile neither listener changes the card.\<close>

theorem card_hover_cycle:
  "styles (card_mouseleave c (card_mouseenter c s)) c =
     (if isMobile s then styles s c
      else (styles s c)\<lparr>transform := [TranslateY 0, Scale 1], transition := ''all 0.3s ease'',
                         box_shadow := ''none''\<rparr>)"
  by (simp add: card_mouseenter_def card_mouseleave_def)

text \<open>C25. Touch feedback (spec section 4.4): on a page that started on mobile,
  a touch adds \<open>touch-active\<close> to the card; the touch end keeps it and sets one
  150 ms timer, so the class stays while the clock runs to any time before 150 ms
  later, however many callbacks are allowed, and the timer removes it at 150 ms.\<close>

theorem card_touch_cycle:
  assumes "card_touch_listeners s" and "pending q = []" and "interaction_handler_ok h"
  shows "''touch-active'' \<in> classes (card_touchstart c s) c \<and>
         snd (card_touchend c (card_touchstart c s)) = [(150, TouchEndRemove c)] \<and>
         ''touch-active'' \<in> classes (fst (card_touchend c (card_touchstart c s))) c \<and>
         (\<forall>t n. t < now q + 150 \<longrightarrow>
            run_until n h t (fst (card_touchend c (card_touchstart c s)),
                             schedule (snd (card_touchend c (card_touchstart c s))) q) =
              Some (fst (card_touchend c (card_touchstart c s)),
                    (schedule (snd (card_touchend c (card_touchstart c s))) q)\<lparr>now := max (now q) t\<rparr>)) \<and>
         (\<exists>s2 q2. run_until 1 h (now q + 150)
              (fst (card_touchend c (card_touchstart c s)), schedule (snd (card_touchend c (card_touchstart c s))) q)
              = Some (s2, q2) \<and> ''touch-active'' \<notin> classes s2 c)"
proof -
  let ?s1 = "card_touchstart c s"
  have e: "card_touchend c ?s1 = (?s1, [(150, TouchEndRemove c)])"
    using assms(1) by (simp add: card_touchstart_def card_touchend_def)
  have in1: "''touch-active'' \<in> classes ?s1 c"
    using assms(1) by (simp add: card_touchstart_def class_add_def)
  have "next_timer t (schedule [(150, TouchEndRemove c)] q) = None" if "t < now q + 150" for t
    using assms(2) that by (simp add: next_timer_def set_timeout_def)
  then have early: "run_until n h t (?s1, schedule [(150, TouchEndRemove c)] q) =
      Some (?s1, (schedule [(150, TouchEndRemove c)] q)\<lparr>now := max (now q) t\<rparr>)"
    if "t < now q + 150" for t n
    using that by (cases n) (simp_all add: set_timeout_def)
  have late: "\<exists>s2 q2. run_until 1 h (now q + 150) (?s1, schedule [(150, TouchEndRemove c)] q)
      = Some (s2, q2) \<and> ''touch-active'' \<notin> classes s2 c"
    using assms by (simp add: next_timer_def set_timeout_def interaction_handler_ok_def
        touch_end_remove_def class_remove_def)
  show ?thesis using in1 early late by (simp only: e fst_conv snd_conv) blast
qed

theorem card_touch_cycle_witness:
  "''touch-active'' \<in> classes (fst (card_touchend 60 (card_touchstart 60 (demo_page\<lparr>card_touch_listeners := True\<rparr>)))) 60 \<and>
   snd (card_touchend 60 (card_touchstart 60 (demo_page\<lparr>card_touch_listeners := True\<rparr>))) =
     [(150, TouchEndRemove 60)]"
proof -
  have "card_touch_listeners (demo_page\<lparr>card_touch_listeners := True\<rparr>)"
    "pending (empty_queue :: task timer_queue) = []" "interaction_handler_ok interaction_task"
    by (simp_all add: empty_queue_def interaction_task_ok)
  from card_touch_cycle [OF this, of 60] show ?thesis by blast
qed

text \<open>C26. Anchor navigation (spec section 4.4): a click on an anchor with
  \<open>href="#id"\<close> requests a smooth scroll to the section's \<open>offsetTop - 80\<close> when
  the document has an element with that id and does nothing otherwise; the global
  \<open>window.scrollToSection\<close> behaves exactly as the method.\<close>

theorem anchor_click_scroll:
  assumes "attr (doc s) a ''href'' = Some (''#'' @ sid)"
  shows "scroll_calls (anchor_click a s) =
           scroll_calls s @ (case by_id (doc s) sid of None \<Rightarrow> [] | Some sec \<Rightarrow> [offset_top (doc s) sec - 80]) \<and>
         window_scrollToSection sid s = scrollToSection sid s"
  using assms
  by (simp add: anchor_click_def scrollToSection_def window_scrollToSection_def split: option.splits)

theorem anchor_click_scroll_witness:
  "scroll_calls (anchor_click 31 demo_page) = [320]"
proof -
  have "attr (doc demo_page) 31 ''href'' = Some (''#'' @ ''about'')"
    by (simp add: demo_interaction_facts)
  from anchor_click_scroll [OF this] have "scroll_calls (anchor_click 31 demo_page) =
      scroll_calls demo_page @ (case by_id (doc demo_page) ''about'' of None \<Rightarrow> []
        | Some sec \<Rightarrow> [offset_top (doc demo_page) sec - 80])"
    by blast
  moreover have "scroll_calls demo_page = []" by (simp add: demo_page_def)
  ultimately show ?thesis by (simp add: demo_interaction_facts)
qed


text \<open>The global \<open>window.scrollToSection\<close> (lines 497--506), which names the
  offset before scrolling, scrolls exactly as the method \<open>scrollToSection\<close>
  (lines 341--350) for every section id, present or not.\<close>

theorem window_scrollToSection_eq: "window_scrollToSection sectionId s = scrollToSection sectionId s"
  by (simp add: window_scrollToSection_def scrollToSection_def Let_def split: option.splits)

end
