(* ===== verification/Page.thy ===== *)
theory Page
  imports Pointer Scroll Menu Form Resize Observer Interactions
begin

text \<open>
  The page as a whole: the constructor of \<open>CloudPortfolio\<close> (lines 4--11) and
  \<open>setupEventListeners\<close> (34--82), the \<open>DOMContentLoaded\<close> handler (509--517),
  the dispatcher that runs every timer callback of the components
  (\<open>run_task\<close>), and one step of the page for each kind of browser event, each
  delivered to the listeners the code registered for it. A page is
  \<open>reachable\<close> when it arises from a fresh document by loading and any sequence
  of events. The lemmas here compute the state and the timers the load leaves,
  and show that \<open>run_task\<close> meets the interfaces of the form and interaction
  components; the invariants over reachable pages are in \<open>PageInv\<close>,
  \<open>Listeners\<close> and \<open>FormPhase\<close>.
\<close>

subsection \<open>Timer callbacks\<close>

text \<open>\<open>document.body.classList.add('loaded')\<close>, 500 ms after \<open>DOMContentLoaded\<close>.\<close>

definition body_loaded :: "portfolio \<Rightarrow> effect" where
  "body_loaded s = (s\<lparr>classes := class_add (body_el (doc s)) ''loaded'' (classes s)\<rparr>, [])"

fun run_task :: "task \<Rightarrow> portfolio \<Rightarrow> effect" where
  "run_task (SkillHide e) s = skill_hide e s"
| "run_task (SkillShow e) s = skill_show e s"
| "run_task (EntranceShow e) s = entrance_show e s"
| "run_task (SkillBarFill b lv) s = skill_bar_fill b lv s"
| "run_task (TouchEndRemove c) s = touch_end_remove c s"
| "run_task (GlowSweep g) s = glow_sweep g s"
| "run_task (RippleRemove r) s = ripple_remove r s"
| "run_task (FormSent b t) s = formSent b t s"
| "run_task (FormReset b t) s = formReset b t s"
| "run_task BodyLoaded s = body_loaded s"

text \<open>The two callbacks of the form's submission (lines 433--443).\<close>

fun is_form_task :: "task \<Rightarrow> bool" where
  "is_form_task (FormSent _ _) = True"
| "is_form_task (FormReset _ _) = True"
| "is_form_task _ = False"

text \<open>
  How many further callbacks a callback goes on to schedule: the skill item's
  hide callback schedules the show callback and the form's first callback the
  reset callback; no other callback schedules anything.
\<close>

fun task_depth :: "task \<Rightarrow> nat" where
  "task_depth (SkillHide _) = 1"
| "task_depth (FormSent _ _) = 1"
| "task_depth _ = 0"

subsection \<open>Construction\<close>

text \<open>
  The listeners \<open>setupEventListeners\<close> adds whose presence can change the page's
  behaviour: the \<open>mousemove\<close> listener only on desktop (line 59) and the touch
  listeners of the project cards only on mobile (line 260), both decided once, at
  construction. The other listeners are added unconditionally or exactly when their
  element exists, which \<open>step\<close> tests directly. \<open>setupIntersectionObserver\<close>
  only starts observing, which changes no state of the model.
\<close>

definition setupEventListeners :: "portfolio \<Rightarrow> portfolio" where
  "setupEventListeners s = s\<lparr>mousemove_listener := \<not> isMobile s, card_touch_listeners := isMobile s\<rparr>"

definition CloudPortfolio :: "portfolio \<Rightarrow> effect" where
  "CloudPortfolio s = animateSkills (setupParallax (createParticles (setupEventListeners (init s))))"

definition dom_content_loaded :: "portfolio \<Rightarrow> effect" where
  "dom_content_loaded s =
     (let (s1, ts) = CloudPortfolio (s\<lparr>console := console s @ [LogInitializing]\<rparr>)
      in (s1, ts @ [(500, BodyLoaded)]))"

definition with_timers :: "effect \<Rightarrow> task timer_queue \<Rightarrow> world" where
  "with_timers e q = (fst e, schedule (snd e) q)"

definition page_load :: "portfolio \<Rightarrow> world" where
  "page_load s = with_timers (dom_content_loaded s) empty_queue"

subsection \<open>Events\<close>

text \<open>
  The script's top level (lines 579--585): when \<open>'serviceWorker' in navigator\<close>,
  a \<open>load\<close> listener on the window logs the support.
\<close>

definition service_worker_load :: "portfolio \<Rightarrow> portfolio" where
  "service_worker_load s =
     (if service_worker (doc s) then s\<lparr>console := console s @ [LogServiceWorker]\<rparr> else s)"

text \<open>
  The CommonJS export (lines 587--590): \<open>module.exports = CloudPortfolio\<close> runs
  only when \<open>module\<close> is defined (\<open>Some\<close>) and its \<open>exports\<close> is truthy (the
  flag). It changes nothing the page observes.
\<close>

definition module_export :: "bool option \<Rightarrow> bool" where
  "module_export m = (case m of None \<Rightarrow> False | Some exports_truthy \<Rightarrow> exports_truthy)"

datatype event =
    MouseMove px px | Scroll px | Resize int int | HamburgerClick | LinkClick elem
  | Submit | CardEnter elem | CardLeave elem | TouchStart elem | TouchEnd elem
  | ButtonEnter elem | ButtonClick px px elem | Intersect "(elem \<times> bool) list"
  | Frame | TimerTick ms | WindowLoad

text \<open>
  A click on a link runs the smooth-scroll listener of the \<open>a[href^="#"]\<close> anchors
  first (added at construction) and then the listeners \<open>toggleMobileMenu\<close> added
  to the menu's links.
\<close>

definition link_click :: "elem \<Rightarrow> portfolio \<Rightarrow> portfolio" where
  "link_click a s =
     (let s1 = (if a \<in> set (select_all (doc s) ''a[href^=\"#\"]'') then anchor_click a s else s)
      in case navMenu s of
           None \<Rightarrow> s1
         | Some m \<Rightarrow> if a \<in> set (select_in (doc s) m ''.nav-link'') then nav_link_click s1 else s1)"

definition observed :: "portfolio \<Rightarrow> elem list" where
  "observed s = select_all (doc s) ''.skill-item, .project-card, .contact-card, .about-card''"

definition is_card :: "portfolio \<Rightarrow> elem \<Rightarrow> bool" where
  "is_card s c \<longleftrightarrow> c \<in> set (select_all (doc s) ''.project-card'')"

definition is_cta :: "portfolio \<Rightarrow> elem \<Rightarrow> bool" where
  "is_cta s b \<longleftrightarrow> b \<in> set (select_all (doc s) ''.cta-button'')"

text \<open>
  \<open>TimerTick t\<close> lets the event loop run one timer callback due by time \<open>t\<close>, or
  moves the clock to \<open>t\<close> when none is due. \<open>Submit\<close> reaches the form's
  \<open>submit\<close> listener only when the browser submits the form, which it does not
  while the default button is disabled (\<open>submission_blocked\<close>); an exception
  the listener throws is uncaught and leaves the state as it was when thrown.
  \<open>WindowLoad\<close> is the window's \<open>load\<close> event, whose listener the script adds
  at its top level when the browser supports service workers (lines 579--585);
  the model lets it arrive at any point after \<open>DOMContentLoaded\<close>.
\<close>

fun step :: "event \<Rightarrow> world \<Rightarrow> world" where
  "step (MouseMove x y) (s, q) = ((if mousemove_listener s then on_mousemove x y s else s), q)"
| "step (Scroll y) (s, q) = (handleScroll (s\<lparr>page_y := y\<rparr>), q)"
| "step (Resize w h) (s, q) = (resize w h s, q)"
| "step HamburgerClick (s, q) =
     ((if hamburger s \<noteq> None \<and> navMenu s \<noteq> None then hamburger_click s else s), q)"
| "step (LinkClick a) (s, q) = (link_click a s, q)"
| "step Submit (s, q) =
     (case contactForm s of
        None \<Rightarrow> (s, q)
      | Some form \<Rightarrow>
          if submission_blocked s form then (s, q)
          else case submit_world (s, q) of
                 Inl e \<Rightarrow> (s\<lparr>uncaught := uncaught s @ [e]\<rparr>, q)
               | Inr w \<Rightarrow> w)"
| "step (CardEnter c) (s, q) = ((if is_card s c then card_mouseenter c s else s), q)"
| "step (CardLeave c) (s, q) = ((if is_card s c then card_mouseleave c s else s), q)"
| "step (TouchStart c) (s, q) = ((if is_card s c then card_touchstart c s else s), q)"
| "step (TouchEnd c) (s, q) = (if is_card s c then with_timers (card_touchend c s) q else (s, q))"
| "step (ButtonEnter b) (s, q) = (if is_cta s b then with_timers (cta_mouseenter b s) q else (s, q))"
| "step (ButtonClick x y b) (s, q) =
     (if is_cta s b then with_timers (cta_click x y b s) q else (s, q))"
| "step (Intersect es) (s, q) =
     with_timers (intersection_callback (filter (\<lambda>x. fst x \<in> set (observed s)) es) s) q"
| "step Frame (s, q) = (animation_frame s, q)"
| "step (TimerTick t) (s, q) =
     (case next_timer t q of
        None \<Rightarrow> (s, q\<lparr>now := max (now q) t\<rparr>)
      | Some (f, q') \<Rightarrow> with_timers (run_task f s) q')"
| "step WindowLoad (s, q) = (service_worker_load s, q)"

definition run_events :: "event list \<Rightarrow> world \<Rightarrow> world" where
  "run_events es w = fold step es w"

subsection \<open>Reachable pages\<close>

text \<open>
  A fresh document: no frame callback, particle, ripple or link listener yet, no
  element with class \<open>active\<close>, no disabled button, and the hamburger and the menu panel (when both
  exist) distinct elements that are not navigation links themselves.
\<close>

definition fresh :: "portfolio \<Rightarrow> bool" where
  "fresh s \<longleftrightarrow>
     frames s = [] \<and> particle_nodes s = [] \<and> ripples s = [] \<and> next_ripple s = 0 \<and>
     nav_link_listeners s = 0 \<and> (\<forall>e. ''active'' \<notin> classes s e) \<and> (\<forall>e. \<not> button_disabled s e) \<and>
     (case (by_id (doc s) ''nav-menu'', by_id (doc s) ''hamburger'') of
        (Some m, Some h) \<Rightarrow> m \<noteq> h \<and> m \<notin> set (select_all (doc s) ''.nav-link'') \<and>
                             h \<notin> set (select_all (doc s) ''.nav-link'')
      | _ \<Rightarrow> True)"

inductive reachable :: "world \<Rightarrow> bool" where
  load: "fresh s \<Longrightarrow> reachable (page_load s)"
| step: "reachable w \<Longrightarrow> reachable (step e w)"

lemmas page_step_defs [page_defs] =
  body_loaded_def setupEventListeners_def CloudPortfolio_def dom_content_loaded_def
  with_timers_def page_load_def link_click_def observed_def is_card_def is_cta_def
  run_events_def fresh_def service_worker_load_def

subsection \<open>Loading and running\<close>

lemma with_timers_fst [simp]: "fst (with_timers e q) = fst e"
  by (simp add: with_timers_def)

lemma page_load_state:
  "fst (page_load s) =
     setupParallax (createParticles (setupEventListeners (init (s\<lparr>console := console s @ [LogInitializing]\<rparr>))))"
  by (simp add: page_load_def dom_content_loaded_def CloudPortfolio_def animateSkills_def split_def)

lemma reachable_run_events: "reachable w \<Longrightarrow> reachable (run_events es w)"
  unfolding run_events_def by (induction es arbitrary: w) (simp_all add: reachable.step)

lemma page_load_effects:
  "dom_content_loaded s =
     (fst (page_load s),
      map (\<lambda>x. (fst x * 200, SkillHide (snd x))) (enumerate 0 (select_all (doc s) ''.skill-item'')) @
      [(500, BodyLoaded)])"
proof -
  have "doc (createParticles t) = doc t" for t by simp
  then show ?thesis
    by (simp add: page_load_state dom_content_loaded_def CloudPortfolio_def animateSkills_def
        setupEventListeners_def init_def)
qed

lemma demo_fresh: "fresh demo_page"
  by (simp add: fresh_def demo_page_def demo_doc_def demo_ids_def demo_selectors_def)

lemma demo_mobile: "mobile_width (inner_width (demo_page\<lparr>inner_width := 375\<rparr>))"
  by (simp add: mobile_width_def)

lemma isMobile_resize [simp]: "isMobile (resize w h s) = mobile_width w"
  by (simp add: resize_cases Let_def)


subsection \<open>The dispatcher implements the component interfaces\<close>

lemma run_task_form_ok: "form_handler_ok run_task"
  by (simp add: form_handler_ok_def)

lemma run_task_interaction_ok: "interaction_handler_ok run_task"
  by (simp add: interaction_handler_ok_def)

lemma run_task_weight: "calls_weight task_depth (snd (run_task f s)) \<le> task_depth f"
  by (cases f) (simp_all add: calls_weight_def skill_hide_def skill_show_def entrance_show_def
      skill_bar_fill_def touch_end_remove_def glow_sweep_def body_loaded_def ripple_remove_def
      formSent_def formReset_def)

lemma step_queue_wf:
  assumes "queue_wf q"
  shows "queue_wf (snd (step e (s, q))) \<and> now q \<le> now (snd (step e (s, q)))"
proof (cases e)
  case Submit
  with assms show ?thesis
    by (auto simp: submit_world_def queue_wf_schedule split: option.splits sum.splits)
next
  case (TimerTick t)
  with assms show ?thesis
    by (auto simp: with_timers_def queue_wf_schedule queue_wf_advance split: option.splits
        dest: queue_wf_next_timer)
qed (insert assms, simp_all add: with_timers_def queue_wf_schedule)

lemma queue_wf_reachable: "reachable w \<Longrightarrow> queue_wf (snd w)"
proof (induction rule: reachable.induct)
  case (load s)
  then show ?case by (simp add: page_load_def with_timers_def queue_wf_schedule queue_wf_empty)
next
  case (step w e)
  show ?case using step.IH step_queue_wf [of "snd w" e "fst w"] by simp
qed

text \<open>Loading logs the two lines of the constructor and nothing else.\<close>

lemma page_load_console: "console (fst (page_load s)) = console s @ [LogInitializing, LogInitialized]"
proof -
  have "console (add_particles n t) = console t" for n t
    by (induction n arbitrary: t) (simp_all add: split_def Let_def make_particle_def math_random_def)
  then have "console (setupParallax (createParticles t)) = console t" for t
    by (simp add: createParticles_def setupParallax_def Let_def)
  then show ?thesis by (simp add: page_load_state setupEventListeners_def init_def)
qed

end
