(* ===== verification/PageInv.thy ===== *)
theory PageInv
  imports Page
begin

text \<open>
  The page invariant: the frame throttle of \<open>Pointer\<close>, the particle count of
  \<open>Resize\<close>, the menu consistency of \<open>Menu\<close>, and two facts of the whole
  page (the menu panel and the hamburger are not navigation links; ripple numbers
  in use are below the next one). Loading establishes it and every step keeps it.
  Most handlers change none of the fields it reads, which the frame relation
  \<open>core_eq\<close> captures; the others (pointer, frame, resize, menu, scroll,
  ripples) have their own preservation lemmas.
\<close>

text \<open>The ripple numbers in use are below the next one.\<close>

definition ripple_inv :: "portfolio \<Rightarrow> bool" where
  "ripple_inv s \<longleftrightarrow> (\<forall>r\<in>set (ripples s). fst r < next_ripple s)"

definition menu_doc_ok :: "portfolio \<Rightarrow> bool" where
  "menu_doc_ok s \<longleftrightarrow>
     (case (navMenu s, hamburger s) of
        (Some m, Some h) \<Rightarrow> m \<notin> set (select_all (doc s) ''.nav-link'') \<and>
                             h \<notin> set (select_all (doc s) ''.nav-link'')
      | _ \<Rightarrow> True)"

text \<open>The mobile flag agrees with the window width: \<open>init\<close> and \<open>handleResize\<close> set both.\<close>

definition viewport_ok :: "portfolio \<Rightarrow> bool" where
  "viewport_ok s \<longleftrightarrow> isMobile s = mobile_width (inner_width s)"

definition page_inv :: "world \<Rightarrow> bool" where
  "page_inv w \<longleftrightarrow>
     frame_inv (fst w) \<and> particles_inv (fst w) \<and> menu_inv (fst w) \<and> menu_doc_ok (fst w) \<and>
     ripple_inv (fst w) \<and> viewport_ok (fst w)"

text \<open>
  \<open>core_eq s t\<close>: \<open>t\<close> agrees with \<open>s\<close> on every field the invariants read.
  Most handlers change none of them.
\<close>

definition core_eq :: "portfolio \<Rightarrow> portfolio \<Rightarrow> bool" where
  "core_eq s t \<longleftrightarrow>
     frames t = frames s \<and> ticking t = ticking s \<and> particles t = particles s \<and>
     isMobile t = isMobile s \<and> inner_width t = inner_width s \<and> particle_nodes t = particle_nodes s \<and> ripples t = ripples s \<and>
     next_ripple t = next_ripple s \<and> hamburger t = hamburger s \<and> navMenu t = navMenu s \<and>
     doc t = doc s \<and> (\<forall>e. ''active'' \<in> classes t e \<longleftrightarrow> ''active'' \<in> classes s e)"

lemmas page_inv_defs [page_defs] = ripple_inv_def menu_doc_ok_def viewport_ok_def page_inv_def

subsection \<open>Frame lemmas\<close>

lemma core_eq_refl [simp]: "core_eq s s"
  by (simp add: core_eq_def)

lemma core_eq_trans: "core_eq s t \<Longrightarrow> core_eq t u \<Longrightarrow> core_eq s u"
  by (simp add: core_eq_def)

lemma page_inv_core_eq:
  assumes "core_eq s t" and "page_inv (s, q)"
  shows "page_inv (t, q')"
proof -
  from assms have "viewport_ok t"
    by (simp add: core_eq_def page_inv_def) (simp add: viewport_ok_def)
  with assms show ?thesis
    by (simp add: core_eq_def page_inv_def frame_inv_def particles_inv_def menu_inv_def
        menu_doc_ok_def ripple_inv_def split: option.splits)
qed

lemma core_eq_styles [core_eq_rules]: "core_eq s (s\<lparr>styles := st\<rparr>)"
  by (simp add: core_eq_def)

lemma core_eq_class_other [core_eq_rules]:
  "c \<noteq> ''active'' \<Longrightarrow> core_eq s (s\<lparr>classes := class_add e c (classes s)\<rparr>)"
  "c \<noteq> ''active'' \<Longrightarrow> core_eq s (s\<lparr>classes := class_remove e c (classes s)\<rparr>)"
  by (auto simp: core_eq_def class_add_def class_remove_def)

lemma core_eq_animateSkillBar [core_eq_rules]: "core_eq s (fst (animateSkillBar e s))"
  by (simp add: animateSkillBar_def Let_def core_eq_def split: option.splits)

lemma core_eq_animateElement [core_eq_rules]: "core_eq s (fst (animateElement e s))"
proof -
  have "core_eq s (fst (if ''.skill-item'' \<in> classes s e then animateSkillBar e s else (s, [])))"
    by (simp add: core_eq_animateSkillBar)
  then show ?thesis by (simp add: animateElement_def split_def Let_def core_eq_def)
qed

lemma core_eq_intersection_callback [core_eq_rules]:
  "core_eq s (fst (intersection_callback es s))"
proof (induction es arbitrary: s)
  case Nil
  then show ?case by simp
next
  case (Cons x es)
  obtain t b where x: "x = (t, b)" by (cases x)
  let ?s1 = "s\<lparr>classes := class_add t ''animated'' (classes s)\<rparr>"
  have "core_eq s ?s1" by (rule core_eq_class_other) simp
  moreover have "core_eq ?s1 (fst (animateElement t ?s1))" by (rule core_eq_animateElement)
  moreover have "core_eq (fst (animateElement t ?s1)) (fst (intersection_callback es (fst (animateElement t ?s1))))"
    by (rule Cons.IH)
  ultimately have "core_eq s (fst (intersection_callback es (fst (animateElement t ?s1))))"
    by (blast intro: core_eq_trans)
  with x show ?case
    by (simp add: intersection_callback_Cons split_def Let_def Cons.IH)
qed


text \<open>The invariant only reads these fields and the menu's classes.\<close>

lemma page_inv_transfer:
  assumes "page_inv (s, q)" and "frame_inv t" "particles_inv t" "menu_inv t" "viewport_ok t"
    and "ripples t = ripples s" "next_ripple t = next_ripple s"
        "navMenu t = navMenu s" "hamburger t = hamburger s" "doc t = doc s"
  shows "page_inv (t, q')"
  using assms unfolding page_inv_def menu_doc_ok_def ripple_inv_def
  by (simp split: option.splits)

lemma menu_inv_same:
  "menu_inv s \<Longrightarrow> classes t = classes s \<Longrightarrow> navMenu t = navMenu s \<Longrightarrow>
   hamburger t = hamburger s \<Longrightarrow> menu_inv t"
  by (simp add: menu_inv_def split: option.splits)

lemma page_inv_same_classes:
  assumes "page_inv (s, q)" and "frame_inv t" "particles_inv t" "viewport_ok t" "classes t = classes s"
    and "ripples t = ripples s" "next_ripple t = next_ripple s"
        "navMenu t = navMenu s" "hamburger t = hamburger s" "doc t = doc s"
  shows "page_inv (t, q')"
proof (rule page_inv_transfer [OF assms(1,2,3) _ assms(4) assms(6-10)])
  from assms(1) have "menu_inv s" by (simp add: page_inv_def)
  then show "menu_inv t" using assms(5,8,9) by (rule menu_inv_same)
qed

lemma toggle_keeps [simp]:
  "frames (toggleMobileMenu s) = frames s" "ticking (toggleMobileMenu s) = ticking s"
  "particles (toggleMobileMenu s) = particles s" "isMobile (toggleMobileMenu s) = isMobile s"
  "particle_nodes (toggleMobileMenu s) = particle_nodes s"
  "ripples (toggleMobileMenu s) = ripples s" "next_ripple (toggleMobileMenu s) = next_ripple s"
  "inner_width (toggleMobileMenu s) = inner_width s"
  by (simp_all add: toggleMobileMenu_def Let_def split: option.splits)

lemma viewport_toggle [simp]: "viewport_ok (toggleMobileMenu s) = viewport_ok s"
  by (simp add: viewport_ok_def)

lemma toggle_page_inv: "page_inv (s, q) \<Longrightarrow> page_inv (toggleMobileMenu s, q)"
  by (rule page_inv_transfer)
     (simp_all add: toggle_menu_inv page_inv_def frame_inv_def particles_inv_def)

lemma nav_link_click_page_inv: "page_inv (s, q) \<Longrightarrow> page_inv (nav_link_click s, q)"
  unfolding nav_link_click_def by (rule funpow_invariant [where P = "\<lambda>t. page_inv (t, q)"]) (simp_all add: toggle_page_inv)

lemma handleScroll_keeps [simp]:
  "frames (handleScroll s) = frames s" "ticking (handleScroll s) = ticking s"
  "particles (handleScroll s) = particles s" "isMobile (handleScroll s) = isMobile s"
  "particle_nodes (handleScroll s) = particle_nodes s"
  "ripples (handleScroll s) = ripples s" "next_ripple (handleScroll s) = next_ripple s"
  "navMenu (handleScroll s) = navMenu s" "hamburger (handleScroll s) = hamburger s"
  "inner_width (handleScroll s) = inner_width s"
  by (simp_all add: handleScroll_def updateActiveNavLink_def Let_def split: option.splits)

lemma viewport_scroll [simp]: "viewport_ok (handleScroll (s\<lparr>page_y := y\<rparr>)) = viewport_ok s"
  by (simp add: viewport_ok_def)

lemma handleScroll_page_inv:
  assumes "page_inv (s, q)"
  shows "page_inv (handleScroll (s\<lparr>page_y := y\<rparr>), q)"
proof (rule page_inv_transfer [OF assms])
  show "menu_inv (handleScroll (s\<lparr>page_y := y\<rparr>))"
    using assms
    by (simp add: menu_inv_def page_inv_def menu_doc_ok_def handleScroll_classes
        updateActiveNavLink_def Let_def fold_link_step_other split: option.splits)
qed (insert assms, simp_all add: page_inv_def frame_inv_def particles_inv_def)


lemma on_mousemove_keeps [simp]:
  "particles (on_mousemove x y s) = particles s" "isMobile (on_mousemove x y s) = isMobile s"
  "particle_nodes (on_mousemove x y s) = particle_nodes s"
  "classes (on_mousemove x y s) = classes s" "ripples (on_mousemove x y s) = ripples s"
  "next_ripple (on_mousemove x y s) = next_ripple s" "navMenu (on_mousemove x y s) = navMenu s"
  "hamburger (on_mousemove x y s) = hamburger s" "doc (on_mousemove x y s) = doc s"
  "inner_width (on_mousemove x y s) = inner_width s"
  by (simp_all add: on_mousemove_def requestTick_def)

lemma viewport_mousemove [simp]: "viewport_ok (on_mousemove x y s) = viewport_ok s"
  by (simp add: viewport_ok_def)

lemma mousemove_page_inv: "page_inv (s, q) \<Longrightarrow> page_inv (on_mousemove x y s, q)"
  by (rule page_inv_same_classes)
     (simp_all add: on_mousemove_frame_inv page_inv_def particles_inv_def)

lemma updateParallax_keeps [simp]:
  "frames (updateParallax s) = frames s" "ticking (updateParallax s) = ticking s"
  "particles (updateParallax s) = particles s" "isMobile (updateParallax s) = isMobile s"
  "particle_nodes (updateParallax s) = particle_nodes s" "classes (updateParallax s) = classes s"
  "ripples (updateParallax s) = ripples s" "next_ripple (updateParallax s) = next_ripple s"
  "navMenu (updateParallax s) = navMenu s" "hamburger (updateParallax s) = hamburger s"
  "doc (updateParallax s) = doc s" "inner_width (updateParallax s) = inner_width s"
  by (simp_all add: updateParallax_def split: option.splits)

lemma animation_frame_keeps:
  assumes "frame_inv s"
  shows "particles (animation_frame s) = particles s \<and> isMobile (animation_frame s) = isMobile s \<and>
         particle_nodes (animation_frame s) = particle_nodes s \<and>
         classes (animation_frame s) = classes s \<and> ripples (animation_frame s) = ripples s \<and>
         next_ripple (animation_frame s) = next_ripple s \<and> navMenu (animation_frame s) = navMenu s \<and>
         hamburger (animation_frame s) = hamburger s \<and> doc (animation_frame s) = doc s \<and>
         inner_width (animation_frame s) = inner_width s"
  using assms by (cases "ticking s") (simp_all add: animation_frame_def frame_inv_def)

lemma frame_page_inv: "page_inv (s, q) \<Longrightarrow> page_inv (animation_frame s, q)"
  by (rule page_inv_same_classes)
     (auto simp: animation_frame_frame_inv animation_frame_keeps page_inv_def particles_inv_def
        viewport_ok_def)

lemma add_particles_keeps [simp]:
  "frames (add_particles n s) = frames s" "ticking (add_particles n s) = ticking s"
  "classes (add_particles n s) = classes s" "ripples (add_particles n s) = ripples s"
  "next_ripple (add_particles n s) = next_ripple s" "navMenu (add_particles n s) = navMenu s"
  "hamburger (add_particles n s) = hamburger s" "inner_width (add_particles n s) = inner_width s"
  by (induction n arbitrary: s)
     (simp_all add: split_def Let_def make_particle_def math_random_def)

lemma resize_keeps [simp]:
  "frames (resize w h s) = frames s" "ticking (resize w h s) = ticking s"
  "classes (resize w h s) = classes s" "ripples (resize w h s) = ripples s"
  "next_ripple (resize w h s) = next_ripple s" "navMenu (resize w h s) = navMenu s"
  "hamburger (resize w h s) = hamburger s" "doc (resize w h s) = doc s"
  by (simp_all add: resize_cases Let_def createParticles_def setupParallax_def)

lemma resize_viewport: "viewport_ok (resize w h s)"
  by (simp add: viewport_ok_def resize_cases Let_def createParticles_def setupParallax_def)

lemma resize_page_inv: "page_inv (s, q) \<Longrightarrow> page_inv (resize w h s, q)"
  by (rule page_inv_same_classes)
     (simp_all add: resize_keeps_particles_inv resize_viewport page_inv_def frame_inv_def)


lemma core_eq_handlers [core_eq_rules]:
  "core_eq s (card_mouseenter c s)" "core_eq s (card_mouseleave c s)"
  "core_eq s (card_touchstart c s)" "core_eq s (fst (card_touchend c s))"
  "core_eq s (fst (cta_mouseenter b s))" "core_eq s (anchor_click a s)"
  "core_eq s (s\<lparr>uncaught := es\<rparr>)" "core_eq s (s\<lparr>page_y := y\<rparr>)"
  "core_eq s (service_worker_load s)"
  by (simp_all add: core_eq_def card_mouseenter_def card_mouseleave_def card_touchstart_def
      card_touchend_def cta_mouseenter_def animateButton_def anchor_click_def scrollToSection_def
      class_add_def service_worker_load_def split: option.splits)

lemma core_eq_tasks [core_eq_rules]:
  "core_eq s (fst (skill_hide e s))" "core_eq s (fst (skill_show e s))"
  "core_eq s (fst (entrance_show e s))" "core_eq s (fst (skill_bar_fill e lv s))"
  "core_eq s (fst (touch_end_remove c s))" "core_eq s (fst (glow_sweep g s))"
  "core_eq s (fst (formSent b t s))" "core_eq s (fst (formReset b t s))"
  "core_eq s (fst (body_loaded s))"
  by (simp_all add: core_eq_def skill_hide_def skill_show_def entrance_show_def skill_bar_fill_def
      touch_end_remove_def glow_sweep_def formSent_def formReset_def body_loaded_def
      class_add_def class_remove_def)

lemma core_eq_handleFormSubmit:
  "handleFormSubmit s = Inr (s', ts) \<Longrightarrow> core_eq s s'"
  by (auto simp: handleFormSubmit_def core_eq_def Let_def split: option.splits)

lemma ripple_remove_page_inv: "page_inv (s, q) \<Longrightarrow> page_inv (fst (ripple_remove r s), q')"
  by (auto simp: page_inv_def frame_inv_def particles_inv_def menu_inv_def menu_doc_ok_def
      ripple_inv_def viewport_ok_def ripple_remove_def split: option.splits)

lemma createRipple_page_inv:
  "page_inv (s, q) \<Longrightarrow> page_inv (fst (createRipple x y b s), q')"
  by (auto simp: page_inv_def frame_inv_def particles_inv_def menu_inv_def menu_doc_ok_def
      ripple_inv_def viewport_ok_def createRipple_def Let_def split_def split: option.splits)

lemma run_task_page_inv: "page_inv (s, q) \<Longrightarrow> page_inv (fst (run_task f s), q')"
  by (cases f) (auto intro: page_inv_core_eq core_eq_tasks ripple_remove_page_inv)


lemma page_inv_queue: "page_inv (s, q) \<Longrightarrow> page_inv (s, q')"
  by (simp add: page_inv_def)

lemma page_inv_with_timers [simp]: "page_inv (with_timers e q) \<longleftrightarrow> page_inv (fst e, q)"
  by (simp add: page_inv_def with_timers_def)

lemma link_click_page_inv: "page_inv (s, q) \<Longrightarrow> page_inv (link_click a s, q)"
proof -
  assume inv: "page_inv (s, q)"
  define s1 where "s1 = (if a \<in> set (select_all (doc s) ''a[href^=\"#\"]'') then anchor_click a s else s)"
  have c: "core_eq s s1" by (simp add: s1_def core_eq_handlers)
  then have inv1: "page_inv (s1, q)" using inv by (rule page_inv_core_eq)
  have "navMenu s1 = navMenu s" "doc s1 = doc s" using c by (simp_all add: core_eq_def)
  then show ?thesis using inv1 nav_link_click_page_inv [OF inv1]
    by (simp add: link_click_def s1_def [symmetric] split: option.splits)
qed

lemma submit_page_inv: "page_inv (s, q) \<Longrightarrow> page_inv (step Submit (s, q))"
  by (auto simp: submit_world_def split: sum.splits option.splits
      intro: page_inv_core_eq core_eq_handlers core_eq_handleFormSubmit)

lemma step_page_inv: "page_inv w \<Longrightarrow> page_inv (step e w)"
proof (cases w)
  case (Pair s q)
  assume inv: "page_inv w"
  with Pair have i: "page_inv (s, q)" by simp
  show ?thesis
  proof (cases e)
    case Submit
    then show ?thesis using Pair submit_page_inv [OF i] by simp
  next
    case (TimerTick t)
    then show ?thesis using Pair i
      by (auto simp: page_inv_queue run_task_page_inv split: option.splits)
  qed (insert Pair i, auto simp: mousemove_page_inv handleScroll_page_inv resize_page_inv
        hamburger_click_def toggle_page_inv link_click_page_inv frame_page_inv cta_click_def
        createRipple_page_inv
        intro: page_inv_core_eq core_eq_handlers core_eq_intersection_callback)
qed


lemma construct_keeps [simp]:
  "frames (createParticles s) = frames s" "ticking (createParticles s) = ticking s"
  "classes (createParticles s) = classes s" "ripples (createParticles s) = ripples s"
  "next_ripple (createParticles s) = next_ripple s" "navMenu (createParticles s) = navMenu s"
  "hamburger (createParticles s) = hamburger s"
  "frames (setupParallax s) = frames s" "ticking (setupParallax s) = ticking s"
  "classes (setupParallax s) = classes s" "ripples (setupParallax s) = ripples s"
  "next_ripple (setupParallax s) = next_ripple s" "navMenu (setupParallax s) = navMenu s"
  "hamburger (setupParallax s) = hamburger s"
  "inner_width (createParticles s) = inner_width s" "inner_width (setupParallax s) = inner_width s"
  by (simp_all add: createParticles_def setupParallax_def Let_def)

lemma createParticles_inv:
  assumes "particle_nodes s = []"
  shows "particles_inv (createParticles s)"
proof (cases "particles s = None \<or> isMobile s")
  case True
  then show ?thesis using assms by (auto simp: particles_inv_def createParticles_def)
next
  case False
  then show ?thesis using createParticles_nodes [of s] assms by (auto simp: particles_inv_def)
qed

lemma load_page_inv:
  assumes "fresh s"
  shows "page_inv (page_load s)"
proof -
  define t where "t = setupEventListeners (init (s\<lparr>console := console s @ [LogInitializing]\<rparr>))"
  have t: "frames t = []" "ticking t = False" "particle_nodes t = []" "ripples t = []"
    "\<forall>e. ''active'' \<notin> classes t e" "navMenu t = by_id (doc s) ''nav-menu''"
    "hamburger t = by_id (doc s) ''hamburger''" "doc t = doc s" "viewport_ok t"
    using assms by (simp_all add: t_def init_def setupEventListeners_def fresh_def viewport_ok_def)
  have "page_inv (setupParallax (createParticles t), empty_queue)"
    using assms t createParticles_inv [OF t(3)]
    by (simp add: page_inv_def frame_inv_def menu_inv_def menu_doc_ok_def ripple_inv_def fresh_def
        particles_inv_def viewport_ok_def
        split: option.splits)
  then show ?thesis
    by (metis page_inv_queue page_load_state prod.collapse t_def)
qed

lemma page_inv_reachable: "reachable w \<Longrightarrow> page_inv w"
  by (induction rule: reachable.induct) (simp_all add: load_page_inv step_page_inv)

end
