(* ===== verification/Listeners.thy ===== *)
theory Listeners
  imports Page
begin

text \<open>
  \<open>setupEventListeners\<close> adds the \<open>mousemove\<close> listener only on desktop
  (line 59) and the touch listeners of the project cards only on mobile
  (line 260). No handler ever adds or removes a listener, so the choice made at
  load holds for the life of the page.
\<close>

text \<open>The two listeners \<open>setupEventListeners\<close> adds or not depending on \<open>isMobile\<close>.\<close>

definition listeners :: "portfolio \<Rightarrow> bool \<times> bool" where
  "listeners s = (mousemove_listener s, card_touch_listeners s)"

text \<open>
  What every handler but the form's leaves alone: the listeners, the form, the
  document and the disabled state of the buttons.
\<close>

definition untouched :: "portfolio \<Rightarrow> (bool \<times> bool) \<times> elem option \<times> document \<times> (elem \<Rightarrow> bool)" where
  "untouched s = (listeners s, contactForm s, doc s, button_disabled s)"

subsection \<open>Handlers that leave the listeners and the form alone\<close>

lemma untouched_listeners: "untouched t = untouched s \<Longrightarrow> listeners t = listeners s"
  by (simp add: untouched_def)

lemma untouched_fields [untouched_rules]:
  "untouched (toggleMobileMenu s) = untouched s" "untouched (handleScroll s) = untouched s"
  "untouched (on_mousemove x y s) = untouched s" "untouched (updateParallax s) = untouched s"
  "untouched (snd (make_particle s)) = untouched s"
  "untouched (setupParallax s) = untouched s" "untouched (s\<lparr>page_y := y\<rparr>) = untouched s"
  "untouched (s\<lparr>uncaught := u\<rparr>) = untouched s" "untouched (service_worker_load s) = untouched s"
  by (simp_all add: untouched_def listeners_def toggleMobileMenu_def handleScroll_def Let_def
      updateActiveNavLink_def on_mousemove_def requestTick_def updateParallax_def setupParallax_def
      make_particle_def math_random_def split_def service_worker_load_def split: option.splits)

lemma untouched_run_frame [untouched_rules]: "untouched (run_frame f s) = untouched s"
  by (cases f) (simp add: untouched_def listeners_def updateParallax_def split: option.splits)

lemma untouched_animation_frame [untouched_rules]: "untouched (animation_frame s) = untouched s"
proof -
  have "untouched (fold run_frame fs t) = untouched t" for fs t
    by (induction fs arbitrary: t) (simp_all add: untouched_run_frame)
  then show ?thesis by (simp add: animation_frame_def untouched_def listeners_def)
qed

lemma untouched_add_particles [untouched_rules]: "untouched (add_particles n s) = untouched s"
  by (induction n arbitrary: s)
     (simp_all add: split_def Let_def untouched_def listeners_def make_particle_def math_random_def)

lemma untouched_createParticles [untouched_rules]: "untouched (createParticles s) = untouched s"
  using untouched_add_particles [of 20 s]
  by (simp add: createParticles_def Let_def untouched_def listeners_def)

lemma untouched_nav_link_click [untouched_rules]: "untouched (nav_link_click s) = untouched s"
  unfolding nav_link_click_def
  by (rule funpow_invariant [where P = "\<lambda>t. untouched t = untouched s"]) (simp_all add: untouched_fields)

lemma untouched_resize [untouched_rules]: "untouched (resize w h s) = untouched s"
proof -
  have "untouched (s\<lparr>inner_width := w, inner_height := h, isMobile := b\<rparr>) = untouched s"
    "untouched (t\<lparr>particle_nodes := []\<rparr>) = untouched t" for b t
    by (simp_all add: untouched_def listeners_def)
  then show ?thesis by (simp add: resize_cases Let_def untouched_fields untouched_createParticles)
qed

lemma untouched_handlers [untouched_rules]:
  "untouched (card_mouseenter c s) = untouched s" "untouched (card_mouseleave c s) = untouched s"
  "untouched (card_touchstart c s) = untouched s" "untouched (fst (card_touchend c s)) = untouched s"
  "untouched (fst (cta_mouseenter b s)) = untouched s" "untouched (anchor_click a s) = untouched s"
  "untouched (fst (createRipple x y b s)) = untouched s"
  by (simp_all add: untouched_def listeners_def card_mouseenter_def card_mouseleave_def
      card_touchstart_def card_touchend_def cta_mouseenter_def animateButton_def anchor_click_def
      scrollToSection_def createRipple_def Let_def split_def split: option.splits)

lemma untouched_run_task:
  "\<not> is_form_task f \<Longrightarrow> untouched (fst (run_task f s)) = untouched s"
  by (cases f) (simp_all add: untouched_def listeners_def skill_hide_def skill_show_def
      entrance_show_def skill_bar_fill_def touch_end_remove_def glow_sweep_def body_loaded_def
      ripple_remove_def)

lemma untouched_intersection_callback [untouched_rules]:
  "untouched (fst (intersection_callback es s)) = untouched s"
proof (induction es arbitrary: s)
  case (Cons x es)
  have "untouched (fst (animateElement e t)) = untouched t" for e t
    by (simp add: animateElement_def animateSkillBar_def untouched_def listeners_def Let_def split_def
        split: option.splits)
  then show ?case
    by (cases x) (simp add: intersection_callback_Cons split_def Let_def Cons.IH,
        simp add: untouched_def listeners_def)
qed simp

lemma untouched_link_click [untouched_rules]: "untouched (link_click a s) = untouched s"
  by (simp add: link_click_def Let_def untouched_rules split: option.splits)

lemma untouched_step:
  assumes "e \<noteq> Submit" and "\<forall>t. e \<noteq> TimerTick t"
  shows "untouched (fst (step e (s, q))) = untouched s"
proof (cases e)
  case Submit
  with assms show ?thesis by simp
next
  case (TimerTick t)
  with assms show ?thesis by simp
qed (simp_all add: untouched_rules hamburger_click_def cta_click_def)


subsection \<open>Listeners are fixed at construction\<close>

lemma listeners_run_task: "listeners (fst (run_task f s)) = listeners s"
proof (cases "is_form_task f")
  case True
  then show ?thesis
    by (cases f) (simp_all add: listeners_def formSent_def formReset_def)
next
  case False
  then show ?thesis by (rule untouched_listeners [OF untouched_run_task])
qed

lemma listeners_handleFormSubmit:
  "handleFormSubmit s = Inr (s', ts) \<Longrightarrow> listeners s' = listeners s"
  by (auto simp: handleFormSubmit_def listeners_def Let_def split: option.splits)

lemma listeners_step: "listeners (fst (step e (s, q))) = listeners s"
proof (cases e)
  case Submit
  have "listeners (s\<lparr>uncaught := u\<rparr>) = listeners s" for u by (simp add: listeners_def)
  with Submit show ?thesis using listeners_handleFormSubmit
    by (auto simp: submit_world_def split: sum.splits option.splits)
next
  case (TimerTick t)
  then show ?thesis by (simp add: listeners_run_task split: option.splits)
qed (rule untouched_listeners [OF untouched_step]; simp)+

lemma listeners_run_events: "listeners (fst (run_events es w)) = listeners (fst w)"
  unfolding run_events_def
  by (induction es arbitrary: w) (simp_all, metis listeners_step prod.collapse)

lemma listeners_page_load:
  "listeners (fst (page_load s)) = (\<not> mobile_width (inner_width s), mobile_width (inner_width s))"
proof -
  have "listeners (setupParallax (createParticles t)) = listeners t" for t
    using untouched_fields(6) [of "createParticles t"] untouched_createParticles [of t]
    by (simp add: untouched_def)
  then show ?thesis
    by (simp add: page_load_state) (simp add: listeners_def setupEventListeners_def init_def)
qed

end
