(* ===== verification/FormPhase.thy ===== *)
theory FormPhase
  imports Listeners "HOL-Library.Multiset"
begin

text \<open>
  The contact form as the page runs it. \<open>handleFormSubmit\<close> (lines 418--446)
  disables the submit button and sets a 1500 ms timer; that timer shows
  \<open>Message Sent!\<close> and sets a 2000 ms timer, which resets the form and enables
  the button. An abstract specification has three phases, \<open>Idle\<close>,
  \<open>Sending\<close> and \<open>Sent\<close>, and moves only forward around that cycle. The
  abstraction reads the phase off the form's pending timers. The lemmas show,
  for every reachable page, that at most one form timer is pending, that it
  belongs to the form's submit button, that the button is disabled exactly while
  one is pending, and that every step of the page either leaves the phase alone
  or moves it one step around the cycle: no submission overlaps another and no
  phase is skipped.
\<close>

subsection \<open>The specification\<close>

datatype form_phase = Idle | Sending | Sent

inductive form_spec :: "form_phase \<Rightarrow> form_phase \<Rightarrow> bool" where
  submit: "form_spec Idle Sending"
| sent: "form_spec Sending Sent"
| reset: "form_spec Sent Idle"
| stutter: "form_spec p p"

subsection \<open>The abstraction\<close>

text \<open>The form's submit button, as \<open>handleFormSubmit\<close> finds it (line 425).\<close>

definition submit_button :: "portfolio \<Rightarrow> elem option" where
  "submit_button s =
     (case contactForm s of
        None \<Rightarrow> None
      | Some form \<Rightarrow> query_in (doc s) form ''button[type=\"submit\"]'')"

definition form_timers :: "task timer_queue \<Rightarrow> task list" where
  "form_timers q = filter is_form_task (map (\<lambda>(_, _, f). f) (pending q))"

fun form_task_for :: "elem \<Rightarrow> task \<Rightarrow> bool" where
  "form_task_for b (FormSent b' _) = (b' = b)"
| "form_task_for b (FormReset b' _) = (b' = b)"
| "form_task_for b _ = False"

fun phase_of :: "task list \<Rightarrow> form_phase" where
  "phase_of [] = Idle"
| "phase_of (f # _) = (case f of FormSent _ _ \<Rightarrow> Sending | FormReset _ _ \<Rightarrow> Sent | _ \<Rightarrow> Idle)"

definition form_phase :: "world \<Rightarrow> form_phase" where
  "form_phase w = phase_of (form_timers (snd w))"

definition form_inv :: "world \<Rightarrow> bool" where
  "form_inv w \<longleftrightarrow>
     length (form_timers (snd w)) \<le> 1 \<and>
     (case submit_button (fst w) of
        None \<Rightarrow> form_timers (snd w) = []
      | Some b \<Rightarrow> (\<forall>f\<in>set (form_timers (snd w)). form_task_for b f) \<and>
                  (button_disabled (fst w) b \<longleftrightarrow> form_timers (snd w) \<noteq> []))"

inductive_simps form_spec_simps [simp]: "form_spec p p'"

subsection \<open>Form timers in the queue\<close>

lemma form_timers_schedule:
  "form_timers (schedule ts q) = form_timers q @ filter is_form_task (map snd ts)"
proof -
  have "map (\<lambda>(_, _, f). f) (map (\<lambda>(k, d, f). (n + d, k, f)) (enumerate m ts)) = map snd ts"
    for n m and ts :: "(ms \<times> task) list"
    by (induction ts arbitrary: m) auto
  then show ?thesis by (simp add: form_timers_def schedule_pending)
qed

lemma form_timers_set_timeout [simp]:
  "form_timers (set_timeout d f q) = form_timers q @ (if is_form_task f then [f] else [])"
  by (simp add: form_timers_def set_timeout_def)

lemma form_timers_now [simp]: "form_timers (q\<lparr>now := t\<rparr>) = form_timers q"
  by (simp add: form_timers_def)

lemma form_timers_next:
  assumes "next_timer t q = Some (f, q')"
  shows "mset (form_timers q) =
           (if is_form_task f then add_mset f (mset (form_timers q')) else mset (form_timers q'))"
proof -
  obtain d i where x: "(d, i, f) \<in> set (pending q)" and q': "pending q' = remove1 (d, i, f) (pending q)"
    using next_timer_Some [OF assms] by blast
  then have "mset (pending q) = add_mset (d, i, f) (mset (pending q'))" by simp
  then show ?thesis by (simp add: form_timers_def mset_filter)
qed

lemma form_timers_are_form_tasks: "f \<in> set (form_timers q) \<Longrightarrow> is_form_task f"
  by (simp add: form_timers_def)

lemma phase_of_Idle: "\<forall>f\<in>set xs. is_form_task f \<Longrightarrow> phase_of xs = Idle \<longleftrightarrow> xs = []"
  by (cases xs) (auto split: task.splits)

lemma mset_short_list: "length xs \<le> 1 \<Longrightarrow> mset xs = mset ys \<Longrightarrow> xs = ys"
proof -
  assume l: "length xs \<le> 1" and m: "mset xs = mset ys"
  then have "length ys = length xs" by (metis size_mset)
  with l m show ?thesis
    by (cases xs; cases ys) (auto simp: length_Suc_conv)
qed

subsection \<open>Handlers other than the form's\<close>

lemma animateElement_no_form_calls:
  "filter is_form_task (map snd (snd (animateElement e s))) = []"
  by (simp add: animateElement_def animateSkillBar_def Let_def split_def split: option.splits)

lemma no_form_calls [simp]:
  "filter is_form_task (map snd (snd (card_touchend c s))) = []"
  "filter is_form_task (map snd (snd (cta_mouseenter b s))) = []"
  "filter is_form_task (map snd (snd (createRipple x y b s))) = []"
  "filter is_form_task (map snd (snd (intersection_callback es s))) = []"
proof -
  show "filter is_form_task (map snd (snd (intersection_callback es s))) = []"
  proof (induction es arbitrary: s)
    case (Cons x es)
    then show ?case using animateElement_no_form_calls
      by (cases x) (simp add: intersection_callback_Cons split_def Let_def)
  qed simp
qed (simp_all add: card_touchend_def cta_mouseenter_def animateButton_def createRipple_def
      Let_def split_def split: option.splits)

lemma run_task_no_form_calls:
  "\<not> is_form_task f \<Longrightarrow> filter is_form_task (map snd (snd (run_task f s))) = []"
  by (cases f) (simp_all add: skill_hide_def skill_show_def entrance_show_def skill_bar_fill_def
      touch_end_remove_def glow_sweep_def body_loaded_def ripple_remove_def)

lemma form_timers_step_other:
  assumes "e \<noteq> Submit" and "\<forall>t. e \<noteq> TimerTick t"
  shows "form_timers (snd (step e (s, q))) = form_timers q"
proof (cases e)
  case Submit
  with assms show ?thesis by simp
next
  case (TimerTick t)
  with assms show ?thesis by simp
qed (simp_all add: with_timers_def form_timers_schedule cta_click_def)

lemma untouched_submit_button:
  "untouched t = untouched s \<Longrightarrow> submit_button t = submit_button s \<and> button_disabled t = button_disabled s"
  by (simp add: untouched_def submit_button_def split: option.splits)

lemma form_inv_transfer:
  assumes "form_inv (s, q)" and "untouched t = untouched s" and "form_timers q' = form_timers q"
  shows "form_inv (t, q') \<and> form_phase (t, q') = form_phase (s, q)"
  using assms untouched_submit_button [OF assms(2)]
  by (simp add: form_inv_def form_phase_def split: option.splits)

subsection \<open>The form's own steps\<close>

lemma form_submit_step:
  assumes inv: "form_inv (s, q)"
  shows "form_inv (step Submit (s, q)) \<and> form_spec (form_phase (s, q)) (form_phase (step Submit (s, q)))"
proof (cases "contactForm s")
  case None
  then show ?thesis using inv by simp
next
  case (Some form)
  show ?thesis
  proof (cases "query_in (doc s) form ''button[type=\"submit\"]''")
    case None
    with Some have "step Submit (s, q) =
        (s\<lparr>uncaught := uncaught s @ [TypeError ''Cannot read properties of null (reading textContent)'']\<rparr>, q)"
      by (simp add: submission_blocked_def submit_world_def handleFormSubmit_def Let_def)
    then show ?thesis using form_inv_transfer [OF inv untouched_fields(8)] by simp
  next
    case (Some b)
    with \<open>contactForm s = Some form\<close> have sb: "submit_button s = Some b" by (simp add: submit_button_def)
    show ?thesis
    proof (cases "button_disabled s b")
      case True
      with Some \<open>contactForm s = Some form\<close> show ?thesis using inv by (simp add: submission_blocked_def)
    next
      case False
      with inv sb have none: "form_timers q = []" by (simp add: form_inv_def)
      from False Some \<open>contactForm s = Some form\<close> sb none inv show ?thesis
        by (simp add: submission_blocked_def submit_world_def handleFormSubmit_def Let_def
            form_inv_def form_phase_def submit_button_def form_timers_schedule)
    qed
  qed
qed

lemma form_tick_step:
  assumes inv: "form_inv (s, q)"
  shows "form_inv (step (TimerTick t) (s, q)) \<and>
         form_spec (form_phase (s, q)) (form_phase (step (TimerTick t) (s, q)))"
proof (cases "next_timer t q")
  case None
  then show ?thesis using form_inv_transfer [OF inv refl, of "q\<lparr>now := max (now q) t\<rparr>"] by simp
next
  case (Some p)
  obtain f q' where p: "p = (f, q')" by (cases p)
  note m = form_timers_next [OF Some [unfolded p]]
  from inv have l: "length (form_timers q) \<le> 1" by (simp add: form_inv_def)
  show ?thesis
  proof (cases "is_form_task f")
    case False
    with m l have eq: "form_timers q' = form_timers q" by (metis mset_short_list)
    obtain s' ts where r: "run_task f s = (s', ts)" by (cases "run_task f s")
    with False have "untouched s' = untouched s" "filter is_form_task (map snd ts) = []"
      using untouched_run_task [OF False, of s] run_task_no_form_calls [OF False, of s] by simp_all
    then show ?thesis using Some p r form_inv_transfer [OF inv, of s' "schedule ts q'"] eq
      by (simp add: with_timers_def form_timers_schedule)
  next
    case True
    with m have "size (mset (form_timers q)) = Suc (size (mset (form_timers q')))" by simp
    with l have q'0: "form_timers q' = []" by simp
    with m True have q1: "form_timers q = [f]" by (metis mset_short_list mset.simps l)
    with inv obtain b where sb: "submit_button s = Some b" and fb: "form_task_for b f"
      and dis: "button_disabled s b"
      by (auto simp: form_inv_def split: option.splits)
    from sb obtain form where cf: "contactForm s = Some form"
      by (cases "contactForm s") (simp_all add: submit_button_def)
    show ?thesis
    proof (cases f)
      case (FormSent b' tx)
      with fb have f: "f = FormSent b tx" by simp
      with Some p q'0 q1 sb dis cf show ?thesis
        by (simp add: with_timers_def form_timers_schedule formSent_def form_inv_def form_phase_def
            submit_button_def)
    next
      case (FormReset b' tx)
      with fb have f: "f = FormReset b tx" by simp
      with Some p q'0 q1 sb dis cf show ?thesis
        by (simp add: with_timers_def form_timers_schedule formReset_def form_inv_def form_phase_def
            submit_button_def)
    qed (insert True, simp_all)
  qed
qed

subsection \<open>Every step\<close>

lemma form_step:
  assumes "form_inv w"
  shows "form_inv (step e w) \<and> form_spec (form_phase w) (form_phase (step e w))"
proof (cases w)
  case (Pair s q)
  show ?thesis
  proof (cases "e = Submit \<or> (\<exists>t. e = TimerTick t)")
    case True
    with assms Pair form_submit_step form_tick_step show ?thesis by blast
  next
    case False
    then have "untouched (fst (step e (s, q))) = untouched s"
      "form_timers (snd (step e (s, q))) = form_timers q"
      by (simp_all add: untouched_step form_timers_step_other)
    with assms Pair form_inv_transfer [of s q "fst (step e (s, q))" "snd (step e (s, q))"]
    show ?thesis by simp
  qed
qed

lemma submit_button_step: "submit_button (fst (step e w)) = submit_button (fst w)"
proof (cases w)
  case (Pair s q)
  have k: "contactForm (fst (run_task f s)) = contactForm s \<and> doc (fst (run_task f s)) = doc s" for f
    by (cases f) (simp_all add: skill_hide_def skill_show_def entrance_show_def skill_bar_fill_def
        touch_end_remove_def glow_sweep_def body_loaded_def ripple_remove_def formSent_def formReset_def)
  show ?thesis
  proof (cases "e = Submit \<or> (\<exists>t. e = TimerTick t)")
    case True
    with Pair k show ?thesis
      by (auto simp: submit_button_def submit_world_def handleFormSubmit_def Let_def
          split: option.splits sum.splits if_splits)
  next
    case False
    with Pair show ?thesis using untouched_submit_button [OF untouched_step] by simp
  qed
qed

lemma page_load_form:
  "form_timers (snd (page_load s)) = []"
  "button_disabled (fst (page_load s)) = button_disabled s"
  "submit_button (fst (page_load s)) =
     (case by_id (doc s) ''contact-form'' of
        None \<Rightarrow> None
      | Some form \<Rightarrow> query_in (doc s) form ''button[type=\"submit\"]'')"
proof -
  let ?L = "map (\<lambda>x. (fst x * 200, SkillHide (snd x))) (enumerate 0 (select_all (doc s) ''.skill-item'')) @
     [(500, BodyLoaded)]"
  have "snd (page_load s) = schedule ?L empty_queue"
    unfolding page_load_def with_timers_def by (subst page_load_effects) simp
  then show "form_timers (snd (page_load s)) = []"
    by (simp add: form_timers_schedule comp_def) (simp add: form_timers_def empty_queue_def)
  have "untouched (setupParallax (createParticles t)) = untouched t" for t
    by (simp add: untouched_fields untouched_createParticles)
  then show "button_disabled (fst (page_load s)) = button_disabled s"
    "submit_button (fst (page_load s)) = (case by_id (doc s) ''contact-form'' of
        None \<Rightarrow> None | Some form \<Rightarrow> query_in (doc s) form ''button[type=\"submit\"]'')"
    by (simp_all add: page_load_state untouched_def submit_button_def setupEventListeners_def init_def
        split: option.splits)
qed

lemma load_form_inv: "fresh s \<Longrightarrow> form_inv (page_load s)"
  by (simp add: form_inv_def page_load_form(1,2) fresh_def split: option.splits)

lemma form_inv_reachable: "reachable w \<Longrightarrow> form_inv w"
  by (induction rule: reachable.induct) (simp_all add: load_form_inv form_step)

lemma submit_from_idle:
  assumes "form_inv w" and "form_phase w = Idle" and "submit_button (fst w) = Some b"
  shows "form_phase (step Submit w) = Sending \<and> button_disabled (fst (step Submit w)) b \<and>
         button_text (fst (step Submit w)) b = ''Sending...''"
proof (cases w)
  case (Pair s q)
  from assms Pair have e: "form_timers q = []"
    using phase_of_Idle [of "form_timers q"] form_timers_are_form_tasks by (auto simp: form_phase_def)
  with assms Pair have nd: "\<not> button_disabled s b" by (simp add: form_inv_def)
  from assms(3) Pair obtain form where cf: "contactForm s = Some form"
    and qb: "query_in (doc s) form ''button[type=\"submit\"]'' = Some b"
    by (cases "contactForm s") (simp_all add: submit_button_def)
  from Pair e nd cf qb show ?thesis
    by (simp add: submission_blocked_def submit_world_def handleFormSubmit_def Let_def
        form_phase_def form_timers_schedule)
qed

lemma demo_form_world:
  "reachable (page_load demo_page)" "form_phase (page_load demo_page) = Idle"
  "submit_button (fst (page_load demo_page)) = Some 50"
  by (simp_all add: reachable.load demo_fresh form_phase_def page_load_form)
     (simp add: demo_page_def demo_doc_def demo_ids_def demo_children_def query_in_def first_of_def)

subsection \<open>Properties\<close>

text \<open>
  C35. In every reachable page at most one form timer is pending, and the
  form's submit button is disabled exactly while the form is not idle, that is,
  from the submission until the reset callback has run.
\<close>

theorem reachable_form_timers:
  assumes "reachable w"
  shows "length (form_timers (snd w)) \<le> 1 \<and>
         (\<forall>b. submit_button (fst w) = Some b \<longrightarrow> (button_disabled (fst w) b \<longleftrightarrow> form_phase w \<noteq> Idle))"
  using form_inv_reachable [OF assms] phase_of_Idle [of "form_timers (snd w)"] form_timers_are_form_tasks
  by (auto simp: form_inv_def form_phase_def split: option.splits)

theorem reachable_form_timers_witness:
  "length (form_timers (snd (step Submit (page_load demo_page)))) \<le> 1 \<and>
   (button_disabled (fst (step Submit (page_load demo_page))) 50 \<longleftrightarrow>
      form_phase (step Submit (page_load demo_page)) \<noteq> Idle)"
proof -
  have r: "reachable (step Submit (page_load demo_page))" by (rule reachable.step [OF demo_form_world(1)])
  have "submit_button (fst (step Submit (page_load demo_page))) = Some 50"
    by (simp add: submit_button_step demo_form_world(3))
  with reachable_form_timers [OF r] show ?thesis by simp
qed

text \<open>
  C36. Refinement: the page implements the three-phase specification of the form.
  Every step of a reachable page, whatever the event, either keeps the phase or
  moves it one step along \<open>Idle \<rightarrow> Sending \<rightarrow> Sent \<rightarrow> Idle\<close>.
\<close>

theorem form_refinement:
  assumes "reachable w"
  shows "form_spec (form_phase w) (form_phase (step e w))"
  using form_step [OF form_inv_reachable [OF assms]] by simp

theorem form_refinement_witness:
  "form_spec (form_phase (page_load demo_page)) (form_phase (step Submit (page_load demo_page)))"
  by (rule form_refinement [OF demo_form_world(1)])

text \<open>
  C37. From the idle phase a submission always goes through: the phase becomes
  \<open>Sending\<close>, the button is disabled and reads \<open>Sending...\<close>.
\<close>

theorem form_submit_from_idle:
  assumes "reachable w" and "form_phase w = Idle" and "submit_button (fst w) = Some b"
  shows "form_phase (step Submit w) = Sending \<and> button_disabled (fst (step Submit w)) b \<and>
         button_text (fst (step Submit w)) b = ''Sending...''"
  by (rule submit_from_idle [OF form_inv_reachable [OF assms(1)] assms(2,3)])

theorem form_submit_from_idle_witness:
  "form_phase (step Submit (page_load demo_page)) = Sending \<and>
   button_disabled (fst (step Submit (page_load demo_page))) 50 \<and>
   button_text (fst (step Submit (page_load demo_page))) 50 = ''Sending...''"
  by (rule form_submit_from_idle [OF demo_form_world])

text \<open>
  C38. No overlapping submissions: while a submission is in flight (the form is
  not idle), a further submit event changes nothing, because the browser does not
  submit a form whose default button is disabled.
\<close>

theorem form_submit_blocked_while_pending:
  assumes "reachable w" and "submit_button (fst w) = Some b" and "form_phase w \<noteq> Idle"
  shows "step Submit w = w"
proof (cases w)
  case (Pair s q)
  from form_inv_reachable [OF assms(1)] assms(2,3) Pair have "button_disabled s b"
    using phase_of_Idle [of "form_timers q"] form_timers_are_form_tasks
    by (auto simp: form_inv_def form_phase_def)
  with assms(2) Pair show ?thesis
    by (cases "contactForm s") (simp_all add: submit_button_def submission_blocked_def)
qed

theorem form_submit_blocked_while_pending_witness:
  "step Submit (step Submit (page_load demo_page)) = step Submit (page_load demo_page)"
proof -
  have r: "reachable (step Submit (page_load demo_page))" by (rule reachable.step [OF demo_form_world(1)])
  have b: "submit_button (fst (step Submit (page_load demo_page))) = Some 50"
    by (simp add: submit_button_step demo_form_world(3))
  have "form_phase (step Submit (page_load demo_page)) = Sending"
    using submit_from_idle [OF form_inv_reachable [OF demo_form_world(1)] demo_form_world(2,3)] by simp
  then show ?thesis using form_submit_blocked_while_pending [OF r b] by simp
qed

end
