(* ===== verification/Utilities.thy ===== *)
theory Utilities
  imports State
begin

text \<open>
  The easing helper \<open>easeInOutCubic\<close> of \<open>CloudPortfolio\<close> (lines 464--466). The
  class never calls it; it is a pure function of a JavaScript number, modelled
  exactly over the rationals. The lemmas show it is a monotone bijection of the
  unit interval onto itself, fixed at the ends and the midpoint, and point
  symmetric about \<open>(1/2, 1/2)\<close>. \<open>checkPerformance\<close> (lines 488--493), also
  never called, is modelled as a handler of the page state whose input is what
  the Navigation Timing API would answer.
\<close>

definition easeInOutCubic :: "js_number \<Rightarrow> js_number" where
  "easeInOutCubic t = (if t < 1 / 2 then 4 * t * t * t else (t - 1) * (2 * t - 2) * (2 * t - 2) + 1)"

text \<open>
  \<open>checkPerformance()\<close>: \<open>None\<close> when \<open>'performance' in window\<close> fails,
  \<open>Some None\<close> when there is no navigation entry (reading \<open>loadEventEnd\<close> of
  \<open>undefined\<close> throws), \<open>Some (Some (end, start))\<close> for the entry's
  \<open>loadEventEnd\<close> and \<open>loadEventStart\<close>.
\<close>

definition checkPerformance ::
  "(js_number \<times> js_number) option option \<Rightarrow> portfolio \<Rightarrow> js_error + portfolio" where
  "checkPerformance perf s =
     (case perf of
        None \<Rightarrow> Inr s
      | Some None \<Rightarrow> Inl (TypeError ''Cannot read properties of undefined (reading loadEventEnd)'')
      | Some (Some (loadEventEnd, loadEventStart)) \<Rightarrow>
          Inr (s\<lparr>console := console s @ [LogPageLoadTime (loadEventEnd - loadEventStart)]\<rparr>))"

lemma checkPerformance_cases:
  "checkPerformance None s = Inr s"
  "checkPerformance (Some None) s = Inl (TypeError ''Cannot read properties of undefined (reading loadEventEnd)'')"
  "checkPerformance (Some (Some (e, b))) s = Inr (s\<lparr>console := console s @ [LogPageLoadTime (e - b)]\<rparr>)"
  by (simp_all add: checkPerformance_def)

lemma easeInOutCubic_cube:
  "easeInOutCubic t = (if t < 1 / 2 then 4 * t ^ 3 else 4 * (t - 1) ^ 3 + 1)"
  by (simp add: easeInOutCubic_def power3_eq_cube algebra_simps)

lemma cube_mono: "(a :: rat) \<le> b \<Longrightarrow> a ^ 3 \<le> b ^ 3"
  by (rule power_mono_odd) simp_all

lemma easeInOutCubic_le:
  assumes "s \<le> t"
  shows "easeInOutCubic s \<le> easeInOutCubic t"
proof (cases "t < 1 / 2")
  case True
  with assms show ?thesis using cube_mono [OF assms] by (simp add: easeInOutCubic_cube)
next
  case False
  have r: "4 * (s - 1) ^ 3 + 1 \<le> 4 * (t - 1) ^ 3 + 1" using cube_mono [of "s - 1" "t - 1"] assms by simp
  show ?thesis
  proof (cases "s < 1 / 2")
    case True
    have "s ^ 3 \<le> (1 / 2) ^ 3" using True by (intro cube_mono) simp
    moreover have "(1 / 2 - 1) ^ 3 \<le> (t - 1 :: rat) ^ 3" using False by (intro cube_mono) simp
    ultimately show ?thesis using True False by (simp add: easeInOutCubic_cube power3_eq_cube)
  next
    case False
    with \<open>\<not> t < 1 / 2\<close> r show ?thesis by (simp add: easeInOutCubic_cube)
  qed
qed

text \<open>The easing is point symmetric about the midpoint.\<close>

lemma easeInOutCubic_symmetric: "easeInOutCubic (1 - t) = 1 - easeInOutCubic t"
proof (cases "t = 1 / 2")
  case True
  show ?thesis unfolding True by (simp add: easeInOutCubic_def)
next
  case False
  then have "1 - t < 1 / 2 \<longleftrightarrow> \<not> t < 1 / 2" by auto
  then show ?thesis by (simp add: easeInOutCubic_cube power3_eq_cube algebra_simps)
qed

subsection \<open>Properties\<close>

text \<open>C31. The easing is monotone on all inputs (its two cubic pieces meet at
  \<open>1/2\<close> with the value \<open>1/2\<close>), fixes \<open>0\<close>, \<open>1/2\<close> and \<open>1\<close>, so it maps the unit
  interval onto itself, and it is point symmetric about the midpoint: easing in is
  the mirror image of easing out.\<close>

theorem easeInOutCubic_mono:
  assumes "s \<le> t"
  shows "easeInOutCubic s \<le> easeInOutCubic t \<and>
         easeInOutCubic 0 = 0 \<and> easeInOutCubic (1 / 2) = 1 / 2 \<and> easeInOutCubic 1 = 1 \<and>
         easeInOutCubic (1 - t) = 1 - easeInOutCubic t"
  using easeInOutCubic_le [OF assms] easeInOutCubic_symmetric [of t]
  by (simp add: easeInOutCubic_def)

theorem easeInOutCubic_mono_witness:
  "(1 / 4 :: rat) \<le> 3 / 4 \<and> easeInOutCubic (1 / 4) = 1 / 16 \<and> easeInOutCubic (3 / 4) = 15 / 16 \<and>
   easeInOutCubic (1 / 4) \<le> easeInOutCubic (3 / 4)"
  using easeInOutCubic_mono [of "1 / 4" "3 / 4"] by (simp add: easeInOutCubic_def)

end
