(* ===== verification/Stylesheet.thy ===== *)
theory Stylesheet
  imports Menu "HOL-Library.Product_Lexorder"
begin

text \<open>
  The stylesheet the script injects at its top level (lines 519--577) and the part
  of the CSS cascade that decides what the elements the script styles look like.
  The sheet is data: a list of rules, each with an optional \<open>max-width\<close> media
  condition, a selector list and its declarations, in source order. Selectors are
  chains of compound selectors joined by the descendant combinator; a compound is a
  list of simple selectors (class, \<open>:not(.class)\<close>, the \<open>body\<close> type, \<open>:nth-child\<close>,
  \<open>:hover\<close>, \<open>*\<close>), and a flag marks the \<open>::after\<close> pseudo-element.
  The cascade for one property of one element follows CSS: a matching
  \<open>!important\<close> sheet declaration wins, then the inline style the script set,
  then the other matching sheet declarations; among declarations of the same
  importance the highest specificity wins and, among equal specificity, the one
  later in the source. Declarations on \<open>::after\<close> style the pseudo-element, not
  the element. An inline \<open>transform\<close> of \<open>[]\<close> is read as unset: the model writes
  \<open>'none'\<close> as \<open>[]\<close> too (closing the menu), which only differs from unset where a
  sheet rule matches, and no rule matches a bar of a closed menu.
\<close>

subsection \<open>Rules\<close>

datatype css_value = VTransform "css_transform list" | VText string

datatype simple_sel = SClass string | SNot string | STag string | SNthChild nat | SHover | SAny

type_synonym compound = "simple_sel list"

datatype css_selector = Sel "compound list" bool   \<comment> \<open>outermost compound first; \<open>::after\<close>\<close>

record css_rule =
  media_max :: "int option"                        \<comment> \<open>\<open>@media (max-width: n px)\<close>\<close>
  selectors :: "css_selector list"
  decls :: "(string \<times> css_value \<times> bool) list"   \<comment> \<open>property, value, \<open>!important\<close>\<close>

definition plain :: "compound list \<Rightarrow> css_selector" where
  "plain cs = Sel cs False"

text \<open>\<open>additionalStyles.textContent\<close>, rule by rule.\<close>

definition additionalStyles :: "css_rule list" where
  "additionalStyles =
    [\<lparr>media_max = None, selectors = [plain [[SClass ''project-card'', SClass ''touch-active'']]],
      decls = [(''transform'', VTransform [TranslateY (-5), Scale (102 / 100)], True),
               (''box-shadow'', VText ''0 15px 30px rgba(0, 204, 255, 0.2)'', True)]\<rparr>,
     \<lparr>media_max = None, selectors = [plain [[SClass ''nav-link'', SClass ''active'']]],
      decls = [(''color'', VText ''var(--neon-blue)'', True),
               (''text-shadow'', VText ''0 0 10px var(--neon-blue)'', True)]\<rparr>,
     \<lparr>media_max = None, selectors = [Sel [[SClass ''nav-link'', SClass ''active'']] True],
      decls = [(''width'', VText ''100%'', True)]\<rparr>,
     \<lparr>media_max = None, selectors = [plain [[STag ''body'', SNot ''loaded''], [SAny]]],
      decls = [(''animation-play-state'', VText ''paused'', True)]\<rparr>,
     \<lparr>media_max = None,
      selectors = [plain [[SClass ''hamburger'', SClass ''active''], [SClass ''bar'', SNthChild 1]]],
      decls = [(''transform'', VTransform [Rotate 45, Translate 6 6], False)]\<rparr>,
     \<lparr>media_max = None,
      selectors = [plain [[SClass ''hamburger'', SClass ''active''], [SClass ''bar'', SNthChild 2]]],
      decls = [(''opacity'', VText ''0'', False)]\<rparr>,
     \<lparr>media_max = None,
      selectors = [plain [[SClass ''hamburger'', SClass ''active''], [SClass ''bar'', SNthChild 3]]],
      decls = [(''transform'', VTransform [Rotate (-45), Translate 6 (-6)], False)]\<rparr>,
     \<lparr>media_max = Some 768,
      selectors = [plain [[SClass ''floating-cloud'']], plain [[SClass ''server-rack'']]],
      decls = [(''display'', VText ''none'', False)]\<rparr>,
     \<lparr>media_max = Some 768, selectors = [plain [[SClass ''hero-visual'']]],
      decls = [(''transform'', VTransform [Scale (8 / 10)], False)]\<rparr>,
     \<lparr>media_max = Some 768, selectors = [plain [[SClass ''project-card'']]],
      decls = [(''height'', VText ''auto'', False)]\<rparr>,
     \<lparr>media_max = Some 768,
      selectors = [plain [[SClass ''project-card'', SHover], [SClass ''project-card-inner'']]],
      decls = [(''transform'', VTransform [], False)]\<rparr>,
     \<lparr>media_max = Some 768, selectors = [plain [[SClass ''project-back'']]],
      decls = [(''position'', VText ''relative'', False), (''transform'', VTransform [], False),
               (''margin-top'', VText ''1rem'', False), (''height'', VText ''auto'', False)]\<rparr>]"

subsection \<open>Matching\<close>

fun simple_matches :: "document \<Rightarrow> class_lists \<Rightarrow> (elem \<Rightarrow> bool) \<Rightarrow> elem \<Rightarrow> simple_sel \<Rightarrow> bool" where
  "simple_matches d cl hov e (SClass c) = (c \<in> cl e)"
| "simple_matches d cl hov e (SNot c) = (c \<notin> cl e)"
| "simple_matches d cl hov e (STag t) = (t = ''body'' \<and> e = body_el d)"
| "simple_matches d cl hov e (SNthChild n) = (child_index d e = n)"
| "simple_matches d cl hov e SHover = hov e"
| "simple_matches d cl hov e SAny = True"

definition compound_matches :: "document \<Rightarrow> class_lists \<Rightarrow> (elem \<Rightarrow> bool) \<Rightarrow> elem \<Rightarrow> compound \<Rightarrow> bool" where
  "compound_matches d cl hov e c = list_all (simple_matches d cl hov e) c"

text \<open>The descendant combinator: the compounds, innermost first, along the ancestors.\<close>

fun matches_up ::
  "document \<Rightarrow> class_lists \<Rightarrow> (elem \<Rightarrow> bool) \<Rightarrow> compound list \<Rightarrow> elem list \<Rightarrow> bool" where
  "matches_up d cl hov [] as = True"
| "matches_up d cl hov (c # cs) [] = False"
| "matches_up d cl hov (c # cs) (a # as) =
     ((compound_matches d cl hov a c \<and> matches_up d cl hov cs as) \<or> matches_up d cl hov (c # cs) as)"

fun selector_matches :: "document \<Rightarrow> class_lists \<Rightarrow> (elem \<Rightarrow> bool) \<Rightarrow> elem \<Rightarrow> css_selector \<Rightarrow> bool" where
  "selector_matches d cl hov e (Sel cs after) =
     (\<not> after \<and> cs \<noteq> [] \<and> compound_matches d cl hov e (last cs) \<and>
      matches_up d cl hov (rev (butlast cs)) (ancestors d e))"

fun simple_spec :: "simple_sel \<Rightarrow> nat \<times> nat \<times> nat" where
  "simple_spec (STag _) = (0, 0, 1)"
| "simple_spec SAny = (0, 0, 0)"
| "simple_spec _ = (0, 1, 0)"

definition add_spec :: "nat \<times> nat \<times> nat \<Rightarrow> nat \<times> nat \<times> nat \<Rightarrow> nat \<times> nat \<times> nat" where
  "add_spec x y = (fst x + fst y, fst (snd x) + fst (snd y), snd (snd x) + snd (snd y))"

fun selector_spec :: "css_selector \<Rightarrow> nat \<times> nat \<times> nat" where
  "selector_spec (Sel cs after) =
     fold add_spec (map simple_spec (concat cs)) (if after then (0, 0, 1) else (0, 0, 0))"

definition media_applies :: "int \<Rightarrow> int option \<Rightarrow> bool" where
  "media_applies w m = (case m of None \<Rightarrow> True | Some n \<Rightarrow> w \<le> n)"

subsection \<open>The cascade\<close>

type_synonym cascade_key = "(nat \<times> nat \<times> nat) \<times> nat \<times> nat"

text \<open>The declarations of property \<open>p\<close> with importance \<open>imp\<close> in rule number \<open>i\<close>
  that apply to \<open>e\<close>, each with its specificity, rule number and declaration number;
  rules without such a declaration are not matched at all.\<close>

definition rule_candidates ::
  "document \<Rightarrow> class_lists \<Rightarrow> (elem \<Rightarrow> bool) \<Rightarrow> int \<Rightarrow> elem \<Rightarrow> string \<Rightarrow> bool \<Rightarrow> nat \<Rightarrow> css_rule
     \<Rightarrow> (cascade_key \<times> css_value) list" where
  "rule_candidates d cl hov w e p imp i r =
     (case filter (\<lambda>(_, (p', _, imp')). p' = p \<and> imp' = imp) (enumerate 0 (decls r)) of
        [] \<Rightarrow> []
      | ds \<Rightarrow>
          (if media_applies w (media_max r)
           then (case map selector_spec (filter (selector_matches d cl hov e) (selectors r)) of
                   [] \<Rightarrow> []
                 | sps \<Rightarrow> map (\<lambda>(j, (_, v, _)). ((fold max sps (0, 0, 0), i, j), v)) ds)
           else []))"

fun candidates ::
  "css_rule list \<Rightarrow> document \<Rightarrow> class_lists \<Rightarrow> (elem \<Rightarrow> bool) \<Rightarrow> int \<Rightarrow> elem \<Rightarrow> string \<Rightarrow> bool
     \<Rightarrow> nat \<Rightarrow> (cascade_key \<times> css_value) list" where
  "candidates [] d cl hov w e p imp i = []"
| "candidates (r # rs) d cl hov w e p imp i =
     rule_candidates d cl hov w e p imp i r @ candidates rs d cl hov w e p imp (Suc i)"

definition winner :: "(cascade_key \<times> css_value) list \<Rightarrow> css_value option" where
  "winner cs =
     (case cs of
        [] \<Rightarrow> None
      | c # rest \<Rightarrow> Some (snd (fold (\<lambda>x y. if fst y \<le> fst x then x else y) rest c)))"

text \<open>The inline declarations the script writes, read back by property name.\<close>

definition inline_value :: "style \<Rightarrow> string \<Rightarrow> css_value option" where
  "inline_value st p =
     (if p = ''transform'' then (if transform st = [] then None else Some (VTransform (transform st)))
      else if p = ''opacity'' then (if opacity st = [] then None else Some (VText (opacity st)))
      else if p = ''box-shadow'' then (if box_shadow st = [] then None else Some (VText (box_shadow st)))
      else if p = ''transition'' then (if transition st = [] then None else Some (VText (transition st)))
      else if p = ''width'' then (if width st = [] then None else Some (VText (width st)))
      else if p = ''left'' then (if left st = [] then None else Some (VText (left st)))
      else None)"

definition computed ::
  "css_rule list \<Rightarrow> portfolio \<Rightarrow> (elem \<Rightarrow> bool) \<Rightarrow> elem \<Rightarrow> string \<Rightarrow> css_value option" where
  "computed sheet s hov e p =
     (case winner (candidates sheet (doc s) (classes s) hov (inner_width s) e p True 0) of
        Some v \<Rightarrow> Some v
      | None \<Rightarrow>
          (case inline_value (styles s e) p of
             Some v \<Rightarrow> Some v
           | None \<Rightarrow> winner (candidates sheet (doc s) (classes s) hov (inner_width s) e p False 0)))"

subsection \<open>What the sheet decides\<close>

text \<open>The condition \<open>.hamburger.active\<close> of rules 5--7 on some ancestor of a bar.\<close>

definition open_hamburger_above :: "portfolio \<Rightarrow> elem \<Rightarrow> bool" where
  "open_hamburger_above s b \<longleftrightarrow>
     (\<exists>a\<in>set (ancestors (doc s) b). ''hamburger'' \<in> classes s a \<and> ''active'' \<in> classes s a)"

lemmas sheet_defs = additionalStyles_def plain_def rule_candidates_def winner_def compound_matches_def
  media_applies_def

lemma computed_display:
  "computed additionalStyles s hov e ''display'' =
     (if inner_width s \<le> 768 \<and> (''floating-cloud'' \<in> classes s e \<or> ''server-rack'' \<in> classes s e)
      then Some (VText ''none'') else None)"
  by (simp add: computed_def sheet_defs inline_value_def)

lemma matches_up_single [simp]:
  "matches_up d cl hov [c] as = (\<exists>a\<in>set as. compound_matches d cl hov a c)"
  by (induction as) auto

lemma computed_bar:
  assumes "classes s b = {''bar''}"
  shows "computed additionalStyles s hov b ''transform'' =
           (if transform (styles s b) \<noteq> [] then Some (VTransform (transform (styles s b)))
            else if open_hamburger_above s b \<and> child_index (doc s) b = 1
            then Some (VTransform [Rotate 45, Translate 6 6])
            else if open_hamburger_above s b \<and> child_index (doc s) b = 3
            then Some (VTransform [Rotate (-45), Translate 6 (-6)])
            else None)"
    and "computed additionalStyles s hov b ''opacity'' =
           (if opacity (styles s b) \<noteq> [] then Some (VText (opacity (styles s b)))
            else if open_hamburger_above s b \<and> child_index (doc s) b = 2 then Some (VText ''0'')
            else None)"
  using assms
  by (simp_all add: computed_def sheet_defs inline_value_def open_hamburger_above_def compound_matches_def) blast+

lemma computed_play_state:
  "computed additionalStyles s hov e ''animation-play-state'' =
     (if body_el (doc s) \<in> set (ancestors (doc s) e) \<and> ''loaded'' \<notin> classes s (body_el (doc s))
      then Some (VText ''paused'') else None)"
  by (auto simp: computed_def sheet_defs inline_value_def)

end
