(* ===== verification/MenuCss.thy ===== *)
theory MenuCss
  imports Stylesheet
begin

text \<open>
  The hamburger menu as it is rendered: the inline transforms
  \<open>toggleMobileMenu\<close> (Menu) writes on the three bars, composed with the
  injected rules for \<open>.hamburger.active .bar:nth-child(n)\<close> (Stylesheet).
\<close>

lemma opacity_set_bars [simp]: "opacity (set_bars act bars st e) = opacity (st e)"
proof -
  have "opacity (fold (\<lambda>x. set_style (snd x) (\<lambda>b. b\<lparr>transform := bar_transform act (fst x)\<rparr>))
      (enumerate k bars) st e) = opacity (st e)" for k
    by (induction bars arbitrary: st k) (simp_all add: set_style_def)
  then show ?thesis by (simp add: set_bars_def)
qed

text \<open>C33. Opening the menu renders the hamburger as a cross: the first bar
  takes the rotation of the injected rule for \<open>nth-child(1)\<close> (which the inline
  transform \<open>toggleMobileMenu\<close> writes agrees with), the second bar the
  rule's opacity 0, and the third bar the inline transform
  \<open>rotate(-45deg) translate(-6px, -6px)\<close>, which overrides the matching
  injected rule \<open>rotate(-45deg) translate(6px, -6px)\<close>: without the inline
  value the rule would apply.\<close>

theorem open_menu_bars:
  assumes nav: "navMenu s = Some m" and ham: "hamburger s = Some h" and mh: "m \<noteq> h"
    and closed: "''active'' \<notin> classes s m" "''active'' \<notin> classes s h"
    and hc: "''hamburger'' \<in> classes s h"
    and bars: "select_in (doc s) h ''.bar'' = [b1, b2, b3]" "distinct [b1, b2, b3]"
    and mb: "m \<notin> set [b1, b2, b3]"
    and bc: "classes s b1 = {''bar''}" "classes s b2 = {''bar''}" "classes s b3 = {''bar''}"
    and anc: "h \<in> set (ancestors (doc s) b1)" "h \<in> set (ancestors (doc s) b2)"
      "h \<in> set (ancestors (doc s) b3)"
    and idx: "child_index (doc s) b1 = 1" "child_index (doc s) b2 = 2" "child_index (doc s) b3 = 3"
    and op: "opacity (styles s b2) = []"
  shows "computed additionalStyles (toggleMobileMenu s) hov b1 ''transform'' =
           Some (VTransform [Rotate 45, Translate 6 6]) \<and>
         computed additionalStyles (toggleMobileMenu s) hov b2 ''opacity'' = Some (VText ''0'') \<and>
         computed additionalStyles (toggleMobileMenu s) hov b3 ''transform'' =
           Some (VTransform [Rotate (-45), Translate (-6) (-6)]) \<and>
         computed additionalStyles ((toggleMobileMenu s)\<lparr>styles :=
             (styles (toggleMobileMenu s))(b3 := (styles (toggleMobileMenu s) b3)\<lparr>transform := []\<rparr>)\<rparr>)
           hov b3 ''transform'' = Some (VTransform [Rotate (-45), Translate 6 (-6)])"
proof -
  let ?t = "toggleMobileMenu s"
  let ?u = "?t\<lparr>styles := (styles ?t)(b3 := (styles ?t b3)\<lparr>transform := []\<rparr>)\<rparr>"
  have hne: "h \<noteq> b" if "classes s b = {''bar''}" for b
  proof
    assume "h = b"
    with that hc have "''hamburger'' \<in> {''bar''}" by simp
    then show False by simp
  qed
  have hb: "h \<noteq> b1" "h \<noteq> b2" "h \<noteq> b3" using hne bc by simp_all
  have cl: "classes ?t = class_toggle h ''active'' (class_toggle m ''active'' (classes s))"
    and st: "styles ?t = set_bars True [b1, b2, b3] (styles s)"
    using nav ham mh closed bars by (simp_all add: toggleMobileMenu_def Let_def)
  have keep: "classes ?t b = classes s b" if "b \<noteq> h" "b \<noteq> m" for b
    using that by (simp add: cl class_toggle_def class_add_def class_remove_def)
  have cb: "classes ?t b1 = {''bar''}" "classes ?t b2 = {''bar''}" "classes ?t b3 = {''bar''}"
    using keep hb mb bc by simp_all
  have hcl: "''hamburger'' \<in> classes ?t h" "''active'' \<in> classes ?t h"
    using hc closed(2) mh by (simp_all add: cl class_toggle_def class_add_def class_remove_def)
  have above: "open_hamburger_above ?t b" if "h \<in> set (ancestors (doc s) b)" for b
    unfolding open_hamburger_above_def using that hcl by auto
  have tr: "transform (styles ?t b1) = [Rotate 45, Translate 6 6]"
    "transform (styles ?t b2) \<noteq> []"
    "transform (styles ?t b3) = [Rotate (-45), Translate (-6) (-6)]"
    using transform_set_bars [OF bars(2), of 0 True "styles s"]
      transform_set_bars [OF bars(2), of 1 True "styles s"]
      transform_set_bars [OF bars(2), of 2 True "styles s"]
    by (simp_all add: st bar_transform_def)
  have opb: "opacity (styles ?t b2) = []" using op by (simp add: st)
  have c1: "computed additionalStyles ?t hov b1 ''transform'' = Some (VTransform [Rotate 45, Translate 6 6])"
    using computed_bar(1) [OF cb(1)] tr(1) by simp
  have c2: "computed additionalStyles ?t hov b2 ''opacity'' = Some (VText ''0'')"
    using computed_bar(2) [OF cb(2)] opb above [OF anc(2)] idx(2) by simp
  have c3: "computed additionalStyles ?t hov b3 ''transform'' =
      Some (VTransform [Rotate (-45), Translate (-6) (-6)])"
    using computed_bar(1) [OF cb(3)] tr(3) by simp
  have "classes ?u b3 = {''bar''}" using cb(3) by simp
  moreover have "open_hamburger_above ?u b3"
    using above [OF anc(3)] by (simp add: open_hamburger_above_def)
  ultimately have c4: "computed additionalStyles ?u hov b3 ''transform'' =
      Some (VTransform [Rotate (-45), Translate 6 (-6)])"
    using computed_bar(1) [of ?u b3 hov] idx(3) by simp
  from c1 c2 c3 c4 show ?thesis by blast
qed

theorem open_menu_bars_witness:
  "computed additionalStyles (toggleMobileMenu (demo_page\<lparr>navMenu := Some 3, hamburger := Some 2,
       classes := (\<lambda>e. if e = 2 then {''hamburger''} else if e \<in> {20, 21, 22} then {''bar''} else {})\<rparr>))
     (\<lambda>_. False) 22 ''transform'' = Some (VTransform [Rotate (-45), Translate (-6) (-6)])"
proof -
  let ?s = "demo_page\<lparr>navMenu := Some 3, hamburger := Some 2,
       classes := (\<lambda>e. if e = 2 then {''hamburger''} else if e \<in> {20, 21, 22} then {''bar''} else {})\<rparr>"
  have "select_in (doc ?s) 2 ''.bar'' = [20, 21, 22]" using demo_menu_facts by simp
  moreover have "ancestors (doc ?s) 20 = [2, 1, 0]" "ancestors (doc ?s) 21 = [2, 1, 0]"
    "ancestors (doc ?s) 22 = [2, 1, 0]"
    "child_index (doc ?s) 20 = 1" "child_index (doc ?s) 21 = 2"
    "child_index (doc ?s) 22 = 3" "opacity (styles ?s 21) = []"
    by (simp_all add: demo_page_def demo_doc_def empty_style_def)
  ultimately show ?thesis
    using open_menu_bars [of ?s 3 2 20 21 22 "\<lambda>_. False"] by simp
qed

end
