(* ===== verification/Floating.thy ===== *)
theory Floating
  imports Prelude
begin

text \<open>
  \<open>addFloatingAnimation(element, duration = 6000, distance = 20)\<close> (lines
  468--485). The method is never called by the class; it is modelled on its own,
  one call being one closure: its captured \<open>start\<close>, the arguments after the
  defaults apply, the \<open>translateY\<close> terms its frames append to
  \<open>element.style.transform\<close>, and how many \<open>animate\<close> callbacks are waiting for
  an animation frame. The offset is \<open>Math.sin(progress * Math.PI * 2) * distance\<close>,
  so numbers are \<open>real\<close> here, not the \<open>rat\<close> of the rest of the model; the
  floating-point rounding of \<open>Math.sin\<close> is not modelled. JavaScript's \<open>%\<close>
  truncates towards zero and gives \<open>NaN\<close> for a zero divisor; a \<open>NaN\<close> offset
  makes the assignment \<open>translateY(NaNpx)\<close> invalid, which the browser ignores,
  so that frame leaves the transform as it was.
\<close>

record float_anim =
  float_duration :: real
  float_distance :: real
  float_start :: "real option"      \<comment> \<open>\<open>let start = null\<close>\<close>
  float_terms :: "real list"        \<comment> \<open>the \<open>translateY(y px)\<close> terms appended, in order\<close>
  float_pending :: nat              \<comment> \<open>queued \<open>requestAnimationFrame(animate)\<close> callbacks\<close>

definition js_trunc :: "real \<Rightarrow> int" where
  "js_trunc x = (if 0 \<le> x then \<lfloor>x\<rfloor> else \<lceil>x\<rceil>)"

definition js_rem :: "real \<Rightarrow> real \<Rightarrow> real option" where
  "js_rem x d = (if d = 0 then None else Some (x - d * of_int (js_trunc (x / d))))"

text \<open>The offset of one frame, \<open>None\<close> for \<open>NaN\<close>.\<close>

definition float_offset :: "real \<Rightarrow> real \<Rightarrow> real \<Rightarrow> real option" where
  "float_offset duration distance elapsed =
     map_option (\<lambda>m. sin (m / duration * pi * 2) * distance) (js_rem elapsed duration)"

text \<open>The call: default parameters apply to omitted (\<open>None\<close>) arguments, and one
  callback is requested.\<close>

definition addFloatingAnimation :: "real option \<Rightarrow> real option \<Rightarrow> float_anim" where
  "addFloatingAnimation duration distance =
     \<lparr>float_duration = (case duration of None \<Rightarrow> 6000 | Some d \<Rightarrow> d),
      float_distance = (case distance of None \<Rightarrow> 20 | Some x \<Rightarrow> x),
      float_start = None, float_terms = [], float_pending = 1\<rparr>"

text \<open>\<open>animate(timestamp)\<close>: \<open>if (!start) start = timestamp\<close> takes the timestamp
  while \<open>start\<close> is \<open>null\<close> or \<open>0\<close> (both falsy); then the offset is appended and
  the callback requests the next frame.\<close>

definition animate :: "real \<Rightarrow> float_anim \<Rightarrow> float_anim" where
  "animate timestamp a =
     (let start = (case float_start a of None \<Rightarrow> timestamp | Some s \<Rightarrow> if s = 0 then timestamp else s);
          elapsed = timestamp - start;
          terms = (case float_offset (float_duration a) (float_distance a) elapsed of
                     None \<Rightarrow> float_terms a
                   | Some y \<Rightarrow> float_terms a @ [y])
      in a\<lparr>float_start := Some start, float_terms := terms, float_pending := float_pending a + 1\<rparr>)"

text \<open>An animation frame at \<open>timestamp\<close> runs the waiting callback.\<close>

definition float_frame :: "real \<Rightarrow> float_anim \<Rightarrow> float_anim" where
  "float_frame timestamp a =
     (if float_pending a = 0 then a else animate timestamp (a\<lparr>float_pending := float_pending a - 1\<rparr>))"

definition float_frames :: "real list \<Rightarrow> float_anim \<Rightarrow> float_anim" where
  "float_frames ts a = fold float_frame ts a"

lemma js_rem_nonneg:
  assumes "0 \<le> x" and "0 < d"
  shows "js_rem x d = Some (x - d * of_int \<lfloor>x / d\<rfloor>)"
  using assms by (simp add: js_rem_def js_trunc_def)

lemma js_rem_shift:
  assumes "0 \<le> x" and "0 < d"
  shows "js_rem (x + of_nat k * d) d = js_rem x d"
proof -
  have "(x + of_nat k * d) / d = x / d + of_nat k" using assms(2) by (simp add: field_simps)
  then have "\<lfloor>(x + of_nat k * d) / d\<rfloor> = \<lfloor>x / d\<rfloor> + int k" by simp
  moreover have "0 \<le> x + of_nat k * d" using assms by simp
  ultimately show ?thesis using assms by (simp add: js_rem_nonneg algebra_simps)
qed

lemma float_frame_pending:
  "float_pending a = 1 \<Longrightarrow> float_pending (float_frame t a) = 1"
  by (simp add: float_frame_def animate_def Let_def)

lemma float_frames_append [simp]:
  "float_frames (ts @ us) a = float_frames us (float_frames ts a)"
  by (simp add: float_frames_def)

lemma float_offset_bound:
  "float_offset d x e = Some y \<Longrightarrow> \<bar>y\<bar> \<le> \<bar>x\<bar>"
proof -
  assume "float_offset d x e = Some y"
  then obtain m where "y = sin (m / d * pi * 2) * x" by (auto simp: float_offset_def)
  moreover have "\<bar>sin (m / d * pi * 2)\<bar> * \<bar>x\<bar> \<le> 1 * \<bar>x\<bar>"
    by (rule mult_right_mono) (simp_all add: abs_sin_le_one)
  ultimately show ?thesis by (simp add: abs_mult)
qed

lemma float_offset_quarter:
  assumes "0 < d"
  shows "float_offset d x (d / 4 + of_nat k * d) = Some x"
proof -
  have "js_rem (d / 4) d = Some (d / 4)"
  proof -
    have "\<lfloor>d / 4 / d\<rfloor> = 0" using assms by simp
    then show ?thesis using assms by (simp add: js_rem_nonneg)
  qed
  then have js: "js_rem (d / 4 + of_nat k * d) d = Some (d / 4)"
    using js_rem_shift [of "d / 4" d k] assms by simp
  have e: "d / 4 / d * pi * 2 = pi / 2" using assms by (simp add: field_simps)
  have s: "sin (d / 4 / d * pi * 2) = 1" unfolding e by simp
  show ?thesis unfolding float_offset_def js by (simp only: option.map s) simp
qed

text \<open>Frames of a running animation: the callback stays the only one waiting,
  every frame appends one term, and each term is bounded by the distance.\<close>

lemma float_frames_running:
  assumes "float_pending a = 1" and "float_duration a \<noteq> 0"
    and "\<forall>y\<in>set (float_terms a). \<bar>y\<bar> \<le> \<bar>float_distance a\<bar>"
  shows "float_pending (float_frames ts a) = 1 \<and>
         length (float_terms (float_frames ts a)) = length (float_terms a) + length ts \<and>
         float_duration (float_frames ts a) = float_duration a \<and>
         float_distance (float_frames ts a) = float_distance a \<and>
         (\<forall>y\<in>set (float_terms (float_frames ts a)). \<bar>y\<bar> \<le> \<bar>float_distance a\<bar>)"
  using assms
proof (induction ts arbitrary: a)
  case Nil
  then show ?case by (simp add: float_frames_def)
next
  case (Cons t ts)
  let ?b = "float_frame t a"
  obtain y where y: "float_offset (float_duration a) (float_distance a)
      (t - (case float_start a of None \<Rightarrow> t | Some s \<Rightarrow> if s = 0 then t else s)) = Some y"
    using Cons.prems(2) by (simp add: float_offset_def js_rem_def)
  then have "\<bar>y\<bar> \<le> \<bar>float_distance a\<bar>" by (rule float_offset_bound)
  then have b: "float_pending ?b = 1" "float_duration ?b = float_duration a"
    "float_distance ?b = float_distance a" "float_terms ?b = float_terms a @ [y]"
    "\<forall>y\<in>set (float_terms ?b). \<bar>y\<bar> \<le> \<bar>float_distance a\<bar>"
    using Cons.prems y by (simp_all add: float_frame_def animate_def Let_def)
  have "float_frames (t # ts) a = float_frames ts ?b" by (simp add: float_frames_def)
  with Cons.IH [of ?b] b Cons.prems show ?case by simp
qed

text \<open>Frames at the quarter phase of a started animation each append \<open>+distance\<close>.\<close>

lemma float_frames_quarter:
  assumes "float_pending a = 1" and "float_start a = Some t0" and "t0 \<noteq> 0"
    and "0 < float_duration a"
  shows "float_terms (float_frames (map (\<lambda>k. t0 + float_duration a / 4 + of_nat k * float_duration a) ks) a) =
         float_terms a @ replicate (length ks) (float_distance a)"
  using assms
proof (induction ks arbitrary: a)
  case Nil
  then show ?case by (simp add: float_frames_def)
next
  case (Cons k ks)
  let ?d = "float_duration a"
  let ?b = "float_frame (t0 + ?d / 4 + of_nat k * ?d) a"
  have "float_offset ?d (float_distance a) (?d / 4 + of_nat k * ?d) = Some (float_distance a)"
    using Cons.prems(4) by (rule float_offset_quarter)
  then have b: "float_pending ?b = 1" "float_start ?b = Some t0" "float_duration ?b = ?d"
    "float_distance ?b = float_distance a" "float_terms ?b = float_terms a @ [float_distance a]"
    using Cons.prems by (simp_all add: float_frame_def animate_def Let_def add.assoc)
  have "float_frames (map (\<lambda>k. t0 + ?d / 4 + of_nat k * ?d) (k # ks)) a =
      float_frames (map (\<lambda>k. t0 + float_duration ?b / 4 + of_nat k * float_duration ?b) ks) ?b"
    using b(3) by (simp add: float_frames_def)
  with Cons.IH [of ?b] b Cons.prems(3,4) show ?case by (simp add: replicate_append_same)
qed

lemma float_first_frame:
  assumes "0 < d" and "t0 \<noteq> 0"
  shows "float_frame t0 (addFloatingAnimation (Some d) (Some x)) =
         \<lparr>float_duration = d, float_distance = x, float_start = Some t0, float_terms = [0],
          float_pending = 1\<rparr>"
proof -
  have "js_rem 0 d = Some 0" using assms(1) by (simp add: js_rem_def js_trunc_def)
  then show ?thesis using assms
    by (simp add: float_frame_def animate_def addFloatingAnimation_def float_offset_def Let_def)
qed

text \<open>\<open>if (!start)\<close> also takes \<open>start = 0\<close> for unset: when the first frame's
  timestamp is 0, the next frame restarts the clock.\<close>

lemma float_start_zero_retaken:
  "float_start (float_frames [0, t] (addFloatingAnimation dur dst)) = Some t"
  by (simp add: float_frames_def float_frame_def animate_def addFloatingAnimation_def Let_def)

subsection \<open>Properties\<close>

text \<open>C8. The frame loop of \<open>addFloatingAnimation\<close> never ends: after any
  sequence of animation frames the \<open>animate\<close> callback is again the one request
  waiting, and (for a non-zero duration) every frame has appended exactly one
  \<open>translateY\<close> term, each of magnitude at most \<open>distance\<close>.\<close>

theorem float_animation_never_stops:
  assumes "float_duration (addFloatingAnimation dur dst) \<noteq> 0"
  shows "float_pending (float_frames ts (addFloatingAnimation dur dst)) = 1 \<and>
         length (float_terms (float_frames ts (addFloatingAnimation dur dst))) = length ts \<and>
         (\<forall>y\<in>set (float_terms (float_frames ts (addFloatingAnimation dur dst))).
            \<bar>y\<bar> \<le> \<bar>float_distance (addFloatingAnimation dur dst)\<bar>)"
  using float_frames_running [of "addFloatingAnimation dur dst" ts] assms
  by (simp add: addFloatingAnimation_def)

theorem float_animation_never_stops_witness:
  "float_pending (float_frames [1000, 2500, 4000] (addFloatingAnimation None None)) = 1 \<and>
   length (float_terms (float_frames [1000, 2500, 4000] (addFloatingAnimation None None))) = 3"
  using float_animation_never_stops [of None None "[1000, 2500, 4000]"]
  by (simp add: addFloatingAnimation_def)

text \<open>C32. The offset is periodic in the elapsed time with period
  \<open>duration\<close>, but the terms accumulate (\<open>+=\<close>): the element is displaced by
  their sum. Frames that land at the quarter phase, one per period after a first
  frame at \<open>t0 \<noteq> 0\<close>, each add \<open>+distance\<close>, so after \<open>n\<close> of them the element has
  drifted by \<open>n * distance\<close> instead of floating within \<open>\<plusminus>distance\<close>.\<close>

theorem float_animation_drift:
  assumes "t0 \<noteq> 0" and "0 < d"
  shows "(\<forall>e\<ge>0. float_offset d x (e + d) = float_offset d x e) \<and>
         sum_list (float_terms (float_frames (t0 # map (\<lambda>k. t0 + d / 4 + of_nat k * d) [0..<n])
             (addFloatingAnimation (Some d) (Some x)))) = of_nat n * x"
proof -
  have per: "float_offset d x (e + d) = float_offset d x e" if "0 \<le> e" for e
    using js_rem_shift [OF that assms(2), of 1] by (simp add: float_offset_def)
  let ?a = "float_frame t0 (addFloatingAnimation (Some d) (Some x))"
  have a: "float_pending ?a = 1" "float_start ?a = Some t0" "float_duration ?a = d"
    "float_distance ?a = x" "float_terms ?a = [0]"
    using float_first_frame [OF assms(2,1)] by simp_all
  have "float_terms (float_frames (map (\<lambda>k. t0 + d / 4 + of_nat k * d) [0..<n]) ?a) =
      [0] @ replicate n x"
    using float_frames_quarter [of ?a t0 "[0..<n]"] a assms by simp
  then have "float_terms (float_frames (t0 # map (\<lambda>k. t0 + d / 4 + of_nat k * d) [0..<n])
      (addFloatingAnimation (Some d) (Some x))) = 0 # replicate n x"
    by (simp add: float_frames_def)
  then show ?thesis using per by (simp add: sum_list_replicate)
qed

theorem float_animation_drift_witness:
  "sum_list (float_terms (float_frames (1000 # map (\<lambda>k. 1000 + 6000 / 4 + of_nat k * 6000) [0..<3])
      (addFloatingAnimation (Some 6000) (Some 20)))) = (60 :: real)"
  using float_animation_drift [of 1000 6000 20 3] by simp

end
