(* ===== verification/Visibility.thy ===== *)
theory Visibility
  imports Page
begin

text \<open>
  Where the observer's entries come from. \<open>setupIntersectionObserver\<close> (lines
  84--103) creates the observer with the options \<open>threshold: 0.1\<close> and
  \<open>rootMargin: '0px 0px -50px 0px'\<close> (lines 93--96) and observes every
  element of \<open>observed\<close>. The browser's update of intersection observations
  (the Intersection Observer specification, modelled from it) decides which
  entries a callback receives: the root is the viewport grown by the margins (so
  here shortened by 50px at the bottom); a target \<open>isIntersecting\<close> when its
  bounding box meets the root, edge-adjacent included; its ratio is the visible
  share of its area; and an entry is queued when the threshold index of the
  ratio or \<open>isIntersecting\<close> differs from the values at the previous update,
  which start as \<open>-1\<close> (\<open>None\<close>) and \<open>false\<close>. \<open>Page\<close> delivers the entries with
  the \<open>Intersect\<close> event.
\<close>

record rect =
  rect_x :: rat
  rect_y :: rat
  rect_w :: rat
  rect_h :: rat

record observer_options =
  thresholds :: "rat list"
  root_margin :: "rat \<times> rat \<times> rat \<times> rat"    \<comment> \<open>top, right, bottom, left\<close>

definition observerOptions :: observer_options where
  "observerOptions = \<lparr>thresholds = [1 / 10], root_margin = (0, 0, -50, 0)\<rparr>"

definition root_bounds :: "observer_options \<Rightarrow> rat \<Rightarrow> rat \<Rightarrow> rect" where
  "root_bounds opts vw vh =
     (case root_margin opts of (t, r, b, l) \<Rightarrow>
        \<lparr>rect_x = - l, rect_y = - t, rect_w = vw + l + r, rect_h = vh + t + b\<rparr>)"

definition overlap_w :: "rect \<Rightarrow> rect \<Rightarrow> rat" where
  "overlap_w a b = min (rect_x a + rect_w a) (rect_x b + rect_w b) - max (rect_x a) (rect_x b)"

definition overlap_h :: "rect \<Rightarrow> rect \<Rightarrow> rat" where
  "overlap_h a b = min (rect_y a + rect_h a) (rect_y b + rect_h b) - max (rect_y a) (rect_y b)"

definition intersecting :: "rect \<Rightarrow> rect \<Rightarrow> bool" where
  "intersecting rb r \<longleftrightarrow> 0 \<le> overlap_w rb r \<and> 0 \<le> overlap_h rb r"

definition intersection_ratio :: "rect \<Rightarrow> rect \<Rightarrow> rat" where
  "intersection_ratio rb r =
     (if rect_w r * rect_h r \<noteq> 0
      then (if intersecting rb r then overlap_w rb r * overlap_h rb r else 0) / (rect_w r * rect_h r)
      else if intersecting rb r then 1 else 0)"

text \<open>The index of the first threshold above the ratio (thresholds sorted).\<close>

definition threshold_index :: "rat list \<Rightarrow> rat \<Rightarrow> nat" where
  "threshold_index ths ratio = length (takeWhile (\<lambda>th. th \<le> ratio) ths)"

type_synonym registration = "elem \<Rightarrow> nat option \<times> bool"

definition fresh_registration :: registration where
  "fresh_registration = (\<lambda>_. (None, False))"

fun update_observations ::
  "observer_options \<Rightarrow> rect \<Rightarrow> (elem \<Rightarrow> rect) \<Rightarrow> registration \<Rightarrow> elem list \<Rightarrow>
   (elem \<times> bool) list \<times> registration" where
  "update_observations opts rb geo prev [] = ([], prev)"
| "update_observations opts rb geo prev (t # ts) =
     (let isect = intersecting rb (geo t);
          idx = threshold_index (thresholds opts) (intersection_ratio rb (geo t));
          (es, reg) = update_observations opts rb geo (prev(t := (Some idx, isect))) ts
      in (if prev t \<noteq> (Some idx, isect) then (t, isect) # es else es, reg))"

lemma update_observations_Cons:
  "update_observations opts rb geo prev (t # ts) =
     (let isect = intersecting rb (geo t);
          idx = threshold_index (thresholds opts) (intersection_ratio rb (geo t));
          r = update_observations opts rb geo (prev(t := (Some idx, isect))) ts
      in (if prev t \<noteq> (Some idx, isect) then (t, isect) # fst r else fst r, snd r))"
  by (simp add: Let_def split_def)

lemma update_observations_other:
  "t \<notin> set ts \<Longrightarrow> snd (update_observations opts rb geo prev ts) t = prev t"
  by (induction ts arbitrary: prev) (simp_all add: update_observations_Cons Let_def del: update_observations.simps(2))

lemma update_observations_entry:
  assumes "t \<in> set ts" and "distinct ts"
    and "prev t \<noteq> (Some (threshold_index (thresholds opts) (intersection_ratio rb (geo t))),
                   intersecting rb (geo t))"
  shows "(t, intersecting rb (geo t)) \<in> set (fst (update_observations opts rb geo prev ts))"
  using assms
proof (induction ts arbitrary: prev)
  case Nil
  then show ?case by simp
next
  case (Cons u ts)
  show ?case
  proof (cases "u = t")
    case True
    with Cons.prems(3) show ?thesis
      by (simp add: update_observations_Cons Let_def del: update_observations.simps(2))
  next
    case False
    then have "t \<in> set ts" "distinct ts" using Cons.prems(1,2) by auto
    moreover have "(prev(u := p)) t = prev t" for p using False by simp
    ultimately have "(t, intersecting rb (geo t)) \<in>
        set (fst (update_observations opts rb geo (prev(u := p)) ts))" for p
      using Cons.IH Cons.prems(3) by simp
    then show ?thesis by (simp add: update_observations_Cons Let_def del: update_observations.simps(2))
  qed
qed

lemma intersection_callback_animates:
  "(t, True) \<in> set es \<Longrightarrow> ''animated'' \<in> classes (fst (intersection_callback es s)) t"
proof (induction es arbitrary: s)
  case Nil
  then show ?case by simp
next
  case (Cons x es)
  obtain u b where x: "x = (u, b)" by (cases x)
  let ?s1 = "s\<lparr>classes := class_add u ''animated'' (classes s)\<rparr>"
  show ?case
  proof (cases "x = (t, True)")
    case True
    have "''animated'' \<in> classes (fst (animateElement t ?s1)) t"
      using True x by (auto simp: class_add_def)
    then show ?thesis using True x
      by (simp add: intersection_callback_Cons split_def Let_def intersection_callback_keeps_class)
  next
    case False
    then have "(t, True) \<in> set es" using Cons.prems by simp
    then show ?thesis using x
      by (simp add: intersection_callback_Cons split_def Let_def Cons.IH)
  qed
qed

lemma threshold_index_below:
  "r < 1 / 10 \<Longrightarrow> threshold_index (thresholds observerOptions) r = 0"
  by (simp add: threshold_index_def observerOptions_def)

subsection \<open>Properties\<close>

text \<open>C29. The 10\% threshold does not gate the animation. A target that meets
  the margin-shortened viewport but is less than 10\% visible gets an entry with
  \<open>isIntersecting = true\<close> whenever its registration does not already record
  that state: at the first update after \<open>observe\<close> (an element just peeking in at
  load), and when a target that was at least 10\% visible scrolls out past the
  threshold. The callback tests only \<open>isIntersecting\<close>, so the page marks the
  target \<open>animated\<close> and replays its entrance, where the spec (section 4.3) asks
  for at least 10\% visibility.\<close>

theorem observer_animates_below_threshold:
  assumes "t \<in> set (observed s)" and "distinct (observed s)"
    and "intersecting (root_bounds observerOptions vw vh) (geo t)"
    and "intersection_ratio (root_bounds observerOptions vw vh) (geo t) < 1 / 10"
    and "prev t \<noteq> (Some 0, True)"
  shows "(t, True) \<in> set (fst (update_observations observerOptions (root_bounds observerOptions vw vh)
                               geo prev (observed s))) \<and>
         ''animated'' \<in> classes (fst (step (Intersect (fst (update_observations observerOptions
                          (root_bounds observerOptions vw vh) geo prev (observed s)))) (s, q))) t"
proof -
  let ?es = "fst (update_observations observerOptions (root_bounds observerOptions vw vh) geo prev (observed s))"
  have "(t, True) \<in> set ?es"
    using update_observations_entry [OF assms(1,2), of prev observerOptions
        "root_bounds observerOptions vw vh" geo]
      assms(3,5) threshold_index_below [OF assms(4)] by simp
  moreover from this have "(t, True) \<in> set (filter (\<lambda>x. fst x \<in> set (observed s)) ?es)"
    using assms(1) by simp
  ultimately show ?thesis by (simp add: with_timers_def intersection_callback_animates)
qed

theorem observer_animates_below_threshold_witness:
  "''animated'' \<in> classes (fst (step (Intersect (fst (update_observations observerOptions
       (root_bounds observerOptions 1280 800)
       (\<lambda>_. \<lparr>rect_x = 0, rect_y = 740, rect_w = 100, rect_h = 200\<rparr>) fresh_registration
       (observed demo_page)))) (demo_page, empty_queue))) 60"
proof -
  let ?g = "\<lambda>_ :: elem. \<lparr>rect_x = 0 :: rat, rect_y = 740, rect_w = 100, rect_h = 200\<rparr>"
  have "observed demo_page = [70, 60]"
    by (simp add: observed_def demo_page_def demo_doc_def demo_selectors_def)
  moreover have "intersecting (root_bounds observerOptions 1280 800) (?g 60)"
    "intersection_ratio (root_bounds observerOptions 1280 800) (?g 60) < 1 / 10"
    by (simp_all add: intersecting_def intersection_ratio_def root_bounds_def observerOptions_def
        overlap_w_def overlap_h_def)
  ultimately show ?thesis
    using observer_animates_below_threshold [of 60 demo_page 1280 800 ?g fresh_registration empty_queue]
    by (simp add: fresh_registration_def)
qed

end
