(* ===== verification/Spec2Isabelle.thy ===== *)
theory Spec2Isabelle
  imports PageInv FormPhase Utilities MenuCss Floating Visibility
begin

text \<open>
  \<^bold>\<open>A model of \<open>src/app.js\<close>.\<close>
  The program is one class, \<open>CloudPortfolio\<close>, constructed by the
  \<open>DOMContentLoaded\<close> handler at the end of the file. The constructor reads the
  page's elements (\<open>init\<close>), registers the listeners (\<open>setupEventListeners\<close>,
  \<open>setupProjectCards\<close>, \<open>setupCTAButtons\<close>), starts the intersection observer,
  fills the particle container, binds the parallax layers and schedules the skill
  entrance. From then on the page is driven by browser events (mouse, scroll,
  resize, clicks, touches, form submission, intersection entries, animation
  frames) and by the timers the handlers set. All handlers share one object, whose
  fields and whose effects on the document are the state of the model.

  \<^bold>\<open>State and effects.\<close>
  \<^item> \<open>Prelude\<close>: JavaScript numbers as \<open>rat\<close> (the code only adds, multiplies
    and divides; no branch depends on rounding), times as \<open>nat\<close> milliseconds,
    window sizes as \<open>int\<close>, elements as numbers; the fact collections
    \<open>page_defs\<close>, \<open>core_eq_rules\<close> and \<open>untouched_rules\<close>; generic lemmas on
    last-match scans and iterated functions.
  \<^item> \<open>Dom\<close>: the part of the DOM the code touches. A \<open>document\<close> record answers
    \<open>getElementById\<close>, \<open>querySelectorAll\<close> (on the document and on an element),
    \<open>getAttribute\<close>, \<open>offsetTop\<close>, \<open>clientHeight\<close>, \<open>getBoundingClientRect\<close>
    the form's default values, whether the browser supports service workers, each
    element's ancestors and its position among its siblings (for selector
    matching); it never changes. Inline styles are a record
    per element, the \<open>transform\<close> a list of CSS functions (the code appends with
    \<open>+=\<close> and overwrites with \<open>=\<close>); class lists are sets.
  \<^item> \<open>Timers\<close>: the browser's timer queue, generic in the callback type. Timers
    fire by due time and, among equal times, in creation order; \<open>run_until\<close>
    lets the clock run with fuel counting fired callbacks, with monotonicity in the
    fuel and a termination lemma by a weight that bounds how many callbacks each
    pending timer still causes; \<open>queue_wf\<close> is the queue's well-formedness.
  \<^item> \<open>State\<close>: the \<open>portfolio\<close> record, the fields of \<open>init\<close> (lines 13--32) and
    what the handlers change: styles, classes, particle nodes, ripple elements,
    button text and state, form values, queued animation-frame callbacks, the
    console, the \<open>window.scrollTo\<close> calls and uncaught exceptions; the
    \<open>task\<close> datatype names every \<open>setTimeout\<close> callback of the file.
    Handlers return the state and the \<open>setTimeout\<close> calls they make; a
    \<open>world\<close> pairs the state with the timer queue. \<open>Demo\<close> is a concrete
    document and page on which the witnesses evaluate the handlers.

  \<^bold>\<open>Components.\<close> One theory each, definitions named after the methods.
  \<^item> \<open>Pointer\<close>: the \<open>mousemove\<close> listener (lines 58--65), \<open>requestTick\<close>
    (183--191), \<open>updateParallax\<close> (171--181) and the animation-frame queue.
    Lemmas: a burst of moves queues one frame and the frame applies the last
    position (C1); the throttle invariant (C2); normalised coordinates lie in
    \<open>[-1, 1]\<close> (C3); the transform each layer receives (C4).
  \<^item> \<open>Scroll\<close>: \<open>handleScroll\<close> (375--395) and \<open>updateActiveNavLink\<close>
    (397--416). Lemmas: the active link (C5, C6), the navbar alpha, clamped from above only (C7), the
    cloud transforms (C9).
  \<^item> \<open>Menu\<close>: \<open>toggleMobileMenu\<close> (352--373). Each opening adds one more
    click listener to every menu link, and a link click runs all of them in
    turn (C10, C11); the hamburger and the panel stay consistent (C12).
  \<^item> \<open>Form\<close>: \<open>handleFormSubmit\<close> (418--446) with its two timer callbacks, as
    an \<open>error + effect\<close> value. Lemmas: the submit/sent/reset cycle restores the
    button with enough fuel (C13); a form without submit button throws (C14).
  \<^item> \<open>Resize\<close>: \<open>createParticles\<close> (105--155), \<open>setupParallax\<close> (157--169) and
    \<open>handleResize\<close> (448--462). Lemmas: the particle count invariant (C15), the
    particle bounds (C16), resizing across 768 px and back (C17, C18).
  \<^item> \<open>Observer\<close>: the observer callback (86--92), \<open>animateElement\<close>
    (209--223), \<open>animateSkillBar\<close> (225--235) and \<open>animateSkills\<close>
    (193--207). Lemmas C19--C21.
  \<^item> \<open>Visibility\<close>: where the observer's entries come from. The options of
    \<open>setupIntersectionObserver\<close> (\<open>observerOptions\<close>, lines 93--96) and the
    browser's update of intersection observations, modelled from the
    Intersection Observer specification (\<open>update_observations\<close>): bounding boxes
    against the viewport shortened by the 50px bottom margin, the visible ratio,
    its threshold index and the registration's previous state. The 10\% threshold
    does not gate the animation: a target less than 10\% visible still gets an
    \<open>isIntersecting\<close> entry on its first update or when it scrolls out past
    the threshold, and the page animates it (C29).
  \<^item> \<open>Interactions\<close>: project cards (237--272), call-to-action buttons
    (274--297), ripples (299--339) and the smooth anchor scroll (36--42, 341--350).
    Lemmas C22--C26; C26 includes that the global \<open>window.scrollToSection\<close>
    (497--506) behaves as the method.
  \<^item> \<open>Utilities\<close>: \<open>easeInOutCubic\<close> (464--466), which the class never calls:
    monotone, fixing its ends and midpoint, hence a map of the unit interval
    onto itself, and point symmetric about the midpoint (C31); and
    \<open>checkPerformance\<close> (488--493), also never called, which throws when the
    timing API has no navigation entry.
  \<^item> \<open>Floating\<close>: \<open>addFloatingAnimation\<close> (468--485), also never called, as
    one closure: its \<open>start\<close>, its arguments after the defaults, the
    \<open>translateY\<close> terms it appends and its pending frame request. Numbers are
    \<open>real\<close> here, because the offset is \<open>Math.sin(progress * 2\<pi>) * distance\<close>;
    \<open>%\<close> is JavaScript's truncating remainder, \<open>NaN\<close> for a zero duration. The
    frame loop never ends and every frame appends one bounded term (C8); the
    offset is periodic, but the terms add up, so frames at the same phase make the
    element drift by a multiple of the distance (C32).
  \<^item> \<open>Stylesheet\<close>: the rules the script injects at its top level
    (\<open>additionalStyles\<close>, lines 519--577) as data, and the CSS cascade
    (\<open>computed\<close>) that resolves one property of one element from them and the
    inline style the script writes: \<open>!important\<close> sheet declarations, then
    inline, then normal sheet declarations; specificity, then source order; the
    \<open>max-width: 768px\<close> query read against \<open>window.innerWidth\<close>. The sheet is
    appended when the script is evaluated, before \<open>DOMContentLoaded\<close>, so it
    applies to every page state. Lemmas: what the sheet gives the decorations'
    \<open>display\<close> and a hamburger bar's transform and opacity.
  \<^item> \<open>MenuCss\<close>: the menu as rendered. Opening the menu draws the cross; the
    third bar shows the inline transform, which overrides the injected rule that
    disagrees with it (C33).
  \<^item> \<open>Page\<close>: the constructor (4--11), the listener registration that depends
    on \<open>isMobile\<close> (lines 59 and 260), the \<open>DOMContentLoaded\<close> handler
    (509--517), the dispatcher \<open>run_task\<close> of every timer callback and
    \<open>step\<close>, which delivers one browser event to the listeners the code
    registered for it, the window's \<open>load\<close> listener of lines 579--585 included;
    \<open>module_export\<close> is the CommonJS export of lines 587--590.
    A submission reaches the form's listener only while its default button is
    enabled, the browser's rule (\<open>submission_blocked\<close>). \<open>reachable\<close> is the
    set of worlds a fresh document reaches by loading and any sequence of events.
  \<^item> \<open>PageInv\<close>: the page invariant and its preservation. Frame lemmas
    (\<open>core_eq\<close>, \<open>page_inv_transfer\<close>) reduce it to the few handlers that
    change the fields it reads.
  \<^item> \<open>Listeners\<close>: the projection \<open>untouched\<close> (listeners, form, document,
    disabled buttons) that every handler but the form's keeps, and that the
    listeners chosen at load never change.
  \<^item> \<open>FormPhase\<close>: the refinement of the form's specification (spec section
    4.5). \<open>form_spec\<close> is the cycle \<open>Idle \<rightarrow> Sending \<rightarrow> Sent \<rightarrow> Idle\<close>
    with stuttering, \<open>form_phase\<close> reads the phase off the pending form timers,
    and \<open>form_inv\<close> ties the disabled button to them. Lemmas: the invariant in
    every reachable page (C35), every step refines the specification (C36), a
    submission from idle goes through (C37), and none overlaps another (C38).
  \<^item> This theory: the properties of the whole page. The page invariant holds in
    every reachable world (C27, by rule induction); the listeners chosen at load
    by the window width never change, so a page loaded narrow never gets parallax
    and a page loaded wide never gets touch feedback (C28); the load
    schedules the skill timers and the \<open>loaded\<close> class (C30); the timers always
    run out (C39); the CSS animations stay paused until the 500 ms \<open>loaded\<close>
    callback has run (C40); the script's \<open>isMobile\<close> flag agrees with the sheet's media
    query, so the decorations are hidden exactly on pages the script treats as
    mobile (C34, from the viewport conjunct of the page invariant).

  \<^bold>\<open>Interfaces.\<close> \<open>Form\<close> and \<open>Interactions\<close> state what they need of the
  page's timer dispatcher as predicates (\<open>form_handler_ok\<close>,
  \<open>interaction_handler_ok\<close>) and prove their cycles for any dispatcher that
  satisfies them; \<open>Page\<close> shows that \<open>run_task\<close> does.

  \<^bold>\<open>Fuel.\<close> Every fuel bound counts callbacks fired: 2 for the form cycle
  (\<open>FormSent\<close>, then \<open>FormReset\<close>), 1 for a ripple's removal and for a touch's
  release; each callback schedules at most one further callback and none loops,
  so these are exact. \<open>run_until_mono\<close> shows more fuel gives the same result.
  For the whole page (C39) the fuel is the queue's weight: one per pending timer,
  plus one for each skill item's hide callback and each form's first callback
  (\<open>task_depth\<close>), since exactly those set one more timer.

  \<^bold>\<open>Not modelled.\<close> The keyframe texts injected by
  \<open>createParticles\<close>/\<open>createRipple\<close> (only their presence is modelled) and the
  host page's own stylesheet (the cascade covers the injected rules and the inline
  styles only), the layout that gives the elements their bounding boxes (an
  input of \<open>update_observations\<close>), the browser's smooth scrolling (only the \<open>scrollTo\<close> target is
  modelled) and floating-point rounding.
\<close>

section \<open>Properties of the whole page\<close>

text \<open>
  C27: in every page reachable by loading a fresh document and delivering any
  sequence of events, the frame throttle, the particle count, the menu's
  consistency and the ripple numbering all hold, and \<open>isMobile\<close> agrees with
  the window width.
\<close>

theorem reachable_page_inv:
  assumes "reachable w"
  shows "page_inv w"
  using assms by (induction rule: reachable.induct) (simp_all add: load_page_inv step_page_inv)

theorem reachable_page_inv_witness:
  "reachable (run_events [MouseMove 10 20, Resize 375 800, Frame] (page_load demo_page)) \<and>
   page_inv (run_events [MouseMove 10 20, Resize 375 800, Frame] (page_load demo_page))"
proof -
  have r: "reachable (run_events [MouseMove 10 20, Resize 375 800, Frame] (page_load demo_page))"
    by (rule reachable_run_events [OF reachable.load [OF demo_fresh]])
  show ?thesis using r reachable_page_inv [OF r] by simp
qed

text \<open>The listeners chosen at load, by event.\<close>

lemma mousemove_after_mobile_load:
  assumes "mobile_width (inner_width s)"
  shows "step (MouseMove x y) (run_events es (page_load s)) = run_events es (page_load s)"
proof -
  have "listeners (fst (run_events es (page_load s))) = (False, True)"
    using assms by (simp add: listeners_run_events listeners_page_load)
  then show ?thesis
    by (cases "run_events es (page_load s)") (simp add: listeners_def)
qed

lemma touch_after_desktop_load:
  assumes "\<not> mobile_width (inner_width s)"
  shows "step (TouchStart c) (run_events es (page_load s)) = run_events es (page_load s)"
proof -
  have "listeners (fst (run_events es (page_load s))) = (True, False)"
    using assms by (simp add: listeners_run_events listeners_page_load)
  then show ?thesis
    by (cases "run_events es (page_load s)") (simp add: listeners_def card_touchstart_def)
qed

text \<open>
  C28: the window width at load fixes the pointer features for good. On a page
  loaded in a mobile-width window the \<open>mousemove\<close> listener is never added, so
  however the page is used afterwards (resizing it to desktop width included) a
  mouse move changes nothing: no parallax on a window that was narrow at load.
  On a page loaded in a desktop-width window the project cards get no touch
  listeners, so after any events (resizing to mobile width included) a touch on
  a card changes nothing.
\<close>

theorem mobile_load_ignores_mousemove:
  "(mobile_width (inner_width s) \<longrightarrow>
      step (MouseMove x y) (run_events es (page_load s)) = run_events es (page_load s)) \<and>
   (\<not> mobile_width (inner_width s) \<longrightarrow>
      step (TouchStart c) (run_events es (page_load s)) = run_events es (page_load s))"
  using mousemove_after_mobile_load [of s x y es] touch_after_desktop_load [of s c es] by blast

theorem mobile_load_ignores_mousemove_witness:
  "\<not> isMobile (fst (run_events [Resize 1280 800] (page_load (demo_page\<lparr>inner_width := 375\<rparr>)))) \<and>
   step (MouseMove 10 20) (run_events [Resize 1280 800] (page_load (demo_page\<lparr>inner_width := 375\<rparr>))) =
     run_events [Resize 1280 800] (page_load (demo_page\<lparr>inner_width := 375\<rparr>)) \<and>
   isMobile (fst (run_events [Resize 375 800] (page_load demo_page))) \<and>
   step (TouchStart 60) (run_events [Resize 375 800] (page_load demo_page)) =
     run_events [Resize 375 800] (page_load demo_page)"
proof -
  have m: "step (MouseMove 10 20) (run_events [Resize 1280 800] (page_load (demo_page\<lparr>inner_width := 375\<rparr>))) =
      run_events [Resize 1280 800] (page_load (demo_page\<lparr>inner_width := 375\<rparr>))"
    using mobile_load_ignores_mousemove [of "demo_page\<lparr>inner_width := 375\<rparr>" 10 20 "[Resize 1280 800]" 60]
      demo_mobile by blast
  have "\<not> mobile_width (inner_width demo_page)" by (simp add: mobile_width_def demo_page_def)
  then have t: "step (TouchStart 60) (run_events [Resize 375 800] (page_load demo_page)) =
      run_events [Resize 375 800] (page_load demo_page)"
    using mobile_load_ignores_mousemove [of demo_page 10 20 "[Resize 375 800]" 60] by blast
  have "\<not> isMobile (fst (run_events [Resize 1280 800] (page_load (demo_page\<lparr>inner_width := 375\<rparr>))))"
    by (cases "page_load (demo_page\<lparr>inner_width := 375\<rparr>)") (simp add: run_events_def mobile_width_def)
  moreover have "isMobile (fst (run_events [Resize 375 800] (page_load demo_page)))"
    by (cases "page_load demo_page") (simp add: run_events_def mobile_width_def)
  ultimately show ?thesis using m t by blast
qed

text \<open>
  C30: loading the page schedules, in this order, one \<open>setTimeout\<close> per skill
  item at \<open>200 i\<close> ms for the \<open>i\<close>-th item and the \<open>loaded\<close> class at 500 ms,
  all measured from time 0.
\<close>

theorem page_load_timers:
  "map (\<lambda>(d, i, f). (d, f)) (pending (snd (page_load s))) =
     map (\<lambda>x. (fst x * 200, SkillHide (snd x))) (enumerate 0 (select_all (doc s) ''.skill-item'')) @
     [(500, BodyLoaded)]"
proof -
  let ?L = "map (\<lambda>x. (fst x * 200, SkillHide (snd x))) (enumerate 0 (select_all (doc s) ''.skill-item'')) @
     [(500, BodyLoaded)]"
  have q: "pending (snd (page_load s)) = map (\<lambda>(k, d, f). (d, k, f)) (enumerate 0 ?L)"
    unfolding page_load_def with_timers_def
    by (subst page_load_effects) (simp add: schedule_pending empty_queue_def)
  have "map (\<lambda>(d, i, f). (d, f)) (map (\<lambda>(k, d, f). (d, k, f)) (enumerate n ts)) = ts"
    for n and ts :: "(ms \<times> task) list"
    by (induction ts arbitrary: n) (simp_all split: prod.splits)
  then show ?thesis by (simp only: q)
qed

text \<open>
  C39. The timers of the page always run out: whatever is pending, the event loop
  fires every timer due by any time \<open>t\<close>, the ones the fired callbacks set
  included, within as many callbacks as the queue's weight (each pending timer
  counts once, plus one for a skill item's hide callback and for the form's first
  callback, which each set one more timer).
\<close>

theorem page_timers_drain:
  "\<exists>s' q'. run_until (queue_weight task_depth q) run_task t (s, q) = Some (s', q') \<and>
          next_timer t q' = None"
proof -
  obtain r where r: "run_until (queue_weight task_depth q) run_task t (s, q) = Some r"
    using run_until_weight_terminates [of task_depth run_task q "queue_weight task_depth q" t s]
      run_task_weight by blast
  obtain s' q' where "r = (s', q')" by (cases r)
  with r show ?thesis using run_until_all_fired [of _ run_task t s q s' q'] next_timer_None by blast
qed

text \<open>
  The timer queue of every reachable page is well formed: creation numbers are
  distinct and below the counter, and no timer is due before the clock; and no
  step moves the clock back.
\<close>

lemma reachable_queue_wf:
  assumes "reachable w"
  shows "queue_wf (snd w) \<and> now (snd w) \<le> now (snd (step e w))"
  using queue_wf_reachable [OF assms] step_queue_wf [of "snd w" e "fst w"] by simp

lemma page_load_classes [simp]:
  "classes (fst (page_load s)) = classes s" "doc (fst (page_load s)) = doc s"
  by (simp_all add: page_load_state setupEventListeners_def init_def setupParallax_def)

text \<open>
  C40. Animations wait for the \<open>loaded\<close> class. The injected rule
  \<open>body:not(.loaded) *\<close> pauses the CSS animations of every element inside the
  body: on a document whose body is not yet \<open>loaded\<close>, every such element is
  paused right after the \<open>DOMContentLoaded\<close> handler, which sets the 500 ms timer
  \<open>BodyLoaded\<close> as its last timer; once that callback has run, no element is
  paused any more, whatever the page looks like.
\<close>

theorem animations_paused_until_loaded:
  assumes "body_el (doc s) \<in> set (ancestors (doc s) e)" and "''loaded'' \<notin> classes s (body_el (doc s))"
  shows "computed additionalStyles (fst (page_load s)) hov e ''animation-play-state'' =
           Some (VText ''paused'') \<and>
         last (snd (dom_content_loaded s)) = (500, BodyLoaded) \<and>
         (\<forall>t e'. computed additionalStyles (fst (run_task BodyLoaded t)) hov e' ''animation-play-state'' = None)"
proof -
  have "computed additionalStyles (fst (run_task BodyLoaded t)) hov e' ''animation-play-state'' = None"
    for t e' by (simp add: computed_play_state body_loaded_def class_add_def)
  moreover have "last (snd (dom_content_loaded s)) = (500, BodyLoaded)"
    by (subst page_load_effects) simp
  ultimately show ?thesis using assms by (simp add: computed_play_state)
qed

theorem animations_paused_until_loaded_witness:
  "computed additionalStyles (fst (page_load demo_page)) (\<lambda>_. False) 10 ''animation-play-state'' =
     Some (VText ''paused'') \<and>
   computed additionalStyles (fst (run_task BodyLoaded (fst (page_load demo_page)))) (\<lambda>_. False) 10
     ''animation-play-state'' = None"
proof -
  have "body_el (doc demo_page) \<in> set (ancestors (doc demo_page) 10)"
    "''loaded'' \<notin> classes demo_page (body_el (doc demo_page))"
    by (simp_all add: demo_page_def demo_doc_def)
  from animations_paused_until_loaded [OF this, of "\<lambda>_. False"] show ?thesis by blast
qed

text \<open>
  C34. In every reachable page the script's \<open>isMobile\<close> flag, which decides
  whether particles and the parallax run, agrees with the injected stylesheet's
  \<open>max-width: 768px\<close> query: the floating clouds and server racks are hidden
  (\<open>display: none\<close>) exactly when the script treats the page as mobile.
\<close>

theorem reachable_display_mobile:
  assumes "reachable w"
  shows "computed additionalStyles (fst w) hov e ''display'' =
           (if isMobile (fst w) \<and>
               (''floating-cloud'' \<in> classes (fst w) e \<or> ''server-rack'' \<in> classes (fst w) e)
            then Some (VText ''none'') else None)"
proof -
  have "viewport_ok (fst w)" using page_inv_reachable [OF assms] by (simp add: page_inv_def)
  then show ?thesis by (simp add: computed_display viewport_ok_def mobile_width_def)
qed

theorem reachable_display_mobile_witness:
  "computed additionalStyles (fst (page_load demo_page)) (\<lambda>_. False) 10 ''display'' =
     (if isMobile (fst (page_load demo_page)) \<and>
         (''floating-cloud'' \<in> classes (fst (page_load demo_page)) 10 \<or>
          ''server-rack'' \<in> classes (fst (page_load demo_page)) 10)
      then Some (VText ''none'') else None)"
  by (rule reachable_display_mobile [OF reachable.load [OF demo_fresh]])

end
